theory Spec2Isabelle
  imports Main "HOL-Library.Sublist"
begin

section \<open>Conventions\<close>

text \<open>
  The development embeds the three TypeScript units of the repository: the URL builders of
  \<^verbatim>\<open>utils/repo.ts\<close>, the flag-aware \<^verbatim>\<open>init\<close> command and the older
  \<^verbatim>\<open>init\<close> command that precedes it (called \<open>legacyInit\<close> here).

  A JavaScript string is a \<^typ>\<open>string\<close>; a character stands for a UTF-16 code unit
  below 256. Helpers that the units import from modules outside the three units
  (\<^verbatim>\<open>isTailwind\<close>, \<^verbatim>\<open>isLaravel\<close>, \<^verbatim>\<open>availablesGrays\<close>,
  \<^verbatim>\<open>possibilityComponentsPath\<close>, \<^verbatim>\<open>changeGray\<close>, \<^verbatim>\<open>configManager\<close>, ...) are
  parameters: their answers are fields of the record \<open>env\<close>, and so are the answers of
  \<^verbatim>\<open>fetch\<close> and of the parser of JSON with comments. Node's \<^verbatim>\<open>path\<close> module is
  modelled for POSIX hosts.
\<close>

type_synonym path = string

section \<open>JavaScript strings\<close>

text \<open>
  The characters that \<^verbatim>\<open>String.prototype.trim\<close> removes and that \<^verbatim>\<open>\s\<close> matches, among the
  code units below 256: tab, line feed, vertical tab, form feed, carriage return, space
  and the no-break space.
\<close>

definition isWhiteSpace :: "char \<Rightarrow> bool" where
  "isWhiteSpace c =
     (c \<in> set [CHR 0x09, CHR 0x0A, CHR 0x0B, CHR 0x0C, CHR 0x0D, CHR 0x20, CHR 0xA0])"

definition trim :: "string \<Rightarrow> string" where
  "trim s = rev (dropWhile isWhiteSpace (rev (dropWhile isWhiteSpace s)))"

text \<open>\<^verbatim>\<open>s.replace(pat, rep)\<close> for a string pattern: the first occurrence only.\<close>

fun replaceFirst :: "string \<Rightarrow> string \<Rightarrow> string \<Rightarrow> string" where
  "replaceFirst pat rep [] = (if pat = [] then rep else [])"
| "replaceFirst pat rep (c # cs) =
     (if take (length pat) (c # cs) = pat then rep @ drop (length pat) (c # cs)
      else c # replaceFirst pat rep cs)"

text \<open>\<^verbatim>\<open>s.endsWith(ending)\<close>.\<close>

definition endsWith :: "string \<Rightarrow> string \<Rightarrow> bool" where
  "endsWith s ending = (take (length ending) (rev s) = rev ending)"

text \<open>\<^verbatim>\<open>parts.join(sep)\<close>.\<close>

definition joinWith :: "string \<Rightarrow> string list \<Rightarrow> string" where
  "joinWith sep parts =
     (case parts of [] \<Rightarrow> [] | p # ps \<Rightarrow> foldl (\<lambda>acc q. acc @ sep @ q) p ps)"

text \<open>
  \<^verbatim>\<open>JSON.stringify\<close> of a string: quotes, backslashes and control characters are
  escaped.
\<close>

definition hexDigit :: "nat \<Rightarrow> char" where
  "hexDigit n = (''0123456789abcdef'' ! (n mod 16))"

definition jsonEscape :: "char \<Rightarrow> string" where
  "jsonEscape c =
     (if c = CHR 0x22 then [CHR 0x5C, CHR 0x22]
      else if c = CHR 0x5C then [CHR 0x5C, CHR 0x5C]
      else if c = CHR 0x08 then [CHR 0x5C, CHR ''b'']
      else if c = CHR 0x09 then [CHR 0x5C, CHR ''t'']
      else if c = CHR 0x0A then [CHR 0x5C, CHR ''n'']
      else if c = CHR 0x0C then [CHR 0x5C, CHR ''f'']
      else if c = CHR 0x0D then [CHR 0x5C, CHR ''r'']
      else if (of_char c :: nat) < 32
        then [CHR 0x5C, CHR ''u'', CHR ''0'', CHR ''0'',
              hexDigit (of_char c div 16), hexDigit (of_char c)]
      else [c])"

definition jsonString :: "string \<Rightarrow> string" where
  "jsonString s = [CHR 0x22] @ concat (map jsonEscape s) @ [CHR 0x22]"

section \<open>Node's path module (POSIX)\<close>

text \<open>\<^verbatim>\<open>p.split("/")\<close>.\<close>

fun splitSlash :: "string \<Rightarrow> string list" where
  "splitSlash [] = [[]]"
| "splitSlash (c # cs) =
     (if c = CHR ''/'' then [] # splitSlash cs
      else (case splitSlash cs of seg # segs \<Rightarrow> (c # seg) # segs | [] \<Rightarrow> [[c]]))"

text \<open>
  One round of the loop of \<^verbatim>\<open>normalizeString\<close>, by path segment: an empty segment and
  \<^verbatim>\<open>.\<close> are dropped; \<^verbatim>\<open>..\<close> removes the segment before it unless that one is
  \<^verbatim>\<open>..\<close> itself or there is none, and is kept only where the path may climb above its
  start; any other segment is kept. The result so far is held last segment first.
\<close>

definition normalizeStep :: "bool \<Rightarrow> string list \<Rightarrow> string \<Rightarrow> string list" where
  "normalizeStep allowAboveRoot res seg =
     (if seg = [] \<or> seg = ''.'' then res
      else if seg = ''..'' then
        (case res of
           lastSeg # before \<Rightarrow>
             if lastSeg \<noteq> ''..'' then before
             else if allowAboveRoot then ''..'' # res else res
         | [] \<Rightarrow> if allowAboveRoot then [''..''] else [])
      else seg # res)"

definition normalizeString :: "string \<Rightarrow> bool \<Rightarrow> string" where
  "normalizeString p allowAboveRoot =
     joinWith ''/'' (rev (foldl (normalizeStep allowAboveRoot) [] (splitSlash p)))"

definition path_normalize :: "path \<Rightarrow> path" where
  "path_normalize p =
     (if p = [] then ''.''
      else
        let isAbsolute = (hd p = CHR ''/'');
            trailingSeparator = (last p = CHR ''/'');
            q = normalizeString p (\<not> isAbsolute)
        in if q = [] then (if isAbsolute then ''/'' else if trailingSeparator then ''./'' else ''.'')
           else (if isAbsolute then ''/'' else []) @ q @ (if trailingSeparator then ''/'' else []))"

text \<open>\<^verbatim>\<open>path.join(...args)\<close>: the non-empty arguments, joined by a slash and normalized.\<close>

definition path_join :: "path list \<Rightarrow> path" where
  "path_join args =
     (case filter (\<lambda>arg. arg \<noteq> []) args of
        [] \<Rightarrow> ''.''
      | parts \<Rightarrow> path_normalize (joinWith ''/'' parts))"

text \<open>
  \<^verbatim>\<open>path.dirname(p)\<close>: scanning from the end and never looking at the first character, the
  trailing slashes and the last name are passed over; the path up to the slash before that
  name is the result.
\<close>

definition path_dirname :: "path \<Rightarrow> path" where
  "path_dirname p =
     (if p = [] then ''.''
      else
        let hasRoot = (hd p = CHR ''/'');
            afterName = dropWhile (\<lambda>c. c \<noteq> CHR ''/'')
                          (dropWhile (\<lambda>c. c = CHR ''/'') (rev (tl p)));
            endIdx = length afterName
        in if afterName = [] then (if hasRoot then ''/'' else ''.'')
           else if hasRoot \<and> endIdx = 1 then ''//''
           else take endIdx p)"

text \<open>
  \<^verbatim>\<open>path.basename(p)\<close>: the last name of the path, the slashes after it left out.
\<close>

definition path_basename :: "path \<Rightarrow> path" where
  "path_basename p =
     rev (takeWhile (\<lambda>c. c \<noteq> CHR ''/'') (dropWhile (\<lambda>c. c = CHR ''/'') (rev p)))"

section \<open>The URL builders (utils/repo.ts)\<close>

text \<open>
  How a builder can end other than by returning: \<^verbatim>\<open>error(msg); process.exit(code)\<close>
  or \<^verbatim>\<open>throw new Error(msg)\<close>.
\<close>

datatype abort = ProcessExit string nat | Thrown string

definition REPO :: string where
  "REPO = ''https://raw.githubusercontent.com/irsyadadl/justd''"

text \<open>\<^verbatim>\<open>isTailwind(3) ? "1.x" : "2.x"\<close>; the argument is the answer of \<^verbatim>\<open>isTailwind(3)\<close>.\<close>

definition branchWorkingOn :: "bool \<Rightarrow> string" where
  "branchWorkingOn tw3 = (if tw3 then ''1.x'' else ''2.x'')"

definition BRANCH :: "bool \<Rightarrow> string" where
  "BRANCH tw3 = branchWorkingOn tw3"

definition THEMES_URL :: "bool \<Rightarrow> string" where
  "THEMES_URL tw3 = REPO @ ''/refs/heads/'' @ BRANCH tw3 @ ''/resources/styles/themes''"

definition getThemesRepoUrl :: "string list \<Rightarrow> bool \<Rightarrow> string \<Rightarrow> abort + string" where
  "getThemesRepoUrl availablesGrays tw3 gray =
     (if gray \<notin> set availablesGrays
      then Inl (ProcessExit (''Invalid gray provided: '' @ gray) 1)
      else let selectedGray = THEMES_URL tw3 @ ''/'' @ gray @ ''.css'' in
        if selectedGray = [] then Inl (ProcessExit ''Failed to get the gray url'' 1)
        else Inr selectedGray)"

definition getRepoUrlForComponent :: "bool \<Rightarrow> string \<Rightarrow> abort + string" where
  "getRepoUrlForComponent tw3 componentName =
     (let repoUrl = REPO @ ''/'' @ BRANCH tw3 @ ''/components/ui/'' @ componentName @ ''.tsx'' in
      if repoUrl = [] then Inl (Thrown ''REPO_URL environment variable is not set'')
      else Inr repoUrl)"

definition getUtilsFolder :: "bool \<Rightarrow> string \<Rightarrow> abort + string" where
  "getUtilsFolder tw3 file =
     (let utils = REPO @ ''/refs/heads/'' @ BRANCH tw3 @ ''/utils/'' @ file in
      if utils = [] then Inl (Thrown ''REPO_URL environment variable is not set'')
      else Inr utils)"

section \<open>The client-directive pattern\<close>

text \<open>
  \<^verbatim>\<open>/['"]use client['"]\s*\n?/g\<close>, as \<^verbatim>\<open>init\<close> applies it to a fetched component for
  a Laravel host.
\<close>

definition isQuote :: "char \<Rightarrow> bool" where
  "isQuote c = (c = CHR 0x27 \<or> c = CHR 0x22)"

text \<open>
  A match at the very start of \<open>s\<close>: what follows the match, if there is one. After the
  closing quote \<^verbatim>\<open>\s*\<close> takes the longest run of white space (nothing after it can fail,
  so it never gives a character back) and \<^verbatim>\<open>\n?\<close> takes a line feed if one is next.
\<close>

definition matchUseClient :: "string \<Rightarrow> string option" where
  "matchUseClient s =
     (case s of
        [] \<Rightarrow> None
      | q # r \<Rightarrow>
          if isQuote q \<and> take 10 r = ''use client'' then
            (case drop 10 r of
               [] \<Rightarrow> None
             | q' # r' \<Rightarrow>
                 if isQuote q' then
                   (let r1 = dropWhile isWhiteSpace r' in
                    Some (case r1 of [] \<Rightarrow> [] | c # r2 \<Rightarrow> if c = CHR 0x0A then r2 else r1))
                 else None)
          else None)"

text \<open>
  \<^verbatim>\<open>s.replace(/['"]use client['"]\s*\n?/g, "")\<close>: the matches are found from left to
  right, each search starting where the match before it ended.
\<close>

function replaceUseClient :: "string \<Rightarrow> string" where
  "replaceUseClient [] = []"
| "replaceUseClient (c # cs) =
     (case matchUseClient (c # cs) of
        Some rest \<Rightarrow> replaceUseClient rest
      | None \<Rightarrow> c # replaceUseClient cs)"
  by pat_completeness auto
termination
proof (relation "measure length")
  show "wf (measure length)" by simp
next
  fix c :: char and cs rest :: string
  assume m: "matchUseClient (c # cs) = Some rest"
  then obtain q' r' where d: "drop 10 cs = q' # r'"
    by (cases "drop 10 cs") (auto simp: matchUseClient_def split: if_splits)
  have "length (dropWhile isWhiteSpace r') \<le> length r'" by (rule length_dropWhile_le)
  moreover have "length r' < length cs"
    using d by (metis length_drop length_Cons diff_le_self le_imp_less_Suc not_less_eq_eq not_less)
  moreover from m d have "length rest \<le> length (dropWhile isWhiteSpace r')"
    by (auto simp: matchUseClient_def Let_def split: if_splits list.splits)
  ultimately show "(rest, c # cs) \<in> measure length" by simp
qed simp

text \<open>Lines 340 to 344 of \<^verbatim>\<open>init\<close>: the directive is stripped for a Laravel host only.\<close>

definition laravelTransform :: "bool \<Rightarrow> string \<Rightarrow> string" where
  "laravelTransform laravel fileContent =
     (if laravel then replaceUseClient fileContent else fileContent)"

text \<open>Whether the pattern matches anywhere in a text, and a text built from its lines.\<close>

fun hasUseClient :: "string \<Rightarrow> bool" where
  "hasUseClient [] = False"
| "hasUseClient (c # cs) = (matchUseClient (c # cs) \<noteq> None \<or> hasUseClient cs)"

definition unlines :: "string list \<Rightarrow> string" where
  "unlines ls = concat (map (\<lambda>l. l @ [CHR 0x0A]) ls)"

section \<open>JSON values\<close>

text \<open>
  What \<^verbatim>\<open>JSON.parse\<close> returns. A number is held as JavaScript prints it, so zero is
  \<^verbatim>\<open>0\<close>; an object is held as its properties in the order of \<^verbatim>\<open>Object.keys\<close>, each name
  once.
\<close>

datatype json =
    JNull
  | JBool bool
  | JNumber string
  | JString string
  | JArray "json list"
  | JObject "(string \<times> json) list"

text \<open>Whether a value counts as true in a condition.\<close>

definition truthy :: "json \<Rightarrow> bool" where
  "truthy v =
     (case v of
        JNull \<Rightarrow> False
      | JBool b \<Rightarrow> b
      | JNumber n \<Rightarrow> n \<noteq> ''0''
      | JString s \<Rightarrow> s \<noteq> []
      | JArray xs \<Rightarrow> True
      | JObject props \<Rightarrow> True)"

definition quoted :: "string \<Rightarrow> string" where
  "quoted s = [CHR 0x27] @ s @ [CHR 0x27]"

text \<open>\<^verbatim>\<open>typeof v\<close> and \<^verbatim>\<open>String(v)\<close> of a value that is not an object; empty otherwise.\<close>

definition primitiveType :: "json \<Rightarrow> string" where
  "primitiveType v =
     (case v of
        JBool b \<Rightarrow> ''boolean''
      | JNumber n \<Rightarrow> ''number''
      | JString s \<Rightarrow> ''string''
      | JNull \<Rightarrow> []
      | JArray xs \<Rightarrow> []
      | JObject props \<Rightarrow> [])"

definition primitiveText :: "json \<Rightarrow> string" where
  "primitiveText v =
     (case v of
        JNull \<Rightarrow> ''null''
      | JBool b \<Rightarrow> (if b then ''true'' else ''false'')
      | JNumber n \<Rightarrow> n
      | JString s \<Rightarrow> s
      | JArray xs \<Rightarrow> []
      | JObject props \<Rightarrow> [])"

text \<open>
  The read \<^verbatim>\<open>v.name\<close>, for a name that no prototype defines and that is no index:
  \<open>None\<close> is \<^verbatim>\<open>undefined\<close>; reading from \<^verbatim>\<open>null\<close> throws a \<^verbatim>\<open>TypeError\<close>, here
  and below with the message of V8.
\<close>

definition getProperty :: "json \<Rightarrow> string \<Rightarrow> string + json option" where
  "getProperty v name =
     (case v of
        JNull \<Rightarrow> Inl (''Cannot read properties of null (reading '' @ quoted name @ '')'')
      | JObject props \<Rightarrow> Inr (map_of props name)
      | JBool b \<Rightarrow> Inr None
      | JNumber n \<Rightarrow> Inr None
      | JString s \<Rightarrow> Inr None
      | JArray xs \<Rightarrow> Inr None)"

text \<open>\<^verbatim>\<open>name in v\<close>, for such a name: only an object or an array can be searched.\<close>

definition hasProperty :: "string \<Rightarrow> json \<Rightarrow> string + bool" where
  "hasProperty name v =
     (case v of
        JObject props \<Rightarrow> Inr (map_of props name \<noteq> None)
      | JArray xs \<Rightarrow> Inr False
      | JNull \<Rightarrow> Inl (''Cannot use '' @ quoted ''in'' @ '' operator to search for ''
                          @ quoted name @ '' in '' @ primitiveText v)
      | JBool b \<Rightarrow> Inl (''Cannot use '' @ quoted ''in'' @ '' operator to search for ''
                          @ quoted name @ '' in '' @ primitiveText v)
      | JNumber n \<Rightarrow> Inl (''Cannot use '' @ quoted ''in'' @ '' operator to search for ''
                          @ quoted name @ '' in '' @ primitiveText v)
      | JString s \<Rightarrow> Inl (''Cannot use '' @ quoted ''in'' @ '' operator to search for ''
                          @ quoted name @ '' in '' @ primitiveText v))"

text \<open>
  A property set on an object: the value of an existing property is replaced where it
  stands, a new property comes last.
\<close>

fun setKey :: "string \<Rightarrow> json \<Rightarrow> (string \<times> json) list \<Rightarrow> (string \<times> json) list" where
  "setKey name x [] = [(name, x)]"
| "setKey name x ((k, v) # props) =
     (if k = name then (name, x) # props else (k, v) # setKey name x props)"

text \<open>
  The value as \<^verbatim>\<open>JSON.stringify\<close> sees it after \<^verbatim>\<open>v.name = x\<close>: a property set on an
  array is not printed.
\<close>

definition withProperty :: "json \<Rightarrow> string \<Rightarrow> json \<Rightarrow> json" where
  "withProperty v name x =
     (case v of
        JObject props \<Rightarrow> JObject (setKey name x props)
      | JNull \<Rightarrow> v
      | JBool b \<Rightarrow> v
      | JNumber n \<Rightarrow> v
      | JString s \<Rightarrow> v
      | JArray xs \<Rightarrow> v)"

text \<open>
  The assignment \<^verbatim>\<open>v.name = x\<close> in a module (strict mode): it throws on \<^verbatim>\<open>null\<close> and
  on a boolean, a number and a string.
\<close>

definition assignProperty :: "json \<Rightarrow> string \<Rightarrow> json \<Rightarrow> string + json" where
  "assignProperty v name x =
     (case v of
        JObject props \<Rightarrow> Inr (withProperty v name x)
      | JArray xs \<Rightarrow> Inr (withProperty v name x)
      | JNull \<Rightarrow> Inl (''Cannot set properties of null (setting '' @ quoted name @ '')'')
      | JBool b \<Rightarrow> Inl (''Cannot create property '' @ quoted name @ '' on '' @ primitiveType v
                          @ '' '' @ quoted (primitiveText v))
      | JNumber n \<Rightarrow> Inl (''Cannot create property '' @ quoted name @ '' on '' @ primitiveType v
                          @ '' '' @ quoted (primitiveText v))
      | JString s \<Rightarrow> Inl (''Cannot create property '' @ quoted name @ '' on '' @ primitiveType v
                          @ '' '' @ quoted (primitiveText v)))"

text \<open>A natural number in decimal, and \<^verbatim>\<open>Object.keys(v)\<close>.\<close>

fun decimal :: "nat \<Rightarrow> string" where
  "decimal n =
     (if n < 10 then [''0123456789'' ! n] else decimal (n div 10) @ [''0123456789'' ! (n mod 10)])"

declare decimal.simps [simp del]

definition objectKeys :: "json \<Rightarrow> string list" where
  "objectKeys v =
     (case v of
        JObject props \<Rightarrow> map fst props
      | JArray xs \<Rightarrow> map decimal [0..<length xs]
      | JString s \<Rightarrow> map decimal [0..<length s]
      | JNull \<Rightarrow> []
      | JBool b \<Rightarrow> []
      | JNumber n \<Rightarrow> [])"

text \<open>
  \<^verbatim>\<open>JSON.stringify(v, null, 2)\<close>, the first argument being the indentation of the line
  the value starts on.
\<close>

fun stringify :: "string \<Rightarrow> json \<Rightarrow> string" where
  "stringify indent JNull = ''null''"
| "stringify indent (JBool b) = (if b then ''true'' else ''false'')"
| "stringify indent (JNumber n) = n"
| "stringify indent (JString s) = jsonString s"
| "stringify indent (JArray xs) =
     (if xs = [] then ''[]''
      else ''['' @ [CHR 0x0A]
        @ joinWith ('','' @ [CHR 0x0A])
            (map (\<lambda>x. indent @ ''  '' @ stringify (indent @ ''  '') x) xs)
        @ [CHR 0x0A] @ indent @ '']'')"
| "stringify indent (JObject props) =
     (if props = [] then ''{}''
      else ''{'' @ [CHR 0x0A]
        @ joinWith ('','' @ [CHR 0x0A])
            (map (\<lambda>p. indent @ ''  '' @ jsonString (fst p) @ '': ''
                        @ stringify (indent @ ''  '') (snd p)) props)
        @ [CHR 0x0A] @ indent @ ''}'')"

section \<open>The host of a run\<close>

text \<open>How a run of a command ends. \<open>Pending\<close>: a prompt waits for an answer that never comes.\<close>

datatype outcome = Completed | Returned | Exited nat | Threw string | Pending

text \<open>
  One press of Enter at an \<^verbatim>\<open>input\<close> prompt of \<^verbatim>\<open>@inquirer/prompts\<close>: the user
  submits a line of their own (the empty line after erasing the offered default), or accepts
  the default untouched.
\<close>

datatype attempt = Submit string | AcceptDefault

datatype project_type = NextJs | Laravel | Vite | Other

text \<open>The \<^verbatim>\<open>Config\<close> object handed to \<^verbatim>\<open>configManager.createConfig\<close>.\<close>

record config =
  cfg_schema :: string
  cfg_ui :: path
  cfg_utils :: path
  cfg_gray :: "string option"
  cfg_css :: path
  cfg_alias :: "string option"

text \<open>
  What a run does to its surroundings, in order. Progress output (spinner start and
  succeed, \<^verbatim>\<open>console.info\<close>, \<^verbatim>\<open>console.log\<close>, the banner) is not recorded; failures and
  warnings are.
\<close>

datatype event =
    StartNewProject
  | GitStatus
  | LogError string
  | LogInfo string
  | ConsoleError string
  | SpinnerFail string
  | SpinnerWarn string
  | Prompt string
  | Invalid string
  | ReadFile path
  | WriteFile path string
  | Mkdir path
  | Unlink path
  | AddUiPathToTsConfig
  | ChangeGray path
  | Spawn string
  | Fetch string
  | CreateConfig config
  | OpenUrl string

text \<open>An HTTP response: \<^verbatim>\<open>response.ok\<close>, \<^verbatim>\<open>response.statusText\<close>, \<^verbatim>\<open>await response.text()\<close>.\<close>

record response =
  resp_ok :: bool
  resp_statusText :: string
  resp_body :: string

text \<open>
  The answers of everything a run asks outside the three units. The probes keep the names
  of the imported helpers; \<open>isTailwind3\<close> is \<^verbatim>\<open>isTailwind(3)\<close> and \<open>hasFolderSrc\<close> is
  \<^verbatim>\<open>hasFolder("src")\<close>. \<open>stubs\<close> and \<open>resourceDir\<close> are the module constants resolved
  from \<^verbatim>\<open>__dirname\<close>, \<open>cwd\<close> is \<^verbatim>\<open>process.cwd()\<close>. \<open>writeError\<close> and \<open>mkdirError\<close> say
  for which paths the file system refuses a write, and with which message. \<open>parseJson\<close> is
  \<^verbatim>\<open>JSON.parse(stripJsonComments(raw))\<close>: the value, or the message of the error thrown.
  \<open>addUiPathToTsConfig\<close> is how the helper of that name ends: it returns (\<open>None\<close>) or
  aborts; what it does to the files is not followed. \<open>fetch\<close> answers a URL with a
  response, or rejects (\<open>Inl\<close>). The three \<open>select\<close> fields are the user's choices at the
  menus of the older command.
\<close>

record env =
  flag_force :: bool
  flag_yes :: bool
  isProjectExists :: bool
  isRepoDirty :: bool
  isTailwindInstalled :: bool
  isTailwind3 :: bool
  isNextJs :: bool
  isLaravel :: bool
  isRemix :: bool
  hasFolderSrc :: bool
  possibilityComponentsPath :: path
  possibilityUtilsPath :: path
  possibilityCssPath :: path
  possibilityRootPath :: path
  cwd :: path
  stubs :: path
  resourceDir :: path
  highlight :: "string \<Rightarrow> string"
  writeError :: "path \<Rightarrow> string option"
  mkdirError :: "path \<Rightarrow> string option"
  parseJson :: "string \<Rightarrow> string + json"
  addUiPathToTsConfig :: "abort option"
  changeGray :: "abort + string option"
  getPackageManager :: string
  installExitCode :: int
  fetch :: "string \<Rightarrow> string + response"
  createConfigError :: "string option"
  selectProjectType :: project_type
  selectHasSrc :: bool
  selectVisitRepo :: bool

text \<open>
  The mutable surroundings: the files (path to content) and directories of the host, the
  presses of Enter still to come, and the events so far. Paths are compared as written: a
  relative path and the absolute path of the same file are two paths here (the TypeScript
  configuration files are asked for under \<^verbatim>\<open>path.join(process.cwd(), ...)\<close>, every
  other file of the project under the path the command was given).
\<close>

record world =
  files :: "path \<rightharpoonup> string"
  dirs :: "path set"
  stdin :: "attempt list"
  trace :: "event list"

text \<open>
  A step either halts the run (\<open>Inl\<close>) or hands a result on (\<open>Inr\<close>); a file-system
  call either throws an error with a message (\<open>Inl\<close>) or returns.
\<close>

type_synonym 'a step = "world \<Rightarrow> (outcome \<times> world) + ('a \<times> world)"
type_synonym 'a io = "world \<Rightarrow> (string \<times> world) + ('a \<times> world)"

definition emit :: "event list \<Rightarrow> world \<Rightarrow> world" where
  "emit evs w = w\<lparr>trace := trace w @ evs\<rparr>"

definition andThen :: "'a step \<Rightarrow> ('a \<Rightarrow> 'b step) \<Rightarrow> 'b step" where
  "andThen m f w = (case m w of Inl halted \<Rightarrow> Inl halted | Inr (x, w') \<Rightarrow> f x w')"

definition uncaught :: "'a io \<Rightarrow> 'a step" where
  "uncaught m w = (case m w of Inl (msg, w') \<Rightarrow> Inl (Threw msg, w') | Inr r \<Rightarrow> Inr r)"

text \<open>An abort of an imported helper: the message is logged before the exit.\<close>

definition aborted :: "abort \<Rightarrow> world \<Rightarrow> outcome \<times> world" where
  "aborted a w =
     (case a of
        ProcessExit msg code \<Rightarrow> (Exited code, emit [LogError msg] w)
      | Thrown msg \<Rightarrow> (Threw msg, w))"

definition existsSync :: "world \<Rightarrow> path \<Rightarrow> bool" where
  "existsSync w p = (files w p \<noteq> None \<or> p \<in> dirs w)"

text \<open>\<^verbatim>\<open>fs.readFileSync(p, "utf8")\<close>; a path that is not a file throws, with Node's message.\<close>

definition readFileSync :: "path \<Rightarrow> string io" where
  "readFileSync p w =
     (case files w p of
        None \<Rightarrow>
          Inl (''ENOENT: no such file or directory, open '' @ [CHR 0x27] @ p @ [CHR 0x27],
               emit [ReadFile p] w)
      | Some content \<Rightarrow> Inr (content, emit [ReadFile p] w))"

definition writeFileSync :: "env \<Rightarrow> path \<Rightarrow> string \<Rightarrow> unit io" where
  "writeFileSync e p content w =
     (case writeError e p of
        Some msg \<Rightarrow> Inl (msg, w)
      | None \<Rightarrow> Inr ((), emit [WriteFile p content] (w\<lparr>files := (files w)(p \<mapsto> content)\<rparr>)))"

text \<open>
  The directories above a path, nearest first: \<^verbatim>\<open>path.dirname\<close> again and again, as long
  as it shortens the path.
\<close>

fun ancestors :: "path \<Rightarrow> path list" where
  "ancestors p =
     (if length (path_dirname p) < length p then path_dirname p # ancestors (path_dirname p)
      else [])"

declare ancestors.simps [simp del]

text \<open>
  \<^verbatim>\<open>fs.mkdirSync(p, { recursive: true })\<close>: the directory is there afterwards, and so are
  the directories above it.
\<close>

definition mkdirSync :: "env \<Rightarrow> path \<Rightarrow> unit io" where
  "mkdirSync e p w =
     (case mkdirError e p of
        Some msg \<Rightarrow> Inl (msg, w)
      | None \<Rightarrow> Inr ((), emit [Mkdir p] (w\<lparr>dirs := set (p # ancestors p) \<union> dirs w\<rparr>)))"

definition unlinkSync :: "env \<Rightarrow> path \<Rightarrow> unit io" where
  "unlinkSync e p w =
     (case writeError e p of
        Some msg \<Rightarrow> Inl (msg, w)
      | None \<Rightarrow> Inr ((), emit [Unlink p] (w\<lparr>files := (files w)(p := None)\<rparr>)))"

text \<open>
  The \<^verbatim>\<open>input\<close> prompt: the answer of an attempt is the submitted line or the default;
  \<open>validate\<close> accepts it (\<open>None\<close>) or refuses it with a message (\<open>Some\<close>), and a refused
  answer is asked for again.
\<close>

fun promptLoop ::
  "string \<Rightarrow> (string \<Rightarrow> string option) \<Rightarrow> attempt list
     \<Rightarrow> event list \<times> (string \<times> attempt list) option" where
  "promptLoop dflt validate [] = ([], None)"
| "promptLoop dflt validate (a # rest) =
     (let answer = (case a of Submit s \<Rightarrow> s | AcceptDefault \<Rightarrow> dflt) in
      case validate answer of
        None \<Rightarrow> ([], Some (answer, rest))
      | Some msg \<Rightarrow>
          (case promptLoop dflt validate rest of (evs, r) \<Rightarrow> (Invalid msg # evs, r)))"

definition input :: "string \<Rightarrow> string \<Rightarrow> (string \<Rightarrow> string option) \<Rightarrow> string step" where
  "input message dflt validate w =
     (case promptLoop dflt validate (stdin w) of
        (evs, None) \<Rightarrow> Inl (Pending, emit (Prompt message # evs) (w\<lparr>stdin := []\<rparr>))
      | (evs, Some (answer, rest)) \<Rightarrow>
          Inr (answer, emit (Prompt message # evs) (w\<lparr>stdin := rest\<rparr>)))"

text \<open>A prompt with no \<^verbatim>\<open>validate\<close> callback: every answer is taken.\<close>

definition acceptAny :: "string \<Rightarrow> string option" where
  "acceptAny v = None"

section \<open>The init command\<close>

text \<open>Lines 99 to 112: the check of the working tree, unless \<^verbatim>\<open>--force\<close> is given.\<close>

definition checkGit :: "env \<Rightarrow> unit step" where
  "checkGit e w =
     (if \<not> flag_force e then
        (let w1 = emit [GitStatus] w in
         if isRepoDirty e then
           Inl (Exited 1,
                emit [LogError ''Git directory is not clean. Please stash or commit your changes before running the init command.'',
                      LogInfo (''You may use the '' @ highlight e ''--force''
                                 @ '' flag to silence this warning and perform the initialization anyway.'')] w1)
         else Inr ((), w1))
      else Inr ((), w))"

text \<open>Lines 114 to 122.\<close>

definition checkTailwindInstalled :: "env \<Rightarrow> unit step" where
  "checkTailwindInstalled e w =
     (if \<not> isTailwindInstalled e then
        Inl (Returned,
             emit [SpinnerFail ''The tailwindcss package is not installed. Please install before running the init command.''] w)
      else Inr ((), w))"

text \<open>
  The \<^verbatim>\<open>validate\<close> callback of the three path prompts:
  \<^verbatim>\<open>value.trim() !== "" || "Path cannot be empty. Please enter a valid path."\<close>.
\<close>

definition validatePath :: "string \<Rightarrow> string option" where
  "validatePath v =
     (if trim v \<noteq> [] then None else Some ''Path cannot be empty. Please enter a valid path.'')"

record layout =
  componentFolder :: path
  uiFolder :: path
  utilsFolder :: path
  cssLocation :: path

text \<open>Lines 139 to 167: the defaults under \<^verbatim>\<open>--yes\<close>, the three prompts otherwise.\<close>

definition resolvePaths :: "env \<Rightarrow> layout step" where
  "resolvePaths e =
     (if flag_yes e then
        (\<lambda>w. Inr (\<lparr>componentFolder = possibilityComponentsPath e,
                    uiFolder = path_join [possibilityComponentsPath e, ''ui''],
                    utilsFolder = possibilityUtilsPath e,
                    cssLocation = possibilityCssPath e\<rparr>, w))
      else
        andThen (input ''Components folder:'' (possibilityComponentsPath e) validatePath)
          (\<lambda>component.
        andThen (input ''Utils folder:'' (possibilityUtilsPath e) validatePath)
          (\<lambda>utils.
        andThen (input ''Where would you like to place the CSS file?'' (possibilityCssPath e) validatePath)
          (\<lambda>css w.
             Inr (\<lparr>componentFolder = component,
                   uiFolder = path_join [component, ''ui''],
                   utilsFolder = utils,
                   cssLocation = css\<rparr>, w)))))"

record stubset =
  twConfigStub :: path
  themeProvider :: path
  providers :: path

text \<open>Lines 169 to 189.\<close>

definition selectStubs :: "env \<Rightarrow> stubset" where
  "selectStubs e =
     (if isNextJs e \<and> hasFolderSrc e then
        \<lparr>twConfigStub = path_join [stubs e, ''1.x/tailwind.config.src.next.stub''],
         themeProvider = path_join [stubs e, ''next/theme-provider.stub''],
         providers = path_join [stubs e, ''next/providers.stub'']\<rparr>
      else if isNextJs e \<and> \<not> hasFolderSrc e then
        \<lparr>twConfigStub = path_join [stubs e, ''1.x/tailwind.config.next.stub''],
         themeProvider = path_join [stubs e, ''next/theme-provider.stub''],
         providers = path_join [stubs e, ''next/providers.stub'']\<rparr>
      else if isLaravel e then
        \<lparr>twConfigStub = path_join [stubs e, ''1.x/tailwind.config.laravel.stub''],
         themeProvider = path_join [stubs e, ''laravel/theme-provider.stub''],
         providers = path_join [stubs e, ''laravel/providers.stub'']\<rparr>
      else if isRemix e then
        \<lparr>twConfigStub = path_join [stubs e, ''1.x/tailwind.config.vite.stub''],
         themeProvider = path_join [stubs e, ''remix/theme-provider.stub''],
         providers = path_join [stubs e, ''remix/providers.stub'']\<rparr>
      else
        \<lparr>twConfigStub = path_join [stubs e, ''1.x/tailwind.config.vite.stub''],
         themeProvider = path_join [stubs e, ''next/theme-provider.stub''],
         providers = path_join [stubs e, ''next/providers.stub'']\<rparr>)"

text \<open>
  \<^verbatim>\<open>fs.existsSync("tailwind.config.js") ? "tailwind.config.js" : "tailwind.config.ts"\<close>
  (line 192, and line 540 of the older command).
\<close>

definition tailwindConfigTarget :: "world \<Rightarrow> path" where
  "tailwindConfigTarget w =
     (if existsSync w ''tailwind.config.js'' then ''tailwind.config.js''
      else ''tailwind.config.ts'')"

text \<open>
  The \<^verbatim>\<open>try\<close> block that copies a stub over the Tailwind configuration file; the
  \<^verbatim>\<open>catch\<close> reports through the spinner and the run goes on.
\<close>

definition copyTailwindConfig :: "env \<Rightarrow> path \<Rightarrow> unit step" where
  "copyTailwindConfig e stub w =
     (let target = tailwindConfigTarget w;
          failed = (\<lambda>msg. SpinnerFail (''Failed to write Tailwind config to '' @ target @ '': '' @ msg))
      in case readFileSync stub w of
           Inl (msg, w1) \<Rightarrow> Inr ((), emit [failed msg] w1)
         | Inr (tailwindConfigContent, w1) \<Rightarrow>
             (case writeFileSync e target tailwindConfigContent w1 of
                Inl (msg, w2) \<Rightarrow> Inr ((), emit [failed msg] w2)
              | Inr (u, w2) \<Rightarrow> Inr ((), w2)))"

text \<open>Lines 191 to 202.\<close>

definition writeTailwindConfig :: "env \<Rightarrow> path \<Rightarrow> unit step" where
  "writeTailwindConfig e stub =
     (if isTailwind3 e then copyTailwindConfig e stub else (\<lambda>w. Inr ((), w)))"

text \<open>\<^verbatim>\<open>if (!fs.existsSync(p)) fs.mkdirSync(p, { recursive: true })\<close>.\<close>

definition ensureDir :: "env \<Rightarrow> path \<Rightarrow> unit step" where
  "ensureDir e p w = (if \<not> existsSync w p then uncaught (mkdirSync e p) w else Inr ((), w))"

text \<open>
  The local function \<^verbatim>\<open>getUserAlias\<close>, lines 212 to 282. Lines 213 to 224: the first of
  the two TypeScript configuration files that exists.
\<close>

definition findTsConfig :: "env \<Rightarrow> path step" where
  "findTsConfig e w =
     (let tsConfigPaths = [path_join [cwd e, ''tsconfig.app.json''],
                           path_join [cwd e, ''tsconfig.json'']]
      in case find (existsSync w) tsConfigPaths of
           None \<Rightarrow>
             Inl (Exited 1,
                  emit [LogError ''Neither tsconfig.app.json nor tsconfig.json was found.''] w)
         | Some tsConfigPath \<Rightarrow> Inr (tsConfigPath, w))"

text \<open>\<^verbatim>\<open>JSON.parse(stripJsonComments(fs.readFileSync(p, "utf8")))\<close>.\<close>

definition parseFile :: "env \<Rightarrow> path \<Rightarrow> json io" where
  "parseFile e p w =
     (case readFileSync p w of
        Inl (msg, w1) \<Rightarrow> Inl (msg, w1)
      | Inr (tsConfigRaw, w1) \<Rightarrow>
          (case parseJson e tsConfigRaw of
             Inl msg \<Rightarrow> Inl (msg, w1)
           | Inr parsed \<Rightarrow> Inr (parsed, w1)))"

text \<open>Lines 226 to 233: whatever the \<^verbatim>\<open>try\<close> block throws is reported, and the run exits.\<close>

definition readTsConfig :: "env \<Rightarrow> path \<Rightarrow> json step" where
  "readTsConfig e tsConfigPath w =
     (case parseFile e tsConfigPath w of
        Inl (msg, w1) \<Rightarrow>
          Inl (Exited 1,
               emit [LogError (''Error reading '' @ tsConfigPath
                                 @ '' file. Please check if it exists and is valid JSON.'')] w1)
      | Inr r \<Rightarrow> Inr r)"

text \<open>An operation on a value that returns or throws a \<^verbatim>\<open>TypeError\<close> nothing catches.\<close>

definition orThrow :: "string + 'a \<Rightarrow> 'a step" where
  "orThrow r w = (case r of Inl msg \<Rightarrow> Inl (Threw msg, w) | Inr x \<Rightarrow> Inr (x, w))"

text \<open>A value that was read and counts as true.\<close>

definition truthyValue :: "json option \<Rightarrow> json option" where
  "truthyValue v = (case v of None \<Rightarrow> None | Some x \<Rightarrow> if truthy x then Some x else None)"

text \<open>
  The local variables \<^verbatim>\<open>tsConfigPath\<close> and \<^verbatim>\<open>tsConfig\<close>, and the value of
  \<^verbatim>\<open>tsConfig.compilerOptions\<close>.
\<close>

record tsconfig =
  configPath :: path
  document :: json
  options :: json

text \<open>\<^verbatim>\<open>if (!tsConfig.compilerOptions) tsConfig.compilerOptions = {}\<close> (line 244).\<close>

definition defaultCompilerOptions :: "path \<Rightarrow> json \<Rightarrow> tsconfig step" where
  "defaultCompilerOptions tsConfigPath parsed =
     andThen (orThrow (getProperty parsed ''compilerOptions'')) (\<lambda>current.
       case truthyValue current of
         Some compilerOptions \<Rightarrow>
           (\<lambda>w. Inr (\<lparr>configPath = tsConfigPath, document = parsed,
                       options = compilerOptions\<rparr>, w))
       | None \<Rightarrow>
           andThen (orThrow (assignProperty parsed ''compilerOptions'' (JObject [])))
             (\<lambda>updated w.
                Inr (\<lparr>configPath = tsConfigPath, document = updated, options = JObject []\<rparr>, w)))"

text \<open>
  Lines 235 to 249. Without compiler options in \<^verbatim>\<open>tsconfig.app.json\<close> the function
  turns to \<^verbatim>\<open>tsconfig.json\<close>, which it reads outside any \<^verbatim>\<open>try\<close> block.
\<close>

definition ensureCompilerOptions :: "env \<Rightarrow> path \<Rightarrow> json \<Rightarrow> tsconfig step" where
  "ensureCompilerOptions e tsConfigPath parsed =
     andThen (orThrow (getProperty parsed ''compilerOptions'')) (\<lambda>current.
       case truthyValue current of
         Some compilerOptions \<Rightarrow>
           (\<lambda>w. Inr (\<lparr>configPath = tsConfigPath, document = parsed,
                       options = compilerOptions\<rparr>, w))
       | None \<Rightarrow>
           if endsWith tsConfigPath ''tsconfig.app.json'' then
             (\<lambda>w. let fallback = path_join [cwd e, ''tsconfig.json''] in
                  if \<not> existsSync w fallback then
                    Inr (\<lparr>configPath = fallback,
                          document = JObject [(''compilerOptions'', JObject [])],
                          options = JObject []\<rparr>, w)
                  else andThen (uncaught (parseFile e fallback)) (defaultCompilerOptions fallback) w)
           else
             andThen (orThrow (assignProperty parsed ''compilerOptions'' (JObject [])))
               (\<lambda>updated w.
                  Inr (\<lparr>configPath = tsConfigPath, document = updated,
                        options = JObject []\<rparr>, w)))"

text \<open>Lines 252 to 257: the root directory of the alias, asked for unless \<^verbatim>\<open>--yes\<close> is given.\<close>

definition askRootPath :: "env \<Rightarrow> path \<Rightarrow> string step" where
  "askRootPath e tsConfigPath =
     (if flag_yes e then (\<lambda>w. Inr (''./'' @ possibilityRootPath e, w))
      else input (''No paths key found in '' @ path_basename tsConfigPath
                    @ ''. Please enter the root directory path for the '' @ quoted ''@/'' @ '':'')
             (''./'' @ possibilityRootPath e) acceptAny)"

text \<open>
  Lines 251 to 272: where the compiler options have no \<^verbatim>\<open>paths\<close>, the alias
  \<^verbatim>\<open>@/*\<close> is added and the configuration file is rewritten; a write that fails is
  reported through the spinner and the run exits. The result is what
  \<^verbatim>\<open>tsConfig.compilerOptions.paths\<close> is afterwards.
\<close>

definition ensurePaths :: "env \<Rightarrow> tsconfig \<Rightarrow> json option step" where
  "ensurePaths e c =
     andThen (orThrow (hasProperty ''paths'' (options c))) (\<lambda>present.
       if present then orThrow (getProperty (options c) ''paths'')
       else
         andThen (askRootPath e (configPath c)) (\<lambda>rootPath w.
           let paths = JObject [(''@/*'',
                         JArray [JString ((if rootPath = [] then ''./src'' else rootPath) @ ''/*'')])];
               updatedTsConfig =
                 stringify [] (withProperty (document c) ''compilerOptions''
                                 (withProperty (options c) ''paths'' paths))
           in case writeFileSync e (configPath c) updatedTsConfig w of
                Inl (msg, w1) \<Rightarrow>
                  Inl (Exited 1,
                       emit [SpinnerFail (''Failed to write to '' @ path_basename (configPath c)
                                            @ ''.'')] w1)
              | Inr (u, w1) \<Rightarrow> Inr (Some paths, w1)))"

text \<open>Line 273: the imported helper \<^verbatim>\<open>addUiPathToTsConfig\<close>.\<close>

definition addUiPath :: "env \<Rightarrow> unit step" where
  "addUiPath e w =
     (case addUiPathToTsConfig e of
        Some a \<Rightarrow> Inl (aborted a (emit [AddUiPathToTsConfig] w))
      | None \<Rightarrow> Inr ((), emit [AddUiPathToTsConfig] w))"

text \<open>
  Lines 275 to 281: the first key of \<^verbatim>\<open>paths\<close> without its \<^verbatim>\<open>/*\<close>; with no key
  there, \<^verbatim>\<open>replace\<close> is called on \<^verbatim>\<open>undefined\<close>.
\<close>

definition firstAlias :: "json option \<Rightarrow> string step" where
  "firstAlias paths w =
     (case truthyValue paths of
        Some p \<Rightarrow>
          (case objectKeys p of
             [] \<Rightarrow>
               Inl (Threw (''Cannot read properties of undefined (reading '' @ quoted ''replace''
                             @ '')''), w)
           | firstAliasKey # others \<Rightarrow> Inr (replaceFirst ''/*'' [] firstAliasKey, w))
      | None \<Rightarrow> Inl (Exited 1, w))"

definition getUserAlias :: "env \<Rightarrow> string step" where
  "getUserAlias e =
     andThen (findTsConfig e) (\<lambda>tsConfigPath.
     andThen (readTsConfig e tsConfigPath) (\<lambda>parsed.
     andThen (ensureCompilerOptions e tsConfigPath parsed) (\<lambda>c.
     andThen (ensurePaths e c) (\<lambda>paths.
     andThen (addUiPath e) (\<lambda>u.
     firstAlias paths)))))"

text \<open>
  Lines 286 to 291: under Tailwind 3 the local \<^verbatim>\<open>1.x/zinc.css\<close> is copied to the CSS
  location and the gray is \<^verbatim>\<open>zinc.css\<close>; otherwise \<^verbatim>\<open>changeGray\<close> chooses.
\<close>

definition selectTheme :: "env \<Rightarrow> path \<Rightarrow> string option step" where
  "selectTheme e css =
     (if isTailwind3 e then
        andThen (uncaught (readFileSync (path_join [stubs e, ''1.x/zinc.css''])))
          (\<lambda>content.
        andThen (uncaught (writeFileSync e css content))
          (\<lambda>u w. Inr (Some ''zinc.css'', w)))
      else
        (\<lambda>w. case changeGray e of
                Inl a \<Rightarrow> Inl (aborted a (emit [ChangeGray css] w))
              | Inr selectedGray \<Rightarrow> Inr (selectedGray, emit [ChangeGray css] w)))"

text \<open>Lines 293 to 300.\<close>

definition makeConfig :: "layout \<Rightarrow> string option \<Rightarrow> string \<Rightarrow> config" where
  "makeConfig l selectedGray currentAlias =
     \<lparr>cfg_schema = ''https://getjustd.com/schema.json'',
      cfg_ui = uiFolder l,
      cfg_utils = utilsFolder l,
      cfg_gray = map_option (replaceFirst ''.css'' []) selectedGray,
      cfg_css = cssLocation l,
      cfg_alias = (if currentAlias = [] then None else Some currentAlias)\<rparr>"

text \<open>Lines 302 to 321.\<close>

definition installCommand :: "env \<Rightarrow> string" where
  "installCommand e =
     (let packageManager = getPackageManager e;
          mainPackages = joinWith '' '' [''react-aria-components'', ''justd-icons''];
          devPackages = joinWith '' '' [''tailwind-variants'', ''tailwind-merge'', ''tailwindcss-animate'']
            @ (if isTailwind3 e then '' tailwindcss-react-aria-components'' else [])
            @ (if isNextJs e then '' next-themes'' else [])
            @ (if isRemix e then '' remix-themes'' else []);
          action = (if packageManager = ''npm'' then ''i'' else ''add'')
      in packageManager @ '' '' @ action @ '' '' @ mainPackages @ '' && ''
           @ packageManager @ '' '' @ action @ '' -D '' @ devPackages @ ''  --silent'')"

text \<open>
  \<^verbatim>\<open>child.on("close", () => resolve())\<close>: the listener takes no argument, so the exit
  code of the child is dropped and the run goes on.
\<close>

definition awaitClose :: "int \<Rightarrow> unit step" where
  "awaitClose exitCode w = Inr ((), w)"

text \<open>Lines 324 to 333.\<close>

definition installDependencies :: "env \<Rightarrow> unit step" where
  "installDependencies e =
     andThen (\<lambda>w. Inr ((), emit [Spawn (installCommand e)] w))
       (\<lambda>u. awaitClose (installExitCode e))"

text \<open>\<^verbatim>\<open>await fetch(url)\<close>: a rejection is thrown.\<close>

definition httpGet :: "env \<Rightarrow> string \<Rightarrow> response io" where
  "httpGet e url w =
     (case fetch e url of
        Inl msg \<Rightarrow> Inl (msg, emit [Fetch url] w)
      | Inr r \<Rightarrow> Inr (r, emit [Fetch url] w))"

definition indexSource :: string where
  "indexSource = ''export * from '' @ [CHR 0x27] @ ''./primitive'' @ [CHR 0x27] @ '';''"

text \<open>Lines 335 to 347.\<close>

definition fetchPrimitive :: "env \<Rightarrow> layout \<Rightarrow> unit step" where
  "fetchPrimitive e l =
     (case getRepoUrlForComponent (isTailwind3 e) ''primitive'' of
        Inl a \<Rightarrow> (\<lambda>w. Inl (aborted a w))
      | Inr fileUrl \<Rightarrow>
          andThen (uncaught (httpGet e fileUrl))
            (\<lambda>r.
               if \<not> resp_ok r
               then (\<lambda>w. Inl (Threw (''Failed to fetch component: '' @ resp_statusText r), w))
               else
                 andThen (uncaught (writeFileSync e (path_join [uiFolder l, ''primitive.tsx''])
                            (laravelTransform (isLaravel e) (resp_body r))))
                   (\<lambda>u. uncaught (writeFileSync e (path_join [uiFolder l, ''index.ts'']) indexSource))))"

text \<open>Lines 349 to 351.\<close>

definition fetchClasses :: "env \<Rightarrow> layout \<Rightarrow> unit step" where
  "fetchClasses e l =
     (case getUtilsFolder (isTailwind3 e) ''classes.ts'' of
        Inl a \<Rightarrow> (\<lambda>w. Inl (aborted a w))
      | Inr url \<Rightarrow>
          andThen (uncaught (httpGet e url))
            (\<lambda>responseClasses.
               uncaught (writeFileSync e (path_join [utilsFolder l, ''classes.ts''])
                 (resp_body responseClasses))))"

text \<open>Copies one stub into the components folder.\<close>

definition copyStub :: "env \<Rightarrow> path \<Rightarrow> path \<Rightarrow> unit step" where
  "copyStub e stub target =
     andThen (uncaught (readFileSync stub)) (\<lambda>content. uncaught (writeFileSync e target content))"

text \<open>Lines 353 to 363; a non-empty string is truthy.\<close>

definition writeProviders :: "env \<Rightarrow> stubset \<Rightarrow> path \<Rightarrow> unit step" where
  "writeProviders e s component =
     (if themeProvider s \<noteq> [] then
        andThen (copyStub e (themeProvider s) (path_join [component, ''theme-provider.tsx'']))
          (\<lambda>u. if providers s \<noteq> []
               then copyStub e (providers s) (path_join [component, ''providers.tsx''])
               else (\<lambda>w. Inr ((), w)))
      else (\<lambda>w. Inr ((), w)))"

text \<open>
  Lines 365 to 370. When \<^verbatim>\<open>createConfig\<close> throws, the \<^verbatim>\<open>catch\<close> clause binds the
  thrown value to the name \<^verbatim>\<open>error\<close>, which hides the imported logger of that name; the
  call \<^verbatim>\<open>error(...)\<close> then applies the thrown value and throws a \<^verbatim>\<open>TypeError\<close>.
\<close>

definition createConfigStep :: "env \<Rightarrow> config \<Rightarrow> unit step" where
  "createConfigStep e c w =
     (case createConfigError e of
        Some msg \<Rightarrow> Inl (Threw ''error is not a function'', emit [CreateConfig c] w)
      | None \<Rightarrow> Inr ((), emit [CreateConfig c] w))"

text \<open>The steps after the early exits, from line 139 to the end.\<close>

definition initSteps :: "env \<Rightarrow> unit step" where
  "initSteps e =
     andThen (resolvePaths e) (\<lambda>l.
     andThen (writeTailwindConfig e (twConfigStub (selectStubs e))) (\<lambda>u.
     andThen (ensureDir e (utilsFolder l)) (\<lambda>u.
     andThen (ensureDir e (uiFolder l)) (\<lambda>u.
     andThen (getUserAlias e) (\<lambda>currentAlias.
     andThen (selectTheme e (cssLocation l)) (\<lambda>selectedGray.
     andThen (installDependencies e) (\<lambda>u.
     andThen (fetchPrimitive e l) (\<lambda>u.
     andThen (fetchClasses e l) (\<lambda>u.
     andThen (writeProviders e (selectStubs e) (componentFolder l)) (\<lambda>u.
     andThen (createConfigStep e (makeConfig l selectedGray currentAlias)) (\<lambda>u.
     ensureDir e (uiFolder l))))))))))))"

definition finish :: "(outcome \<times> world) + (unit \<times> world) \<Rightarrow> outcome \<times> world" where
  "finish r = (case r of Inl halted \<Rightarrow> halted | Inr (u, w) \<Rightarrow> (Completed, w))"

definition init :: "env \<Rightarrow> world \<Rightarrow> outcome \<times> world" where
  "init e w =
     (if \<not> isProjectExists e then (Returned, emit [StartNewProject] w)
      else finish (andThen (checkGit e) (\<lambda>u.
                   andThen (checkTailwindInstalled e) (\<lambda>u. initSteps e)) w))"

section \<open>The older init command\<close>

text \<open>The \<^verbatim>\<open>cssPath\<close> table, lines 436 to 442.\<close>

definition cssPath_laravel :: path where "cssPath_laravel = ''resources/css/app.css''"
definition cssPath_vite :: path where "cssPath_vite = ''src/index.css''"
definition cssPath_nextHasSrc :: path where "cssPath_nextHasSrc = ''src/app/globals.css''"
definition cssPath_nextNoSrc :: path where "cssPath_nextNoSrc = ''app/globals.css''"
definition cssPath_other :: path where "cssPath_other = ''styles/app.css''"

text \<open>Lines 444 to 453: without a Tailwind configuration file the command returns at once.\<close>

definition requireTailwindConfig :: "unit step" where
  "requireTailwindConfig w =
     (let configJsExists = existsSync w ''tailwind.config.js'';
          configTsExists = existsSync w ''tailwind.config.ts''
      in if \<not> configJsExists \<and> \<not> configTsExists then
           Inl (Returned,
                emit [ConsoleError ''No Tailwind configuration file found. Please ensure tailwind.config.ts or tailwind.config.js exists in the root directory.''] w)
         else Inr ((), w))"

text \<open>A \<^verbatim>\<open>select\<close> menu: the user's choice is an answer of the host.\<close>

definition select :: "string \<Rightarrow> 'a \<Rightarrow> 'a step" where
  "select message choice w = Inr (choice, emit [Prompt message] w)"

record legacy_layout =
  componentsFolder :: path
  legacy_uiFolder :: path
  legacy_cssLocation :: path
  configSourcePath :: path
  legacy_themeProvider :: path
  legacy_providers :: "path option"

text \<open>Lines 455 to 508.\<close>

definition legacyLayout :: "env \<Rightarrow> legacy_layout step" where
  "legacyLayout e =
     andThen (select ''Select the project type:'' (selectProjectType e)) (\<lambda>projectType.
       if projectType = Laravel then
         (\<lambda>w. Inr (\<lparr>componentsFolder = ''resources/js/components'',
                     legacy_uiFolder = path_join [''resources/js/components'', ''ui''],
                     legacy_cssLocation = cssPath_laravel,
                     configSourcePath = path_join [stubs e, ''laravel/tailwind.config.laravel.stub''],
                     legacy_themeProvider = path_join [stubs e, ''laravel/theme-provider.stub''],
                     legacy_providers = Some (path_join [stubs e, ''laravel/providers.stub''])\<rparr>, w))
       else if projectType = Vite then
         (\<lambda>w. Inr (\<lparr>componentsFolder = ''src/components'',
                     legacy_uiFolder = path_join [''src/components'', ''ui''],
                     legacy_cssLocation = cssPath_vite,
                     configSourcePath = path_join [stubs e, ''vite/tailwind.config.vite.stub''],
                     legacy_themeProvider = path_join [stubs e, ''vite/theme-provider.stub''],
                     legacy_providers = None\<rparr>, w))
       else if projectType = NextJs then
         andThen (select ''Does this project have a src directory?'' (selectHasSrc e))
           (\<lambda>projectTypeSrc w.
              let hasSrc = (if projectTypeSrc then ''src'' else []);
                  components = path_join [hasSrc, ''components'']
              in Inr (\<lparr>componentsFolder = components,
                       legacy_uiFolder = path_join [components, ''ui''],
                       legacy_cssLocation =
                         (if projectTypeSrc then cssPath_nextHasSrc else cssPath_nextNoSrc),
                       configSourcePath = path_join [stubs e, ''next/tailwind.config.next.stub''],
                       legacy_themeProvider = path_join [stubs e, ''next/theme-provider.stub''],
                       legacy_providers = Some (path_join [stubs e, ''next/providers.stub''])\<rparr>, w))
       else
         andThen (input ''Enter the path to your components folder:'' ''components'' acceptAny)
           (\<lambda>components.
         andThen (input ''Where would you like to place the CSS file?'' cssPath_other acceptAny)
           (\<lambda>css w.
              Inr (\<lparr>componentsFolder = components,
                    legacy_uiFolder = path_join [components, ''ui''],
                    legacy_cssLocation = css,
                    configSourcePath = path_join [stubs e, ''next/tailwind.config.next.stub''],
                    legacy_themeProvider = path_join [stubs e, ''next/theme-provider.stub''],
                    legacy_providers = Some (path_join [stubs e, ''next/providers.stub''])\<rparr>, w))))"

text \<open>Lines 520 to 537.\<close>

definition placeCss :: "env \<Rightarrow> path \<Rightarrow> unit step" where
  "placeCss e css =
     (let cssSourcePath = path_join [resourceDir e, ''tailwind-css/app.css''] in
      andThen (ensureDir e (path_dirname css)) (\<lambda>u w.
        if existsSync w cssSourcePath then
          (case readFileSync cssSourcePath w of
             Inl (msg, w1) \<Rightarrow>
               Inr ((), emit [SpinnerFail (''Failed to write CSS file to '' @ css @ '': '' @ msg)] w1)
           | Inr (cssContent, w1) \<Rightarrow>
               (case writeFileSync e css cssContent w1 of
                  Inl (msg, w2) \<Rightarrow>
                    Inr ((), emit [SpinnerFail (''Failed to write CSS file to '' @ css @ '': '' @ msg)] w2)
                | Inr (u, w2) \<Rightarrow> Inr ((), w2)))
        else
          Inr ((), emit [SpinnerWarn (''Source CSS file does not exist at '' @ cssSourcePath)] w)))"

text \<open>Lines 539 to 555; \<^verbatim>\<open>chalk.yellow\<close> only colours the warning.\<close>

definition legacyTailwindConfig :: "env \<Rightarrow> path \<Rightarrow> unit step" where
  "legacyTailwindConfig e source w =
     (if \<not> existsSync w source then
        Inl (Returned,
             emit [SpinnerWarn (''Source Tailwind config file does not exist at '' @ source)] w)
      else copyTailwindConfig e source w)"

text \<open>Lines 557 to 571.\<close>

definition legacyInstallCommand :: "env \<Rightarrow> string" where
  "legacyInstallCommand e =
     (let packageManager = getPackageManager e;
          packages = joinWith '' ''
            [''react-aria-components'', ''tailwindcss-react-aria-components'', ''tailwind-variants'',
             ''tailwind-merge'', ''clsx'', ''justd-icons'', ''tailwindcss-animate''];
          action = (if packageManager = ''npm'' then ''i '' else ''add '')
      in packageManager @ '' '' @ action @ '' '' @ packages)"

text \<open>Lines 573 to 582.\<close>

definition legacyInstall :: "env \<Rightarrow> unit step" where
  "legacyInstall e =
     andThen (\<lambda>w. Inr ((), emit [Spawn (legacyInstallCommand e)] w))
       (\<lambda>u. awaitClose (installExitCode e))"

text \<open>Lines 583 to 587: the body of any response is written.\<close>

definition legacyFetchPrimitive :: "env \<Rightarrow> path \<Rightarrow> unit step" where
  "legacyFetchPrimitive e ui =
     (case getRepoUrlForComponent (isTailwind3 e) ''primitive'' of
        Inl a \<Rightarrow> (\<lambda>w. Inl (aborted a w))
      | Inr fileUrl \<Rightarrow>
          andThen (uncaught (httpGet e fileUrl))
            (\<lambda>r. uncaught (writeFileSync e (path_join [ui, ''primitive.tsx'']) (resp_body r))))"

text \<open>Lines 589 to 600; Vite has no providers stub.\<close>

definition legacyProviders :: "env \<Rightarrow> legacy_layout \<Rightarrow> unit step" where
  "legacyProviders e l =
     (if legacy_themeProvider l \<noteq> [] then
        andThen (copyStub e (legacy_themeProvider l)
                   (path_join [componentsFolder l, ''theme-provider.tsx'']))
          (\<lambda>u. case legacy_providers l of
                 Some p \<Rightarrow>
                   if p \<noteq> [] then copyStub e p (path_join [componentsFolder l, ''providers.tsx''])
                   else (\<lambda>w. Inr ((), w))
               | None \<Rightarrow> (\<lambda>w. Inr ((), w)))
      else (\<lambda>w. Inr ((), w)))"

text \<open>\<^verbatim>\<open>JSON.stringify({ $schema: "https://getjustd.com", ui: uiFolder }, null, 2)\<close>.\<close>

definition legacyConfigJson :: "path \<Rightarrow> string" where
  "legacyConfigJson ui =
     ''{'' @ [CHR 0x0A]
     @ ''  '' @ jsonString ''$schema'' @ '': '' @ jsonString ''https://getjustd.com'' @ '','' @ [CHR 0x0A]
     @ ''  '' @ jsonString ''ui'' @ '': '' @ jsonString ui @ [CHR 0x0A]
     @ ''}''"

text \<open>Lines 602 to 613.\<close>

definition legacySaveConfig :: "env \<Rightarrow> path \<Rightarrow> unit step" where
  "legacySaveConfig e ui =
     andThen (\<lambda>w. if existsSync w ''d.json'' then uncaught (unlinkSync e ''d.json'') w
                  else Inr ((), w))
       (\<lambda>u. uncaught (writeFileSync e ''justd.json'' (legacyConfigJson ui)))"

text \<open>Lines 618 to 649; the emoji of the menu's message are left out.\<close>

definition legacyEpilogue :: "env \<Rightarrow> unit step" where
  "legacyEpilogue e =
     andThen (\<lambda>w. Inr ((), emit [Spawn ''npx justd-cli@latest add''] w)) (\<lambda>u.
     andThen (select ''Hey look! You made it this far! How about a quick star on our GitHub repo?''
                (selectVisitRepo e))
       (\<lambda>visitRepo w.
          if visitRepo then Inr ((), emit [OpenUrl ''https://github.com/justdlabs/justd''] w)
          else Inr ((), w)))"

definition legacySteps :: "env \<Rightarrow> unit step" where
  "legacySteps e =
     andThen (legacyLayout e) (\<lambda>l.
     andThen (ensureDir e (legacy_uiFolder l)) (\<lambda>u.
     andThen (placeCss e (legacy_cssLocation l)) (\<lambda>u.
     andThen (legacyTailwindConfig e (configSourcePath l)) (\<lambda>u.
     andThen (legacyInstall e) (\<lambda>u.
     andThen (legacyFetchPrimitive e (legacy_uiFolder l)) (\<lambda>u.
     andThen (legacyProviders e l) (\<lambda>u.
     andThen (legacySaveConfig e (legacy_uiFolder l)) (\<lambda>u.
     legacyEpilogue e))))))))"

definition legacyInit :: "env \<Rightarrow> world \<Rightarrow> outcome \<times> world" where
  "legacyInit e w = finish (andThen requireTailwindConfig (\<lambda>u. legacySteps e) w)"

section \<open>A sample host\<close>

text \<open>
  A Next.js project with a \<^verbatim>\<open>src\<close> directory on Tailwind 4, a clean working tree, a
  reachable remote and a user who accepts every default.
\<close>

definition sampleFetch :: "string \<Rightarrow> string + response" where
  "sampleFetch url =
     Inr \<lparr>resp_ok = True, resp_statusText = ''OK'', resp_body = ''// '' @ url\<rparr>"

text \<open>The project's \<^verbatim>\<open>tsconfig.json\<close>, as text and parsed.\<close>

definition sampleTsConfigRaw :: string where
  \<open>sampleTsConfigRaw = ''{"compilerOptions":{"strict":true,"paths":{"@/*":["./src/*"]}}}''\<close>

definition sampleTsConfig :: json where
  "sampleTsConfig =
     JObject [(''compilerOptions'',
       JObject [(''strict'', JBool True),
                (''paths'', JObject [(''@/*'', JArray [JString ''./src/*''])])])]"

definition sampleParse :: "string \<Rightarrow> string + json" where
  "sampleParse raw =
     (if raw = sampleTsConfigRaw then Inr sampleTsConfig
      else Inl ''Unexpected end of JSON input'')"

definition sampleEnv :: env where
  "sampleEnv =
     \<lparr>flag_force = False,
      flag_yes = False,
      isProjectExists = True,
      isRepoDirty = False,
      isTailwindInstalled = True,
      isTailwind3 = False,
      isNextJs = True,
      isLaravel = False,
      isRemix = False,
      hasFolderSrc = True,
      possibilityComponentsPath = ''src/components'',
      possibilityUtilsPath = ''src/utils'',
      possibilityCssPath = ''src/app/globals.css'',
      possibilityRootPath = ''src'',
      cwd = ''/project'',
      stubs = ''/cli/src/resources/stubs'',
      resourceDir = ''/cli/src/resources'',
      highlight = (\<lambda>s. s),
      writeError = (\<lambda>p. None),
      mkdirError = (\<lambda>p. None),
      parseJson = sampleParse,
      addUiPathToTsConfig = None,
      changeGray = Inr (Some ''slate.css''),
      getPackageManager = ''npm'',
      installExitCode = 0,
      fetch = sampleFetch,
      createConfigError = None,
      selectProjectType = NextJs,
      selectHasSrc = True,
      selectVisitRepo = False\<rparr>"

text \<open>The files of the tool itself and of the project, before the run.\<close>

definition sampleFiles :: "path \<rightharpoonup> string" where
  "sampleFiles =
     [''/cli/src/resources/stubs/1.x/zinc.css'' \<mapsto> ''zinc palette'',
      ''/cli/src/resources/stubs/1.x/tailwind.config.src.next.stub'' \<mapsto> ''tailwind 3 config'',
      ''/cli/src/resources/stubs/1.x/tailwind.config.laravel.stub'' \<mapsto> ''tailwind 3 laravel config'',
      ''/cli/src/resources/stubs/next/tailwind.config.next.stub'' \<mapsto> ''tailwind config'',
      ''/cli/src/resources/stubs/next/theme-provider.stub'' \<mapsto> ''theme provider'',
      ''/cli/src/resources/stubs/next/providers.stub'' \<mapsto> ''providers'',
      ''/cli/src/resources/stubs/laravel/theme-provider.stub'' \<mapsto> ''laravel theme provider'',
      ''/cli/src/resources/stubs/laravel/providers.stub'' \<mapsto> ''laravel providers'',
      ''/cli/src/resources/tailwind-css/app.css'' \<mapsto> ''app css'',
      ''tailwind.config.ts'' \<mapsto> ''export default {}'',
      ''/project/tsconfig.json'' \<mapsto> sampleTsConfigRaw]"

definition sampleWorld :: world where
  "sampleWorld =
     \<lparr>files = sampleFiles,
      dirs = {''src'', ''src/app''},
      stdin = [AcceptDefault, AcceptDefault, AcceptDefault],
      trace = []\<rparr>"

text \<open>The same host on Tailwind 3, and a project that has no Tailwind configuration file.\<close>

definition legacyModeEnv :: env where
  "legacyModeEnv = sampleEnv\<lparr>isTailwind3 := True\<rparr>"

definition bareWorld :: world where
  "bareWorld = sampleWorld\<lparr>files := sampleFiles(''tailwind.config.ts'' := None)\<rparr>"

text \<open>A remote that answers one URL with \<^verbatim>\<open>404 Not Found\<close>.\<close>

definition notFound :: response where
  "notFound = \<lparr>resp_ok = False, resp_statusText = ''Not Found'', resp_body = ''404: Not Found''\<rparr>"

definition missingAt :: "string \<Rightarrow> string \<Rightarrow> string + response" where
  "missingAt missing url = (if url = missing then Inr notFound else sampleFetch url)"

definition classesMissingEnv :: env where
  "classesMissingEnv =
     sampleEnv\<lparr>fetch := missingAt
       ''https://raw.githubusercontent.com/irsyadadl/justd/refs/heads/2.x/utils/classes.ts''\<rparr>"

definition primitiveMissingEnv :: env where
  "primitiveMissingEnv =
     sampleEnv\<lparr>fetch := missingAt
       ''https://raw.githubusercontent.com/irsyadadl/justd/2.x/components/ui/primitive.tsx''\<rparr>"

text \<open>
  A Laravel project, and a remote that serves a client component as the primitive
  component: the first two lines of \<^verbatim>\<open>components/theme-provider.jsx\<close> of the repository's
  Next.js application, and the same without its semicolons and with a blank line after the
  directive.
\<close>

definition clientComponent :: string where
  \<open>clientComponent = ''"use client";\<newline>import * as React from "react";\<newline>''\<close>

definition bareClientComponent :: string where
  \<open>bareClientComponent = ''"use client"\<newline>\<newline>import * as React from "react"\<newline>''\<close>

definition servedAt :: "string \<Rightarrow> string \<Rightarrow> string \<Rightarrow> string + response" where
  "servedAt target body url =
     (if url = target then Inr \<lparr>resp_ok = True, resp_statusText = ''OK'', resp_body = body\<rparr>
      else sampleFetch url)"

definition servingPrimitive :: "string \<Rightarrow> env \<Rightarrow> env" where
  "servingPrimitive body e =
     e\<lparr>fetch := servedAt
       ''https://raw.githubusercontent.com/irsyadadl/justd/2.x/components/ui/primitive.tsx'' body\<rparr>"

definition laravelEnv :: env where
  "laravelEnv =
     sampleEnv\<lparr>isNextJs := False, isLaravel := True, hasFolderSrc := False,
       possibilityComponentsPath := ''resources/js/components'',
       possibilityUtilsPath := ''resources/js/utils'',
       possibilityCssPath := ''resources/css/app.css'',
       possibilityRootPath := ''resources/js''\<rparr>"

section \<open>Statements about steps\<close>

text \<open>
  \<open>yields Q R m\<close>: from any world the step \<open>m\<close> only adds events that satisfy \<open>Q\<close> to the
  trace, whether it halts or goes on, and a result it hands on satisfies \<open>R\<close>.
\<close>

definition yields ::
  "(event \<Rightarrow> bool) \<Rightarrow> ('a \<Rightarrow> bool) \<Rightarrow> (world \<Rightarrow> ('c \<times> world) + ('a \<times> world)) \<Rightarrow> bool" where
  "yields Q R m =
     (\<forall>w. case m w of
            Inl (c, w') \<Rightarrow> (\<exists>evs. trace w' = trace w @ evs \<and> list_all Q evs)
          | Inr (x, w') \<Rightarrow> R x \<and> (\<exists>evs. trace w' = trace w @ evs \<and> list_all Q evs))"

text \<open>
  The events that any step may add: all but the query of git, the call of
  \<^verbatim>\<open>changeGray\<close>, the creation of the configuration, the reading of a file, the spawning
  of a subprocess and a fetch.
\<close>

definition quiet :: "event \<Rightarrow> bool" where
  "quiet ev =
     (case ev of GitStatus \<Rightarrow> False | ChangeGray p \<Rightarrow> False | CreateConfig c \<Rightarrow> False
      | ReadFile p \<Rightarrow> False | Spawn command \<Rightarrow> False | Fetch url \<Rightarrow> False | _ \<Rightarrow> True)"

text \<open>The events of the steps that come before the install: no subprocess, no fetch.\<close>

definition beforeInstall :: "event \<Rightarrow> bool" where
  "beforeInstall ev = (case ev of Spawn command \<Rightarrow> False | Fetch url \<Rightarrow> False | _ \<Rightarrow> True)"

text \<open>The world a step leaves, whether it halts or hands on.\<close>

definition worldAfter :: "('c \<times> world) + ('a \<times> world) \<Rightarrow> world" where
  "worldAfter r = (case r of Inl (c, w) \<Rightarrow> w | Inr (x, w) \<Rightarrow> w)"

text \<open>\<open>stopsShort m\<close>: where the step \<open>m\<close> halts the run, the run has not completed.\<close>

definition stopsShort :: "(world \<Rightarrow> (outcome \<times> world) + ('a \<times> world)) \<Rightarrow> bool" where
  "stopsShort m = (\<forall>w c w'. m w = Inl (c, w') \<longrightarrow> c \<noteq> Completed)"

text \<open>
  The events of a run under Tailwind 3: \<^verbatim>\<open>changeGray\<close> is not among them, and a
  configuration is created with the gray \<^verbatim>\<open>zinc\<close> only.
\<close>

definition zincOnly :: "event \<Rightarrow> bool" where
  "zincOnly ev =
     (case ev of ChangeGray p \<Rightarrow> False | CreateConfig c \<Rightarrow> cfg_gray c = Some ''zinc''
      | _ \<Rightarrow> True)"

text \<open>
  \<open>startsWith evs m\<close>: from any world the step \<open>m\<close>, whether it halts or hands on, first
  adds the events \<open>evs\<close> to the trace. \<open>passesInstall command url m\<close>: the events of
  \<open>m\<close> hold no subprocess and no fetch, or they are such events followed by the spawning
  of \<open>command\<close> and then the fetch of \<open>url\<close>.
\<close>

definition startsWith :: "event list \<Rightarrow> (world \<Rightarrow> ('c \<times> world) + ('a \<times> world)) \<Rightarrow> bool" where
  "startsWith evs m = (\<forall>w. prefix (trace w @ evs) (trace (worldAfter (m w))))"

definition passesInstall ::
  "string \<Rightarrow> string \<Rightarrow> (world \<Rightarrow> ('c \<times> world) + ('a \<times> world)) \<Rightarrow> bool" where
  "passesInstall command url m =
     (\<forall>w. (\<exists>evs. trace (worldAfter (m w)) = trace w @ evs \<and> list_all beforeInstall evs)
        \<or> (\<exists>evs. list_all beforeInstall evs
              \<and> prefix (trace w @ evs @ [Spawn command, Fetch url]) (trace (worldAfter (m w)))))"

section \<open>Basic facts\<close>

lemmas path_simps = path_join_def path_normalize_def normalizeString_def normalizeStep_def
  joinWith_def path_dirname_def

lemma emit_sel [simp]:
  "files (emit evs w) = files w" "dirs (emit evs w) = dirs w"
  "stdin (emit evs w) = stdin w" "trace (emit evs w) = trace w @ evs"
  by (simp_all add: emit_def)

lemma andThen_Inr_iff:
  "andThen m f w = Inr r \<longleftrightarrow> (\<exists>x w1. m w = Inr (x, w1) \<and> f x w1 = Inr r)"
  by (auto simp: andThen_def split: sum.splits)

lemma input_Inr_iff:
  "input message dflt validate w = Inr (answer, w') \<longleftrightarrow>
     (\<exists>evs rest. promptLoop dflt validate (stdin w) = (evs, Some (answer, rest))
        \<and> w' = emit (Prompt message # evs) (w\<lparr>stdin := rest\<rparr>))"
  by (auto simp: input_def split: prod.splits option.splits)

lemma join_src_components: "path_join [''src'', ''components''] = ''src/components''"
  by (simp add: path_simps)

lemma join_empty_components: "path_join [[], ''components''] = ''components''"
  by (simp add: path_simps)

lemma join_src_components_ui: "path_join [''src/components'', ''ui''] = ''src/components/ui''"
  by (simp add: path_simps)

text \<open>A string trims to nothing exactly when it is empty or white space only.\<close>

lemma ball_dropWhile: "(\<forall>x\<in>set (dropWhile P s). P x) \<longleftrightarrow> (\<forall>x\<in>set s. P x)"
  by (induction s) auto

lemma trim_empty_iff: "trim s = [] \<longleftrightarrow> list_all isWhiteSpace s"
  by (simp add: trim_def list_all_iff ball_dropWhile)

lemma validatePath_None_iff: "validatePath v = None \<longleftrightarrow> \<not> list_all isWhiteSpace v"
  by (simp add: validatePath_def trim_empty_iff)

lemma validatePath_nonblank: "\<not> list_all isWhiteSpace v \<Longrightarrow> validatePath v = None"
  by (simp add: validatePath_None_iff)

lemma promptLoop_validatePath_accepts:
  "promptLoop dflt validatePath entries = (evs, Some (answer, rest)) \<Longrightarrow>
     \<not> list_all isWhiteSpace answer"
proof (induction entries arbitrary: evs)
  case Nil
  then show ?case by simp
next
  case (Cons a entries)
  then show ?case
    by (auto simp: Let_def validatePath_None_iff split: option.splits prod.splits)
qed

text \<open>Facts about joined paths.\<close>

lemma splitSlash_nonempty: "splitSlash s \<noteq> []"
  by (induction s) (auto split: list.splits)

lemma splitSlash_append:
  "splitSlash (a @ CHR ''/'' # b) = splitSlash a @ splitSlash b"
  using splitSlash_nonempty by (induction a) (auto split: list.splits)

lemma splitSlash_simple: "CHR ''/'' \<notin> set seg \<Longrightarrow> splitSlash seg = [seg]"
  by (induction seg) auto

lemma joinWith_snoc:
  "joinWith sep (xs @ [x]) = (if xs = [] then x else joinWith sep xs @ sep @ x)"
  by (cases xs) (simp_all add: joinWith_def)

text \<open>A normalized path that ends in a plain name ends as that name does.\<close>

lemma path_normalize_last:
  assumes seg: "seg \<noteq> []" "CHR ''/'' \<notin> set seg" "seg \<noteq> ''.''" "seg \<noteq> ''..''"
  shows "last (path_normalize (j @ CHR ''/'' # seg)) = last seg"
proof -
  let ?p = "j @ CHR ''/'' # seg"
  have notrail: "last ?p \<noteq> CHR ''/''" using seg by (metis last_appendR last_ConsR last_in_set list.distinct(1))
  define A where "A = foldl (normalizeStep (hd ?p \<noteq> CHR ''/'')) [] (splitSlash j)"
  have "foldl (normalizeStep (hd ?p \<noteq> CHR ''/'')) [] (splitSlash ?p) = seg # A"
    using seg by (simp add: splitSlash_append splitSlash_simple A_def normalizeStep_def)
  then have q: "normalizeString ?p (hd ?p \<noteq> CHR ''/'')
      = (if A = [] then seg else joinWith ''/'' (rev A) @ ''/'' @ seg)"
    by (simp add: normalizeString_def joinWith_snoc)
  then have qne: "normalizeString ?p (hd ?p \<noteq> CHR ''/'') \<noteq> []" and
    ql: "last (normalizeString ?p (hd ?p \<noteq> CHR ''/'')) = last seg"
    using seg by (auto)
  have "path_normalize ?p = (if hd ?p = CHR ''/'' then ''/'' else [])
      @ normalizeString ?p (hd ?p \<noteq> CHR ''/'')"
    using qne notrail by (simp add: path_normalize_def Let_def)
  with qne ql show ?thesis by simp
qed

lemma path_normalize_name:
  assumes seg: "seg \<noteq> []" "CHR ''/'' \<notin> set seg" "seg \<noteq> ''.''" "seg \<noteq> ''..''"
  shows "path_normalize seg = seg"
proof -
  from seg have h: "hd seg \<noteq> CHR ''/''" "last seg \<noteq> CHR ''/''"
    by (metis hd_in_set, metis last_in_set)
  from seg have "normalizeString seg True = seg"
    by (simp add: normalizeString_def splitSlash_simple normalizeStep_def joinWith_def)
  with seg h show ?thesis by (simp add: path_normalize_def Let_def)
qed

text \<open>A path joined with a relative path that ends in a plain name ends as that name does.\<close>

lemma path_join_last:
  assumes seg: "seg \<noteq> []" "CHR ''/'' \<notin> set seg" "seg \<noteq> ''.''" "seg \<noteq> ''..''"
  shows "last (path_join [s, d @ CHR ''/'' # seg]) = last seg"
proof -
  define j where "j = (if s = [] then d else s @ CHR ''/'' # d)"
  have "path_join [s, d @ CHR ''/'' # seg] = path_normalize (j @ CHR ''/'' # seg)"
    by (cases "s = []") (simp_all add: path_join_def joinWith_def j_def)
  with path_normalize_last [OF seg] show ?thesis by simp
qed

lemma path_join_name_last:
  assumes seg: "seg \<noteq> []" "CHR ''/'' \<notin> set seg" "seg \<noteq> ''.''" "seg \<noteq> ''..''"
  shows "last (path_join [s, seg]) = last seg"
proof (cases "s = []")
  case True
  with seg have "path_join [s, seg] = path_normalize seg" by (simp add: path_join_def joinWith_def)
  with path_normalize_name [OF seg] show ?thesis by simp
next
  case False
  with seg have "path_join [s, seg] = path_normalize (s @ CHR ''/'' # seg)"
    by (simp add: path_join_def joinWith_def)
  with path_normalize_last [OF seg] show ?thesis by simp
qed

lemma provider_stubs_not_zinc:
  "themeProvider (selectStubs e) \<noteq> path_join [stubs e, ''1.x/zinc.css'']"
  "providers (selectStubs e) \<noteq> path_join [stubs e, ''1.x/zinc.css'']"
proof -
  have z: "last (path_join [stubs e, ''1.x'' @ CHR ''/'' # ''zinc.css'']) = last ''zinc.css''"
    by (rule path_join_last) simp_all
  have n: "last (path_join [stubs e, ''next'' @ CHR ''/'' # ''theme-provider.stub'']) = last ''theme-provider.stub''"
    "last (path_join [stubs e, ''next'' @ CHR ''/'' # ''providers.stub'']) = last ''providers.stub''"
    "last (path_join [stubs e, ''laravel'' @ CHR ''/'' # ''theme-provider.stub'']) = last ''theme-provider.stub''"
    "last (path_join [stubs e, ''laravel'' @ CHR ''/'' # ''providers.stub'']) = last ''providers.stub''"
    "last (path_join [stubs e, ''remix'' @ CHR ''/'' # ''theme-provider.stub'']) = last ''theme-provider.stub''"
    "last (path_join [stubs e, ''remix'' @ CHR ''/'' # ''providers.stub'']) = last ''providers.stub''"
    by (rule path_join_last; simp)+
  from z have zs: "last (path_join [stubs e, ''1.x/zinc.css'']) = CHR ''s''" by simp
  from n have "last (themeProvider (selectStubs e)) = CHR ''b''"
    "last (providers (selectStubs e)) = CHR ''b''"
    by (simp_all add: selectStubs_def)
  with zs show "themeProvider (selectStubs e) \<noteq> path_join [stubs e, ''1.x/zinc.css'']"
    "providers (selectStubs e) \<noteq> path_join [stubs e, ''1.x/zinc.css'']"
    by auto
qed

lemma tsconfig_not_zinc:
  "path_join [cwd e, ''tsconfig.app.json''] \<noteq> path_join [stubs e, ''1.x/zinc.css'']"
  "path_join [cwd e, ''tsconfig.json''] \<noteq> path_join [stubs e, ''1.x/zinc.css'']"
proof -
  have z: "last (path_join [stubs e, ''1.x'' @ CHR ''/'' # ''zinc.css'']) = last ''zinc.css''"
    by (rule path_join_last) simp_all
  have t: "last (path_join [cwd e, ''tsconfig.app.json'']) = last ''tsconfig.app.json''"
    "last (path_join [cwd e, ''tsconfig.json'']) = last ''tsconfig.json''"
    by (rule path_join_name_last; simp)+
  from z have "last (path_join [stubs e, ''1.x/zinc.css'']) = CHR ''s''" by simp
  moreover from t have "last (path_join [cwd e, ''tsconfig.app.json'']) = CHR ''n''"
    "last (path_join [cwd e, ''tsconfig.json'']) = CHR ''n''"
    by simp_all
  ultimately show
    "path_join [cwd e, ''tsconfig.app.json''] \<noteq> path_join [stubs e, ''1.x/zinc.css'']"
    "path_join [cwd e, ''tsconfig.json''] \<noteq> path_join [stubs e, ''1.x/zinc.css'']"
    by auto
qed

section \<open>Steps and their events\<close>

lemma yieldsI:
  assumes "\<And>w c w'. m w = Inl (c, w') \<Longrightarrow> \<exists>evs. trace w' = trace w @ evs \<and> list_all Q evs"
    and "\<And>w x w'. m w = Inr (x, w') \<Longrightarrow> R x \<and> (\<exists>evs. trace w' = trace w @ evs \<and> list_all Q evs)"
  shows "yields Q R m"
  unfolding yields_def using assms by (auto split: sum.splits)

lemma yields_InlD:
  "yields Q R m \<Longrightarrow> m w = Inl (c, w') \<Longrightarrow> \<exists>evs. trace w' = trace w @ evs \<and> list_all Q evs"
  unfolding yields_def by (drule spec[of _ w]) simp

lemma yields_InrD:
  "yields Q R m \<Longrightarrow> m w = Inr (x, w') \<Longrightarrow>
     R x \<and> (\<exists>evs. trace w' = trace w @ evs \<and> list_all Q evs)"
  unfolding yields_def by (drule spec[of _ w]) simp

lemma yields_weaken:
  assumes "yields P R m" and "\<And>ev. P ev \<Longrightarrow> Q ev" and "\<And>x. R x \<Longrightarrow> S x"
  shows "yields Q S m"
proof (rule yieldsI)
  fix w c w' assume "m w = Inl (c, w')"
  from yields_InlD[OF assms(1) this] obtain evs where "trace w' = trace w @ evs" "list_all P evs"
    by blast
  with assms(2) show "\<exists>evs. trace w' = trace w @ evs \<and> list_all Q evs"
    by (auto simp: list_all_iff)
next
  fix w x w' assume "m w = Inr (x, w')"
  from yields_InrD[OF assms(1) this]
  obtain evs where "R x" "trace w' = trace w @ evs" "list_all P evs"
    by blast
  with assms(2,3) show "S x \<and> (\<exists>evs. trace w' = trace w @ evs \<and> list_all Q evs)"
    by (auto simp: list_all_iff)
qed

lemma yields_weakenT:
  "yields P R m \<Longrightarrow> (\<And>ev. P ev \<Longrightarrow> Q ev) \<Longrightarrow> yields Q (\<lambda>x. True) m"
  by (erule yields_weaken) simp_all

lemma yields_andThen:
  assumes "yields Q R m" and "\<And>x. R x \<Longrightarrow> yields Q S (f x)"
  shows "yields Q S (andThen m f)"
proof (rule yieldsI)
  fix w c w' assume a: "andThen m f w = Inl (c, w')"
  show "\<exists>evs. trace w' = trace w @ evs \<and> list_all Q evs"
  proof (cases "m w")
    case (Inl halted)
    with a have "m w = Inl (c, w')" by (simp add: andThen_def)
    from yields_InlD[OF assms(1) this] show ?thesis .
  next
    case (Inr r)
    obtain x w1 where r: "r = (x, w1)" by (cases r)
    with Inr a have f: "f x w1 = Inl (c, w')" by (simp add: andThen_def)
    from yields_InrD[OF assms(1)] Inr r
    obtain evs1 where 1: "R x" "trace w1 = trace w @ evs1" "list_all Q evs1" by blast
    from yields_InlD[OF assms(2)[OF 1(1)] f]
    obtain evs2 where "trace w' = trace w1 @ evs2" "list_all Q evs2" by blast
    with 1 have "trace w' = trace w @ (evs1 @ evs2) \<and> list_all Q (evs1 @ evs2)" by simp
    then show ?thesis by blast
  qed
next
  fix w y w' assume a: "andThen m f w = Inr (y, w')"
  then obtain x w1 where m: "m w = Inr (x, w1)" and f: "f x w1 = Inr (y, w')"
    by (auto simp: andThen_Inr_iff)
  from yields_InrD[OF assms(1) m]
  obtain evs1 where 1: "R x" "trace w1 = trace w @ evs1" "list_all Q evs1" by blast
  from yields_InrD[OF assms(2)[OF 1(1)] f]
  obtain evs2 where 2: "S y" "trace w' = trace w1 @ evs2" "list_all Q evs2" by blast
  with 1 have "trace w' = trace w @ (evs1 @ evs2) \<and> list_all Q (evs1 @ evs2)" by simp
  with 2(1) show "S y \<and> (\<exists>evs. trace w' = trace w @ evs \<and> list_all Q evs)" by blast
qed

lemma yields_uncaught: "yields Q R m \<Longrightarrow> yields Q R (uncaught m)"
  unfolding yields_def uncaught_def
  by (auto split: sum.splits prod.splits)

lemma yields_unit: "R x \<Longrightarrow> yields Q R (\<lambda>w. Inr (x, w))"
  by (simp add: yields_def)

lemma yields_halt: "list_all Q evs \<Longrightarrow> yields Q R (\<lambda>w. Inl (c, emit evs w))"
  by (auto simp: yields_def)

lemma yields_if:
  "(c \<Longrightarrow> yields Q R a) \<Longrightarrow> (\<not> c \<Longrightarrow> yields Q R b) \<Longrightarrow> yields Q R (if c then a else b)"
  by simp

lemma quiet_simps [simp]:
  "quiet (LogError s)" "quiet (LogInfo s)" "quiet (ConsoleError s)"
  "quiet (SpinnerFail s)" "quiet (SpinnerWarn s)" "quiet (Prompt s)" "quiet (Invalid s)"
  "quiet (WriteFile p s)" "quiet (Mkdir p)" "quiet (Unlink p)"
  "quiet AddUiPathToTsConfig" "quiet (OpenUrl s)" "quiet StartNewProject"
  "\<not> quiet GitStatus" "\<not> quiet (ChangeGray p)" "\<not> quiet (CreateConfig cfg)"
  "\<not> quiet (ReadFile p)" "\<not> quiet (Spawn s)" "\<not> quiet (Fetch s)"
  by (simp_all add: quiet_def)

lemma yields_writeFileSync: "yields quiet (\<lambda>x. True) (writeFileSync e p content)"
  by (auto simp: yields_def writeFileSync_def split: option.splits)

lemma yields_httpGet: "yields (\<lambda>ev. ev = Fetch url) (\<lambda>x. True) (httpGet e url)"
  by (auto simp: yields_def httpGet_def split: sum.splits)

lemma promptLoop_quiet: "list_all quiet (fst (promptLoop dflt validate entries))"
  by (induction entries) (auto simp: Let_def split: option.splits prod.splits)

lemma yields_input: "yields quiet (\<lambda>x. True) (input message dflt validate)"
proof (rule yieldsI)
  fix w c w' assume "input message dflt validate w = Inl (c, w')"
  then have "trace w' = trace w @ Prompt message # fst (promptLoop dflt validate (stdin w))"
    by (auto simp: input_def split: prod.splits option.splits)
  with promptLoop_quiet[of dflt validate "stdin w"]
  show "\<exists>evs. trace w' = trace w @ evs \<and> list_all quiet evs" by simp
next
  fix w x w' assume "input message dflt validate w = Inr (x, w')"
  then have "trace w' = trace w @ Prompt message # fst (promptLoop dflt validate (stdin w))"
    by (auto simp: input_def split: prod.splits option.splits)
  with promptLoop_quiet[of dflt validate "stdin w"]
  show "True \<and> (\<exists>evs. trace w' = trace w @ evs \<and> list_all quiet evs)" by simp
qed

lemma yields_aborted: "yields quiet R (\<lambda>w. Inl (aborted a w))"
  by (cases a) (auto simp: yields_def aborted_def)

lemmas yields_seq = yields_andThen [where R = "\<lambda>x. True"]

lemma yields_checkTailwindInstalled: "yields quiet (\<lambda>x. True) (checkTailwindInstalled e)"
  by (auto simp: yields_def checkTailwindInstalled_def)

lemma yields_resolvePaths: "yields quiet (\<lambda>x. True) (resolvePaths e)"
  unfolding resolvePaths_def
  by (intro yields_if yields_seq yields_input yields_unit) simp_all

lemma yields_copyTailwindConfig:
  "yields (\<lambda>ev. quiet ev \<or> ev = ReadFile stub) (\<lambda>x. True) (copyTailwindConfig e stub)"
  by (auto simp: yields_def copyTailwindConfig_def readFileSync_def writeFileSync_def Let_def
      split: sum.splits prod.splits option.splits)

lemma yields_writeTailwindConfig:
  "yields (\<lambda>ev. quiet ev \<or> (isTailwind3 e \<and> ev = ReadFile stub)) (\<lambda>x. True)
     (writeTailwindConfig e stub)"
proof (cases "isTailwind3 e")
  case True
  with yields_copyTailwindConfig [of stub e] show ?thesis
    by (simp add: writeTailwindConfig_def)
next
  case False
  then show ?thesis by (simp add: writeTailwindConfig_def yields_unit)
qed

lemma yields_ensureDir: "yields quiet (\<lambda>x. True) (ensureDir e p)"
  by (auto simp: yields_def ensureDir_def uncaught_def mkdirSync_def split: option.splits)

text \<open>The events of the local function \<^verbatim>\<open>getUserAlias\<close>.\<close>

lemma yields_orThrow: "yields Q (\<lambda>x. True) (orThrow r)"
  by (auto simp: yields_def orThrow_def split: sum.splits)

lemma yields_findTsConfig:
  "yields quiet
     (\<lambda>p. p = path_join [cwd e, ''tsconfig.app.json''] \<or> p = path_join [cwd e, ''tsconfig.json''])
     (findTsConfig e)"
  by (auto simp: yields_def findTsConfig_def Let_def split: option.splits if_splits)

lemma yields_parseFile: "yields (\<lambda>ev. ev = ReadFile p) (\<lambda>x. True) (parseFile e p)"
  by (auto simp: yields_def parseFile_def readFileSync_def split: option.splits sum.splits)

lemma yields_readTsConfig:
  "yields (\<lambda>ev. quiet ev \<or> ev = ReadFile p) (\<lambda>x. True) (readTsConfig e p)"
  by (auto simp: yields_def readTsConfig_def parseFile_def readFileSync_def
      split: option.splits sum.splits)

lemma yields_defaultCompilerOptions:
  "yields Q (\<lambda>x. True) (defaultCompilerOptions p parsed)"
  unfolding defaultCompilerOptions_def
  by (intro yields_andThen [where R = "\<lambda>x. True"] yields_orThrow)
     (auto split: option.splits intro!: yields_andThen [where R = "\<lambda>x. True"] yields_orThrow
        yields_unit)

lemma yields_ensureCompilerOptions:
  "yields (\<lambda>ev. quiet ev \<or> ev = ReadFile (path_join [cwd e, ''tsconfig.json''])) (\<lambda>x. True)
     (ensureCompilerOptions e p parsed)"
proof -
  let ?Q = "\<lambda>ev. quiet ev \<or> ev = ReadFile (path_join [cwd e, ''tsconfig.json''])"
  have fallback: "yields ?Q (\<lambda>x. True)
      (\<lambda>w. let fallback = path_join [cwd e, ''tsconfig.json''] in
            if \<not> existsSync w fallback then
              Inr (\<lparr>configPath = fallback,
                    document = JObject [(''compilerOptions'', JObject [])],
                    options = JObject []\<rparr>, w)
            else andThen (uncaught (parseFile e fallback)) (defaultCompilerOptions fallback) w)"
  proof -
    have "yields ?Q (\<lambda>x. True)
        (andThen (uncaught (parseFile e (path_join [cwd e, ''tsconfig.json''])))
           (defaultCompilerOptions (path_join [cwd e, ''tsconfig.json''])))"
      by (intro yields_andThen [where R = "\<lambda>x. True"] yields_uncaught
          yields_weakenT [OF yields_parseFile] yields_defaultCompilerOptions) simp
    then show ?thesis
      unfolding yields_def Let_def by (auto split: sum.splits)
  qed
  show ?thesis
    unfolding ensureCompilerOptions_def
    by (intro yields_andThen [where R = "\<lambda>x. True"] yields_orThrow)
       (auto split: option.splits intro!: yields_andThen [where R = "\<lambda>x. True"] yields_orThrow
          yields_unit fallback)
qed

lemma yields_askRootPath: "yields quiet (\<lambda>x. True) (askRootPath e p)"
  unfolding askRootPath_def by (intro yields_if yields_input yields_unit) simp

lemma yields_ensurePaths: "yields quiet (\<lambda>x. True) (ensurePaths e c)"
proof -
  have writing: "yields quiet (\<lambda>x. True)
      (\<lambda>w. case writeFileSync e p content w of
             Inl (msg, w1) \<Rightarrow> Inl (Exited 1, emit [SpinnerFail failed] w1)
           | Inr (u, w1) \<Rightarrow> Inr (paths, w1))" for p content failed and paths :: "json option"
    by (auto simp: yields_def writeFileSync_def split: option.splits)
  show ?thesis
    unfolding ensurePaths_def Let_def
    by (intro yields_andThen [where R = "\<lambda>x. True"] yields_orThrow yields_if yields_askRootPath
        writing)
qed

lemma yields_addUiPath: "yields quiet (\<lambda>x. True) (addUiPath e)"
  by (auto simp: yields_def addUiPath_def aborted_def split: option.splits abort.splits)

lemma yields_firstAlias: "yields Q (\<lambda>x. True) (firstAlias paths)"
  by (auto simp: yields_def firstAlias_def split: option.splits list.splits)

lemma yields_getUserAlias:
  "yields (\<lambda>ev. quiet ev \<or> ev = ReadFile (path_join [cwd e, ''tsconfig.app.json''])
              \<or> ev = ReadFile (path_join [cwd e, ''tsconfig.json'']))
     (\<lambda>x. True) (getUserAlias e)"
proof -
  let ?Q = "\<lambda>ev. quiet ev \<or> ev = ReadFile (path_join [cwd e, ''tsconfig.app.json''])
              \<or> ev = ReadFile (path_join [cwd e, ''tsconfig.json''])"
  have read: "yields ?Q (\<lambda>x. True) (readTsConfig e p)"
    if "p = path_join [cwd e, ''tsconfig.app.json''] \<or> p = path_join [cwd e, ''tsconfig.json'']"
    for p
    using that by (intro yields_weakenT [OF yields_readTsConfig]) auto
  show ?thesis
    unfolding getUserAlias_def
    apply (rule yields_andThen [OF yields_weaken [OF yields_findTsConfig]])
      apply simp
     apply assumption
    apply (rule yields_andThen [where R = "\<lambda>x. True", OF read], assumption)
    apply (rule yields_andThen [where R = "\<lambda>x. True",
          OF yields_weakenT [OF yields_ensureCompilerOptions]], blast)
    apply (rule yields_andThen [where R = "\<lambda>x. True", OF yields_weakenT [OF yields_ensurePaths]],
        simp)
    apply (rule yields_andThen [where R = "\<lambda>x. True", OF yields_weakenT [OF yields_addUiPath]],
        simp)
    apply (rule yields_firstAlias)
    done
qed

lemma yields_installDependencies:
  "yields (\<lambda>ev. ev = Spawn (installCommand e)) (\<lambda>x. True) (installDependencies e)"
  by (auto simp: yields_def installDependencies_def andThen_def awaitClose_def)

lemma yields_fetchPrimitive:
  "yields (\<lambda>ev. quiet ev \<or> (\<exists>url. ev = Fetch url)) (\<lambda>x. True) (fetchPrimitive e l)"
proof -
  let ?Q = "\<lambda>ev. quiet ev \<or> (\<exists>url. ev = Fetch url)"
  have get: "yields ?Q (\<lambda>x. True) (uncaught (httpGet e url))" for url
    by (intro yields_uncaught yields_weakenT [OF yields_httpGet]) blast
  have put: "yields ?Q (\<lambda>x. True) (uncaught (writeFileSync e p content))" for p content
    by (intro yields_uncaught yields_weakenT [OF yields_writeFileSync]) blast
  have stop: "yields ?Q (\<lambda>x. True) (\<lambda>w. Inl (aborted a w))" for a :: abort
    by (intro yields_weakenT [OF yields_aborted]) blast
  show ?thesis
    unfolding fetchPrimitive_def
    by (auto split: sum.splits
        intro!: stop yields_seq get put
          yields_halt [where evs = "[]", simplified emit_def, simplified])
qed

lemma yields_fetchClasses:
  "yields (\<lambda>ev. quiet ev \<or> (\<exists>url. ev = Fetch url)) (\<lambda>x. True) (fetchClasses e l)"
proof -
  let ?Q = "\<lambda>ev. quiet ev \<or> (\<exists>url. ev = Fetch url)"
  have get: "yields ?Q (\<lambda>x. True) (uncaught (httpGet e url))" for url
    by (intro yields_uncaught yields_weakenT [OF yields_httpGet]) blast
  have put: "yields ?Q (\<lambda>x. True) (uncaught (writeFileSync e p content))" for p content
    by (intro yields_uncaught yields_weakenT [OF yields_writeFileSync]) blast
  have stop: "yields ?Q (\<lambda>x. True) (\<lambda>w. Inl (aborted a w))" for a :: abort
    by (intro yields_weakenT [OF yields_aborted]) blast
  show ?thesis
    unfolding fetchClasses_def
    by (auto split: sum.splits intro!: stop yields_seq get put)
qed

lemma yields_copyStub:
  "yields (\<lambda>ev. quiet ev \<or> ev = ReadFile stub) (\<lambda>x. True) (copyStub e stub target)"
  by (auto simp: yields_def copyStub_def andThen_def uncaught_def readFileSync_def
      writeFileSync_def split: sum.splits option.splits)

lemma yields_writeProviders:
  "yields (\<lambda>ev. quiet ev \<or> ev = ReadFile (themeProvider s) \<or> ev = ReadFile (providers s))
     (\<lambda>x. True) (writeProviders e s component)"
  unfolding writeProviders_def
  by (intro yields_if yields_seq yields_unit yields_weakenT [OF yields_copyStub]) auto

lemma yields_createConfigStep:
  "yields (\<lambda>ev. ev = CreateConfig c) (\<lambda>x. True) (createConfigStep e c)"
  by (auto simp: yields_def createConfigStep_def split: option.splits)

lemma yields_selectTheme_zinc:
  "isTailwind3 e \<Longrightarrow>
     yields (\<lambda>ev. quiet ev \<or> ev = ReadFile (path_join [stubs e, ''1.x/zinc.css'']))
       (\<lambda>g. g = Some ''zinc.css'') (selectTheme e css)"
  by (auto simp: yields_def selectTheme_def andThen_def uncaught_def readFileSync_def
      writeFileSync_def split: sum.splits option.splits)

lemma yields_selectTheme_other:
  "\<not> isTailwind3 e \<Longrightarrow>
     yields (\<lambda>ev. quiet ev \<or> ev = ChangeGray css) (\<lambda>g. True) (selectTheme e css)"
  by (auto simp: yields_def selectTheme_def aborted_def split: sum.splits abort.splits)

lemma yields_checkGit:
  "yields (\<lambda>ev. quiet ev \<or> (\<not> flag_force e \<and> ev = GitStatus)) (\<lambda>x. True) (checkGit e)"
  by (auto simp: yields_def checkGit_def Let_def)


text \<open>
  The events of the steps of \<^verbatim>\<open>init\<close>: the quiet ones; the reading of the two provider
  stubs and of the two TypeScript configuration files; the spawning of the install and
  the fetches; under Tailwind 3 the reading of any file; otherwise the call of
  \<^verbatim>\<open>changeGray\<close>; and the creation of a configuration, whose gray under Tailwind 3 is
  \<^verbatim>\<open>zinc\<close>.
\<close>

lemma yields_initSteps:
  assumes r: "\<And>ev. quiet ev \<Longrightarrow> Q ev"
    and rp: "Q (ReadFile (themeProvider (selectStubs e)))" "Q (ReadFile (providers (selectStubs e)))"
    and rt: "Q (ReadFile (path_join [cwd e, ''tsconfig.app.json'']))"
      "Q (ReadFile (path_join [cwd e, ''tsconfig.json'']))"
    and sf: "Q (Spawn (installCommand e))" "\<And>url. Q (Fetch url)"
    and r3: "\<And>p. isTailwind3 e \<Longrightarrow> Q (ReadFile p)"
    and g: "\<And>css. \<not> isTailwind3 e \<Longrightarrow> Q (ChangeGray css)"
    and c: "\<And>cfg. (isTailwind3 e \<longrightarrow> cfg_gray cfg = Some ''zinc'') \<Longrightarrow> Q (CreateConfig cfg)"
  shows "yields Q (\<lambda>x. True) (initSteps e)"
proof -
  have w: "yields Q (\<lambda>x. True) m" if "yields quiet R m" for m R
    using that by (rule yields_weakenT) (rule r)
  have tailwind: "yields Q (\<lambda>x. True) (writeTailwindConfig e stub)" for stub
    by (rule yields_weakenT [OF yields_writeTailwindConfig]) (auto simp: r r3)
  have theme: "yields Q (\<lambda>g. isTailwind3 e \<longrightarrow> g = Some ''zinc.css'') (selectTheme e css)" for css
  proof (cases "isTailwind3 e")
    case True
    from yields_selectTheme_zinc [OF True] show ?thesis
      by (rule yields_weaken) (auto simp: r r3 True)
  next
    case False
    from yields_selectTheme_other [OF False] show ?thesis
      by (rule yields_weaken) (auto simp: r g False)
  qed
  have ualias: "yields Q (\<lambda>x. True) (getUserAlias e)"
    by (rule yields_weakenT [OF yields_getUserAlias]) (auto simp: r rt)
  have install: "yields Q (\<lambda>x. True) (installDependencies e)"
    by (rule yields_weakenT [OF yields_installDependencies]) (simp add: sf)
  have fetches: "yields Q (\<lambda>x. True) (fetchPrimitive e l)"
    "yields Q (\<lambda>x. True) (fetchClasses e l)" for l
    by (rule yields_weakenT [OF yields_fetchPrimitive], auto simp: r sf)
       (rule yields_weakenT [OF yields_fetchClasses], auto simp: r sf)
  have provs: "yields Q (\<lambda>x. True) (writeProviders e (selectStubs e) component)" for component
    by (rule yields_weakenT [OF yields_writeProviders]) (auto simp: r rp)
  have config: "yields Q (\<lambda>x. True) (createConfigStep e (makeConfig l selectedGray currentAlias))"
    if "isTailwind3 e \<longrightarrow> selectedGray = Some ''zinc.css''" for l selectedGray currentAlias
  proof -
    from that have "isTailwind3 e \<longrightarrow>
        cfg_gray (makeConfig l selectedGray currentAlias) = Some ''zinc''"
      by (auto simp: makeConfig_def)
    then show ?thesis
      by (intro yields_weakenT [OF yields_createConfigStep]) (simp add: c)
  qed
  show ?thesis
    unfolding initSteps_def
    apply (rule yields_seq [OF w [OF yields_resolvePaths]])
    apply (rule yields_seq [OF tailwind])
    apply (rule yields_seq [OF w [OF yields_ensureDir]])
    apply (rule yields_seq [OF w [OF yields_ensureDir]])
    apply (rule yields_seq [OF ualias])
    apply (rule yields_andThen [OF theme])
    apply (rule yields_seq [OF install])
    apply (rule yields_seq [OF fetches(1)])
    apply (rule yields_seq [OF fetches(2)])
    apply (rule yields_seq [OF provs])
    apply (rule yields_seq [OF config], assumption)
    apply (rule w [OF yields_ensureDir])
    done
qed

lemma init_trace:
  assumes r: "\<And>ev. quiet ev \<Longrightarrow> Q ev"
    and rp: "Q (ReadFile (themeProvider (selectStubs e)))" "Q (ReadFile (providers (selectStubs e)))"
    and rt: "Q (ReadFile (path_join [cwd e, ''tsconfig.app.json'']))"
      "Q (ReadFile (path_join [cwd e, ''tsconfig.json'']))"
    and sf: "Q (Spawn (installCommand e))" "\<And>url. Q (Fetch url)"
    and r3: "\<And>p. isTailwind3 e \<Longrightarrow> Q (ReadFile p)"
    and g: "\<And>css. \<not> isTailwind3 e \<Longrightarrow> Q (ChangeGray css)"
    and c: "\<And>cfg. (isTailwind3 e \<longrightarrow> cfg_gray cfg = Some ''zinc'') \<Longrightarrow> Q (CreateConfig cfg)"
    and s: "\<not> flag_force e \<Longrightarrow> Q GitStatus"
  shows "\<exists>evs. trace (snd (init e w)) = trace w @ evs \<and> list_all Q evs"
proof (cases "isProjectExists e")
  case False
  then have "trace (snd (init e w)) = trace w @ [StartNewProject]" by (simp add: init_def)
  moreover have "list_all Q [StartNewProject]" by (simp add: r)
  ultimately show ?thesis by blast
next
  case True
  let ?m = "andThen (checkGit e) (\<lambda>u. andThen (checkTailwindInstalled e) (\<lambda>u. initSteps e))"
  have "yields Q (\<lambda>x. True) (checkGit e)"
    by (rule yields_weakenT [OF yields_checkGit]) (auto simp: r s)
  moreover have "yields Q (\<lambda>x. True) (checkTailwindInstalled e)"
    by (rule yields_weakenT [OF yields_checkTailwindInstalled]) (simp add: r)
  moreover have "yields Q (\<lambda>x. True) (initSteps e)"
    by (rule yields_initSteps) (fact r rp rt sf r3 g c)+
  ultimately have y: "yields Q (\<lambda>x. True) ?m"
    by (intro yields_seq)
  show ?thesis
  proof (cases "?m w")
    case (Inl halted)
    obtain out w' where "halted = (out, w')" by (cases halted)
    with Inl True yields_InlD [OF y, of w out w'] show ?thesis
      by (simp add: init_def finish_def)
  next
    case (Inr r)
    obtain u w' where "r = (u, w')" by (cases r)
    with Inr True yields_InrD [OF y, of w u w'] show ?thesis
      by (simp add: init_def finish_def)
  qed
qed

lemma stopsShortD: "stopsShort m \<Longrightarrow> m w = Inl (c, w') \<Longrightarrow> c \<noteq> Completed"
  by (auto simp: stopsShort_def)

lemma stopsShort_andThen:
  "stopsShort m \<Longrightarrow> (\<And>x. stopsShort (f x)) \<Longrightarrow> stopsShort (andThen m f)"
  by (auto simp: stopsShort_def andThen_def split: sum.splits)

lemma stopsShort_uncaught: "stopsShort (uncaught m)"
  by (auto simp: stopsShort_def uncaught_def split: sum.splits)

lemma stopsShort_unit: "stopsShort (\<lambda>w. Inr (f w))"
  by (simp add: stopsShort_def)

lemma stopsShort_aborted: "stopsShort (\<lambda>w. Inl (aborted a w))"
  by (cases a) (auto simp: stopsShort_def aborted_def)

lemma stopsShort_if:
  "(c \<Longrightarrow> stopsShort a) \<Longrightarrow> (\<not> c \<Longrightarrow> stopsShort b) \<Longrightarrow> stopsShort (if c then a else b)"
  by simp

lemma stopsShort_input: "stopsShort (input message dflt validate)"
  by (auto simp: stopsShort_def input_def split: prod.splits option.splits)

lemma stopsShort_checkGit: "stopsShort (checkGit e)"
  by (auto simp: stopsShort_def checkGit_def Let_def split: if_splits)

lemma stopsShort_checkTailwindInstalled: "stopsShort (checkTailwindInstalled e)"
  by (auto simp: stopsShort_def checkTailwindInstalled_def split: if_splits)

lemma stopsShort_resolvePaths: "stopsShort (resolvePaths e)"
  unfolding resolvePaths_def
  by (intro stopsShort_if stopsShort_andThen stopsShort_input stopsShort_unit)

lemma stopsShort_writeTailwindConfig: "stopsShort (writeTailwindConfig e stub)"
  by (auto simp: stopsShort_def writeTailwindConfig_def copyTailwindConfig_def Let_def
      split: if_splits sum.splits prod.splits)

lemma stopsShort_ensureDir: "stopsShort (ensureDir e p)"
  by (auto simp: stopsShort_def ensureDir_def uncaught_def split: if_splits sum.splits)

lemma stopsShort_orThrow: "stopsShort (orThrow r)"
  by (auto simp: stopsShort_def orThrow_def split: sum.splits)

lemma stopsShort_defaultCompilerOptions: "stopsShort (defaultCompilerOptions p parsed)"
  unfolding defaultCompilerOptions_def
  by (intro stopsShort_andThen stopsShort_orThrow)
     (auto split: option.splits intro!: stopsShort_andThen stopsShort_orThrow stopsShort_unit)

lemma stopsShort_ensureCompilerOptions: "stopsShort (ensureCompilerOptions e p parsed)"
proof -
  have fallback: "stopsShort
      (\<lambda>w. let fallback = path_join [cwd e, ''tsconfig.json''] in
            if \<not> existsSync w fallback then
              Inr (\<lparr>configPath = fallback,
                    document = JObject [(''compilerOptions'', JObject [])],
                    options = JObject []\<rparr>, w)
            else andThen (uncaught (parseFile e fallback)) (defaultCompilerOptions fallback) w)"
    using stopsShort_andThen [OF stopsShort_uncaught stopsShort_defaultCompilerOptions,
        of "parseFile e (path_join [cwd e, ''tsconfig.json''])"
           "\<lambda>x. path_join [cwd e, ''tsconfig.json'']" "\<lambda>x. x"]
    unfolding stopsShort_def Let_def by (auto split: if_splits)
  show ?thesis
    unfolding ensureCompilerOptions_def
    by (intro stopsShort_andThen stopsShort_orThrow)
       (auto split: option.splits intro!: stopsShort_andThen stopsShort_orThrow stopsShort_unit
          fallback)
qed

lemma stopsShort_ensurePaths: "stopsShort (ensurePaths e c)"
proof -
  have writing: "stopsShort
      (\<lambda>w. case writeFileSync e p content w of
             Inl (msg, w1) \<Rightarrow> Inl (Exited 1, emit [SpinnerFail failed] w1)
           | Inr (u, w1) \<Rightarrow> Inr (paths, w1))" for p content failed and paths :: "json option"
    by (auto simp: stopsShort_def split: sum.splits)
  show ?thesis
    unfolding ensurePaths_def askRootPath_def Let_def
    by (intro stopsShort_andThen stopsShort_orThrow stopsShort_if stopsShort_input
        stopsShort_unit writing)
qed

lemma stopsShort_getUserAlias: "stopsShort (getUserAlias e)"
proof -
  have "stopsShort (findTsConfig e)"
    by (auto simp: stopsShort_def findTsConfig_def Let_def split: option.splits)
  moreover have "stopsShort (readTsConfig e p)" for p
    by (auto simp: stopsShort_def readTsConfig_def split: sum.splits)
  moreover have "stopsShort (addUiPath e)"
    by (auto simp: stopsShort_def addUiPath_def aborted_def split: option.splits abort.splits)
  moreover have "stopsShort (firstAlias paths)" for paths
    by (auto simp: stopsShort_def firstAlias_def split: option.splits list.splits)
  ultimately show ?thesis
    unfolding getUserAlias_def
    by (intro stopsShort_andThen stopsShort_ensureCompilerOptions stopsShort_ensurePaths)
qed

lemma stopsShort_selectTheme: "stopsShort (selectTheme e css)"
proof (cases "isTailwind3 e")
  case True
  then show ?thesis
    unfolding selectTheme_def
    by (simp, intro stopsShort_andThen stopsShort_uncaught stopsShort_unit)
next
  case False
  then show ?thesis
    by (auto simp: stopsShort_def selectTheme_def aborted_def split: sum.splits abort.splits)
qed

lemma stopsShort_installDependencies: "stopsShort (installDependencies e)"
  by (auto simp: stopsShort_def installDependencies_def andThen_def awaitClose_def)

lemma stopsShort_fetchPrimitive: "stopsShort (fetchPrimitive e l)"
  unfolding fetchPrimitive_def
  by (auto split: sum.splits simp: stopsShort_def [of "\<lambda>w. Inl (Threw _, w)"]
      intro!: stopsShort_aborted stopsShort_andThen stopsShort_uncaught)

lemma stopsShort_fetchClasses: "stopsShort (fetchClasses e l)"
  unfolding fetchClasses_def
  by (auto split: sum.splits intro!: stopsShort_aborted stopsShort_andThen stopsShort_uncaught)

lemma stopsShort_copyStub: "stopsShort (copyStub e stub target)"
  unfolding copyStub_def by (intro stopsShort_andThen stopsShort_uncaught)

lemma stopsShort_writeProviders: "stopsShort (writeProviders e s component)"
  unfolding writeProviders_def
  by (intro stopsShort_if stopsShort_andThen stopsShort_copyStub stopsShort_unit)

lemma stopsShort_createConfigStep: "stopsShort (createConfigStep e c)"
  by (auto simp: stopsShort_def createConfigStep_def split: option.splits)

lemma stopsShort_initSteps: "stopsShort (initSteps e)"
  unfolding initSteps_def
  by (intro stopsShort_andThen stopsShort_resolvePaths stopsShort_writeTailwindConfig
      stopsShort_ensureDir stopsShort_getUserAlias stopsShort_selectTheme
      stopsShort_installDependencies stopsShort_fetchPrimitive stopsShort_fetchClasses
      stopsShort_writeProviders stopsShort_createConfigStep)

text \<open>A completed run has passed every step.\<close>

lemma init_Completed:
  assumes "init e w = (Completed, w')"
  shows "\<exists>w1 w2. checkGit e w = Inr ((), w1) \<and> checkTailwindInstalled e w1 = Inr ((), w2)
           \<and> initSteps e w2 = Inr ((), w')"
proof -
  let ?m = "andThen (checkGit e) (\<lambda>u. andThen (checkTailwindInstalled e) (\<lambda>u. initSteps e))"
  have s: "stopsShort ?m"
    by (intro stopsShort_andThen stopsShort_checkGit stopsShort_checkTailwindInstalled
        stopsShort_initSteps)
  from assms have p: "isProjectExists e" and f: "finish (?m w) = (Completed, w')"
    by (auto simp: init_def split: if_splits)
  have "?m w = Inr ((), w')"
  proof (cases "?m w")
    case (Inl halted)
    with f have "?m w = Inl (Completed, w')" by (simp add: finish_def)
    with stopsShortD [OF s] show ?thesis by blast
  next
    case (Inr r)
    with f show ?thesis by (cases r) (simp add: finish_def)
  qed
  then show ?thesis by (auto simp: andThen_Inr_iff)
qed

lemma yields_prefix:
  "yields Q R m \<Longrightarrow> m w = Inr (x, w') \<Longrightarrow> prefix (trace w) (trace w')"
  by (auto dest: yields_InrD)

lemma sublist_prefix_trans: "sublist xs ys \<Longrightarrow> prefix ys zs \<Longrightarrow> sublist xs zs"
  by (meson prefix_imp_sublist sublist_order.order_trans)


section \<open>What a run does not look at\<close>

text \<open>
  Neither the answer of the working-tree probe nor the exit code of the install subprocess
  reaches any step other than the check of the working tree: with both answers replaced,
  every other step is the same step.
\<close>

lemma awaitClose_any: "awaitClose exitCode = (\<lambda>w. Inr ((), w))"
  by (simp add: fun_eq_iff awaitClose_def)

lemma calls_retold [simp]:
  "writeFileSync (e\<lparr>isRepoDirty := b, installExitCode := c\<rparr>) = writeFileSync e"
  "mkdirSync (e\<lparr>isRepoDirty := b, installExitCode := c\<rparr>) = mkdirSync e"
  "unlinkSync (e\<lparr>isRepoDirty := b, installExitCode := c\<rparr>) = unlinkSync e"
  "httpGet (e\<lparr>isRepoDirty := b, installExitCode := c\<rparr>) = httpGet e"
  "selectStubs (e\<lparr>isRepoDirty := b, installExitCode := c\<rparr>) = selectStubs e"
  "installCommand (e\<lparr>isRepoDirty := b, installExitCode := c\<rparr>) = installCommand e"
  "legacyInstallCommand (e\<lparr>isRepoDirty := b, installExitCode := c\<rparr>) = legacyInstallCommand e"
  by (simp_all add: writeFileSync_def mkdirSync_def unlinkSync_def httpGet_def
      selectStubs_def installCommand_def legacyInstallCommand_def fun_eq_iff split del:
      if_split cong: if_cong sum.case_cong option.case_cong prod.case_cong)

lemma plain_steps_retold [simp]:
  "checkTailwindInstalled (e\<lparr>isRepoDirty := b, installExitCode := c\<rparr>) = checkTailwindInstalled e"
  "resolvePaths (e\<lparr>isRepoDirty := b, installExitCode := c\<rparr>) = resolvePaths e"
  "findTsConfig (e\<lparr>isRepoDirty := b, installExitCode := c\<rparr>) = findTsConfig e"
  "parseFile (e\<lparr>isRepoDirty := b, installExitCode := c\<rparr>) = parseFile e"
  "askRootPath (e\<lparr>isRepoDirty := b, installExitCode := c\<rparr>) = askRootPath e"
  "addUiPath (e\<lparr>isRepoDirty := b, installExitCode := c\<rparr>) = addUiPath e"
  "createConfigStep (e\<lparr>isRepoDirty := b, installExitCode := c\<rparr>) = createConfigStep e"
  "legacyLayout (e\<lparr>isRepoDirty := b, installExitCode := c\<rparr>) = legacyLayout e"
  "legacyEpilogue (e\<lparr>isRepoDirty := b, installExitCode := c\<rparr>) = legacyEpilogue e"
  "copyTailwindConfig (e\<lparr>isRepoDirty := b, installExitCode := c\<rparr>) = copyTailwindConfig e"
  "ensureDir (e\<lparr>isRepoDirty := b, installExitCode := c\<rparr>) = ensureDir e"
  "selectTheme (e\<lparr>isRepoDirty := b, installExitCode := c\<rparr>) = selectTheme e"
  "installDependencies (e\<lparr>isRepoDirty := b, installExitCode := c\<rparr>) = installDependencies e"
  "legacyInstall (e\<lparr>isRepoDirty := b, installExitCode := c\<rparr>) = legacyInstall e"
  "fetchPrimitive (e\<lparr>isRepoDirty := b, installExitCode := c\<rparr>) = fetchPrimitive e"
  "fetchClasses (e\<lparr>isRepoDirty := b, installExitCode := c\<rparr>) = fetchClasses e"
  "copyStub (e\<lparr>isRepoDirty := b, installExitCode := c\<rparr>) = copyStub e"
  "legacySaveConfig (e\<lparr>isRepoDirty := b, installExitCode := c\<rparr>) = legacySaveConfig e"
  "legacyFetchPrimitive (e\<lparr>isRepoDirty := b, installExitCode := c\<rparr>) = legacyFetchPrimitive e"
  by (simp_all add: checkTailwindInstalled_def resolvePaths_def findTsConfig_def
      parseFile_def askRootPath_def addUiPath_def
      createConfigStep_def legacyLayout_def legacyEpilogue_def copyTailwindConfig_def
      ensureDir_def selectTheme_def installDependencies_def legacyInstall_def
      fetchPrimitive_def fetchClasses_def copyStub_def legacySaveConfig_def
      legacyFetchPrimitive_def awaitClose_any fun_eq_iff split del: if_split cong: if_cong
      sum.case_cong option.case_cong prod.case_cong)

lemma built_steps_retold [simp]:
  "readTsConfig (e\<lparr>isRepoDirty := b, installExitCode := c\<rparr>) = readTsConfig e"
  "ensureCompilerOptions (e\<lparr>isRepoDirty := b, installExitCode := c\<rparr>) = ensureCompilerOptions e"
  "ensurePaths (e\<lparr>isRepoDirty := b, installExitCode := c\<rparr>) = ensurePaths e"
  "writeTailwindConfig (e\<lparr>isRepoDirty := b, installExitCode := c\<rparr>) = writeTailwindConfig e"
  "writeProviders (e\<lparr>isRepoDirty := b, installExitCode := c\<rparr>) = writeProviders e"
  "placeCss (e\<lparr>isRepoDirty := b, installExitCode := c\<rparr>) = placeCss e"
  "legacyTailwindConfig (e\<lparr>isRepoDirty := b, installExitCode := c\<rparr>) = legacyTailwindConfig e"
  "legacyProviders (e\<lparr>isRepoDirty := b, installExitCode := c\<rparr>) = legacyProviders e"
  by (simp_all add: readTsConfig_def ensureCompilerOptions_def ensurePaths_def
      writeTailwindConfig_def writeProviders_def placeCss_def
      legacyTailwindConfig_def legacyProviders_def fun_eq_iff split del: if_split cong:
      if_cong sum.case_cong option.case_cong prod.case_cong)

lemma getUserAlias_retold [simp]:
  "getUserAlias (e\<lparr>isRepoDirty := b, installExitCode := c\<rparr>) = getUserAlias e"
  by (simp add: getUserAlias_def fun_eq_iff)

lemma commands_retold [simp]:
  "initSteps (e\<lparr>isRepoDirty := b, installExitCode := c\<rparr>) = initSteps e"
  "legacySteps (e\<lparr>isRepoDirty := b, installExitCode := c\<rparr>) = legacySteps e"
  by (simp_all add: initSteps_def legacySteps_def fun_eq_iff split del: if_split cong:
      if_cong sum.case_cong option.case_cong prod.case_cong)

lemma legacyInit_retold:
  "legacyInit (e\<lparr>isRepoDirty := b, installExitCode := c\<rparr>) = legacyInit e"
  by (simp add: legacyInit_def fun_eq_iff)

lemma checkGit_retold:
  "flag_force e \<or> b = isRepoDirty e \<Longrightarrow> checkGit (e\<lparr>isRepoDirty := b, installExitCode := c\<rparr>) = checkGit e"
  by (auto simp: checkGit_def fun_eq_iff)

lemma init_retold:
  "flag_force e \<or> b = isRepoDirty e \<Longrightarrow> init (e\<lparr>isRepoDirty := b, installExitCode := c\<rparr>) w = init e w"
  by (simp add: init_def checkGit_retold split del: if_split cong: if_cong)

section \<open>Runs that reach the install\<close>

lemma worldAfter_simps [simp]:
  "worldAfter (Inl (c, w)) = w" "worldAfter (Inr (x, w)) = w"
  by (simp_all add: worldAfter_def)

lemma snd_finish: "snd (finish r) = worldAfter r"
  by (auto simp: finish_def worldAfter_def split: sum.splits)

lemma worldAfter_andThen:
  "worldAfter (andThen m f w) =
     (case m w of Inl (c, w1) \<Rightarrow> w1 | Inr (x, w1) \<Rightarrow> worldAfter (f x w1))"
  by (auto simp: andThen_def split: sum.splits)

lemma yields_worldAfter:
  "yields Q R m \<Longrightarrow> \<exists>evs. trace (worldAfter (m w)) = trace w @ evs \<and> list_all Q evs"
  unfolding yields_def by (drule spec [of _ w]) (auto split: sum.splits)

lemma startsWithD: "startsWith evs m \<Longrightarrow> prefix (trace w @ evs) (trace (worldAfter (m w)))"
  by (simp add: startsWith_def)

lemma yields_startsWith: "yields Q R m \<Longrightarrow> startsWith [] m"
  unfolding startsWith_def using yields_worldAfter [of Q R m] by (metis append_Nil2 prefixI)

lemma startsWith_andThen:
  assumes m: "startsWith evs m" and f: "\<And>x. startsWith [] (f x)"
  shows "startsWith evs (andThen m f)"
  unfolding startsWith_def
proof
  fix w
  show "prefix (trace w @ evs) (trace (worldAfter (andThen m f w)))"
  proof (cases "m w")
    case (Inl halted)
    with startsWithD [OF m, of w] show ?thesis
      by (cases halted) (simp add: worldAfter_andThen)
  next
    case (Inr r)
    obtain x w1 where r: "r = (x, w1)" by (cases r)
    with Inr startsWithD [OF m, of w] have "prefix (trace w @ evs) (trace w1)" by simp
    moreover from startsWithD [OF f, of w1 x] have "prefix (trace w1) (trace (worldAfter (f x w1)))"
      by simp
    ultimately show ?thesis using Inr r
      by (simp add: worldAfter_andThen)
  qed
qed

text \<open>A step that always hands on with one event, before a step that starts with another.\<close>

lemma startsWith_after:
  assumes m: "\<And>w. m w = Inr ((), emit [ev] w)" and f: "startsWith evs (f ())"
  shows "startsWith (ev # evs) (andThen m f)"
  unfolding startsWith_def
proof
  fix w
  from startsWithD [OF f, of "emit [ev] w"]
  show "prefix (trace w @ ev # evs) (trace (worldAfter (andThen m f w)))"
    by (simp add: worldAfter_andThen m)
qed

lemma passesInstall_start: "startsWith [Spawn command, Fetch url] m \<Longrightarrow> passesInstall command url m"
  unfolding passesInstall_def startsWith_def
  by (intro allI disjI2 exI [of _ "[]"]) simp

lemma passesInstall_andThen:
  assumes m: "yields beforeInstall R m" and f: "\<And>x. passesInstall command url (f x)"
  shows "passesInstall command url (andThen m f)"
  unfolding passesInstall_def
proof
  fix w
  let ?goal = "(\<exists>evs. trace (worldAfter (andThen m f w)) = trace w @ evs \<and> list_all beforeInstall evs)
        \<or> (\<exists>evs. list_all beforeInstall evs
              \<and> prefix (trace w @ evs @ [Spawn command, Fetch url])
                   (trace (worldAfter (andThen m f w))))"
  show ?goal
  proof (cases "m w")
    case (Inl halted)
    obtain c w1 where "halted = (c, w1)" by (cases halted)
    with Inl yields_InlD [OF m, of w c w1] show ?thesis
      by (simp add: worldAfter_andThen)
  next
    case (Inr r)
    obtain x w1 where r: "r = (x, w1)" by (cases r)
    with Inr yields_InrD [OF m, of w x w1]
    obtain evs1 where 1: "trace w1 = trace w @ evs1" "list_all beforeInstall evs1" by blast
    from f [of x] have "(\<exists>evs. trace (worldAfter (f x w1)) = trace w1 @ evs \<and> list_all beforeInstall evs)
        \<or> (\<exists>evs. list_all beforeInstall evs
              \<and> prefix (trace w1 @ evs @ [Spawn command, Fetch url]) (trace (worldAfter (f x w1))))"
      unfolding passesInstall_def by blast
    then show ?thesis
    proof
      assume "\<exists>evs. trace (worldAfter (f x w1)) = trace w1 @ evs \<and> list_all beforeInstall evs"
      then obtain evs2 where "trace (worldAfter (f x w1)) = trace w1 @ evs2"
        "list_all beforeInstall evs2" by blast
      with 1 have "trace (worldAfter (f x w1)) = trace w @ (evs1 @ evs2)
          \<and> list_all beforeInstall (evs1 @ evs2)" by simp
      with Inr r show ?thesis by (simp add: worldAfter_andThen; blast)
    next
      assume "\<exists>evs. list_all beforeInstall evs
              \<and> prefix (trace w1 @ evs @ [Spawn command, Fetch url]) (trace (worldAfter (f x w1)))"
      then obtain evs2 where "list_all beforeInstall evs2"
        "prefix (trace w1 @ evs2 @ [Spawn command, Fetch url]) (trace (worldAfter (f x w1)))"
        by blast
      with 1 have "list_all beforeInstall (evs1 @ evs2)
          \<and> prefix (trace w @ (evs1 @ evs2) @ [Spawn command, Fetch url])
               (trace (worldAfter (f x w1)))" by simp
      with Inr r show ?thesis by (simp add: worldAfter_andThen; blast)
    qed
  qed
qed

text \<open>
  Where the events of such a step hold the spawning of the install command, the fetch comes
  right after it.
\<close>

lemma passesInstall_sublist:
  assumes p: "passesInstall command url m"
    and t: "trace (worldAfter (m w)) = trace w @ evs" and s: "Spawn command \<in> set evs"
  shows "sublist [Spawn command, Fetch url] evs"
proof -
  from p have "(\<exists>evs. trace (worldAfter (m w)) = trace w @ evs \<and> list_all beforeInstall evs)
        \<or> (\<exists>evs. list_all beforeInstall evs
              \<and> prefix (trace w @ evs @ [Spawn command, Fetch url]) (trace (worldAfter (m w))))"
    unfolding passesInstall_def by blast
  then show ?thesis
  proof
    assume "\<exists>evs. trace (worldAfter (m w)) = trace w @ evs \<and> list_all beforeInstall evs"
    with t have "list_all beforeInstall evs" by auto
    with s have "beforeInstall (Spawn command)" by (auto simp: list_all_iff)
    then show ?thesis by (simp add: beforeInstall_def)
  next
    assume "\<exists>evs. list_all beforeInstall evs
              \<and> prefix (trace w @ evs @ [Spawn command, Fetch url]) (trace (worldAfter (m w)))"
    then obtain evs1 rest where
      "trace (worldAfter (m w)) = (trace w @ evs1 @ [Spawn command, Fetch url]) @ rest"
      by (auto simp: prefix_def)
    with t have "evs = evs1 @ [Spawn command, Fetch url] @ rest" by simp
    then show ?thesis by (auto simp: sublist_def)
  qed
qed

text \<open>The steps before the install add no subprocess and no fetch.\<close>

lemma quiet_beforeInstall: "quiet ev \<Longrightarrow> beforeInstall ev"
  by (cases ev) (simp_all add: quiet_def beforeInstall_def)

lemma beforeInstall_simps [simp]:
  "beforeInstall (ReadFile p)" "beforeInstall GitStatus" "beforeInstall (ChangeGray css)"
  "beforeInstall (SpinnerFail s)" "beforeInstall (SpinnerWarn s)" "beforeInstall (WriteFile p s)"
  "beforeInstall (ConsoleError s)" "beforeInstall (Prompt s)" "beforeInstall (Mkdir p)"
  by (simp_all add: beforeInstall_def)

lemma before_init_steps:
  "yields beforeInstall (\<lambda>x. True) (checkGit e)"
  "yields beforeInstall (\<lambda>x. True) (checkTailwindInstalled e)"
  "yields beforeInstall (\<lambda>x. True) (resolvePaths e)"
  "yields beforeInstall (\<lambda>x. True) (writeTailwindConfig e stub)"
  "yields beforeInstall (\<lambda>x. True) (ensureDir e p)"
  "yields beforeInstall (\<lambda>x. True) (getUserAlias e)"
  "yields beforeInstall (\<lambda>x. True) (selectTheme e css)"
proof -
  show "yields beforeInstall (\<lambda>x. True) (checkGit e)"
    by (rule yields_weakenT [OF yields_checkGit]) (auto simp: quiet_beforeInstall)
  show "yields beforeInstall (\<lambda>x. True) (checkTailwindInstalled e)"
    by (rule yields_weakenT [OF yields_checkTailwindInstalled]) (rule quiet_beforeInstall)
  show "yields beforeInstall (\<lambda>x. True) (resolvePaths e)"
    by (rule yields_weakenT [OF yields_resolvePaths]) (rule quiet_beforeInstall)
  show "yields beforeInstall (\<lambda>x. True) (writeTailwindConfig e stub)"
    by (rule yields_weakenT [OF yields_writeTailwindConfig]) (auto simp: quiet_beforeInstall)
  show "yields beforeInstall (\<lambda>x. True) (ensureDir e p)"
    by (rule yields_weakenT [OF yields_ensureDir]) (rule quiet_beforeInstall)
  show "yields beforeInstall (\<lambda>x. True) (getUserAlias e)"
    by (rule yields_weakenT [OF yields_getUserAlias]) (auto simp: quiet_beforeInstall)
  show "yields beforeInstall (\<lambda>x. True) (selectTheme e css)"
  proof (cases "isTailwind3 e")
    case True
    from yields_selectTheme_zinc [OF True] show ?thesis
      by (rule yields_weakenT) (auto simp: quiet_beforeInstall)
  next
    case False
    from yields_selectTheme_other [OF False] show ?thesis
      by (rule yields_weakenT) (auto simp: quiet_beforeInstall)
  qed
qed

lemma before_legacy_steps:
  "yields beforeInstall (\<lambda>x. True) requireTailwindConfig"
  "yields beforeInstall (\<lambda>x. True) (legacyLayout e)"
  "yields beforeInstall (\<lambda>x. True) (placeCss e css)"
  "yields beforeInstall (\<lambda>x. True) (legacyTailwindConfig e source)"
proof -
  show "yields beforeInstall (\<lambda>x. True) requireTailwindConfig"
    by (auto simp: yields_def requireTailwindConfig_def Let_def)
  have ask: "yields beforeInstall (\<lambda>x. True) (input message dflt validate)"
    for message dflt validate
    by (rule yields_weakenT [OF yields_input]) (rule quiet_beforeInstall)
  have menu: "yields beforeInstall (\<lambda>x. True) (select message choice)"
    for message and choice :: 'a
    by (auto simp: yields_def select_def)
  show "yields beforeInstall (\<lambda>x. True) (legacyLayout e)"
    unfolding legacyLayout_def Let_def
    by (intro yields_seq menu yields_if ask yields_unit) simp_all
  have copy: "yields beforeInstall (\<lambda>x. True)
      (\<lambda>w. if existsSync w source' then
            (case readFileSync source' w of
               Inl (msg, w1) \<Rightarrow> Inr ((), emit [SpinnerFail (failed msg)] w1)
             | Inr (cssContent, w1) \<Rightarrow>
                 (case writeFileSync e css cssContent w1 of
                    Inl (msg, w2) \<Rightarrow> Inr ((), emit [SpinnerFail (failed msg)] w2)
                  | Inr (u, w2) \<Rightarrow> Inr ((), w2)))
          else Inr ((), emit [SpinnerWarn missing] w))" for source' failed missing
    by (auto simp: yields_def readFileSync_def writeFileSync_def
        split: sum.splits option.splits)
  show "yields beforeInstall (\<lambda>x. True) (placeCss e css)"
    unfolding placeCss_def Let_def
    by (intro yields_seq before_init_steps(5) copy)
  have "yields beforeInstall (\<lambda>x. True) (copyTailwindConfig e source)"
    by (rule yields_weakenT [OF yields_copyTailwindConfig]) (auto simp: quiet_beforeInstall)
  then show "yields beforeInstall (\<lambda>x. True) (legacyTailwindConfig e source)"
    by (auto simp: yields_def legacyTailwindConfig_def)
qed

text \<open>The remote address of the primitive component, and the fetch every run starts it with.\<close>

lemma getRepoUrlForComponent_Inr: "\<exists>fileUrl. getRepoUrlForComponent tw3 name = Inr fileUrl"
  by (simp add: getRepoUrlForComponent_def Let_def REPO_def)

lemma startsWith_fetchPrimitive:
  "getRepoUrlForComponent (isTailwind3 e) ''primitive'' = Inr fileUrl \<Longrightarrow>
     startsWith [Fetch fileUrl] (fetchPrimitive e l)"
  by (auto simp: startsWith_def fetchPrimitive_def andThen_def uncaught_def httpGet_def
      writeFileSync_def split: sum.splits option.splits)

lemma startsWith_legacyFetchPrimitive:
  "getRepoUrlForComponent (isTailwind3 e) ''primitive'' = Inr fileUrl \<Longrightarrow>
     startsWith [Fetch fileUrl] (legacyFetchPrimitive e ui)"
  by (auto simp: startsWith_def legacyFetchPrimitive_def andThen_def uncaught_def httpGet_def
      writeFileSync_def split: sum.splits option.splits)

text \<open>The steps after the first fetch only add to the trace.\<close>

lemma yields_legacy_after:
  "yields (\<lambda>ev. True) (\<lambda>x. True) (legacyProviders e l)"
  "yields (\<lambda>ev. True) (\<lambda>x. True) (legacySaveConfig e ui)"
  "yields (\<lambda>ev. True) (\<lambda>x. True) (legacyEpilogue e)"
proof -
  have copy: "yields (\<lambda>ev. True) (\<lambda>x. True) (copyStub e stub target)" for stub target
    by (rule yields_weakenT [OF yields_copyStub]) simp
  show "yields (\<lambda>ev. True) (\<lambda>x. True) (legacyProviders e l)"
    unfolding legacyProviders_def
    by (auto split: option.splits intro!: yields_if yields_seq copy yields_unit)
  show "yields (\<lambda>ev. True) (\<lambda>x. True) (legacySaveConfig e ui)"
    by (auto simp: yields_def legacySaveConfig_def andThen_def uncaught_def unlinkSync_def
        writeFileSync_def split: sum.splits option.splits)
  show "yields (\<lambda>ev. True) (\<lambda>x. True) (legacyEpilogue e)"
    by (auto simp: yields_def legacyEpilogue_def andThen_def select_def)
qed

lemma installDependencies_eq:
  "installDependencies e w = Inr ((), emit [Spawn (installCommand e)] w)"
  by (simp add: installDependencies_def andThen_def awaitClose_def)

lemma legacyInstall_eq: "legacyInstall e w = Inr ((), emit [Spawn (legacyInstallCommand e)] w)"
  by (simp add: legacyInstall_def andThen_def awaitClose_def)

text \<open>Either command passes the install as described.\<close>

lemma passesInstall_legacy:
  assumes url: "getRepoUrlForComponent (isTailwind3 e) ''primitive'' = Inr fileUrl"
  shows "passesInstall (legacyInstallCommand e) fileUrl
           (andThen requireTailwindConfig (\<lambda>u. legacySteps e))"
proof -
  have "startsWith [Spawn (legacyInstallCommand e), Fetch fileUrl]
      (andThen (legacyInstall e) (\<lambda>u.
       andThen (legacyFetchPrimitive e (legacy_uiFolder l)) (\<lambda>u.
       andThen (legacyProviders e l) (\<lambda>u.
       andThen (legacySaveConfig e (legacy_uiFolder l)) (\<lambda>u. legacyEpilogue e)))))" for l
    by (intro startsWith_after legacyInstall_eq startsWith_andThen
        startsWith_legacyFetchPrimitive [OF url] yields_legacy_after [THEN yields_startsWith])
  then show ?thesis
    unfolding legacySteps_def
    by (intro passesInstall_andThen [where R = "\<lambda>x. True"] before_legacy_steps
        before_init_steps(5) passesInstall_start)
qed

lemma passesInstall_init:
  assumes url: "getRepoUrlForComponent (isTailwind3 e) ''primitive'' = Inr fileUrl"
  shows "passesInstall (installCommand e) fileUrl
           (andThen (checkGit e) (\<lambda>u. andThen (checkTailwindInstalled e) (\<lambda>u. initSteps e)))"
proof -
  have grows: "startsWith [] (fetchClasses e l)"
    "startsWith [] (writeProviders e s component)"
    "startsWith [] (createConfigStep e cfg)"
    "startsWith [] (ensureDir e p)" for l s component cfg p
    by (rule yields_startsWith [OF yields_fetchClasses]
        yields_startsWith [OF yields_writeProviders]
        yields_startsWith [OF yields_createConfigStep]
        yields_startsWith [OF yields_ensureDir])+
  have "startsWith [Spawn (installCommand e), Fetch fileUrl]
      (andThen (installDependencies e) (\<lambda>u.
       andThen (fetchPrimitive e l) (\<lambda>u.
       andThen (fetchClasses e l) (\<lambda>u.
       andThen (writeProviders e (selectStubs e) (componentFolder l)) (\<lambda>u.
       andThen (createConfigStep e (makeConfig l selectedGray currentAlias)) (\<lambda>u.
       ensureDir e (uiFolder l)))))))" for l selectedGray currentAlias
    by (intro startsWith_after installDependencies_eq startsWith_andThen
        startsWith_fetchPrimitive [OF url] grows)
  then show ?thesis
    unfolding initSteps_def
    by (intro passesInstall_andThen [where R = "\<lambda>x. True"] before_init_steps
        passesInstall_start)
qed

section \<open>Runs that complete\<close>

lemma extends:
  "yields Q R m \<Longrightarrow> m w = Inr (x, w') \<Longrightarrow> \<exists>evs. trace w' = trace w @ evs"
  by (auto dest: yields_InrD)

lemma fetchPrimitive_Inr:
  assumes "fetchPrimitive e l w = Inr ((), w')"
  shows "\<exists>fileUrl r. getRepoUrlForComponent (isTailwind3 e) ''primitive'' = Inr fileUrl
           \<and> fetch e fileUrl = Inr r \<and> resp_ok r
           \<and> trace w' = trace w @
                 [Fetch fileUrl,
                  WriteFile (path_join [uiFolder l, ''primitive.tsx''])
                    (if isLaravel e then replaceUseClient (resp_body r) else resp_body r),
                  WriteFile (path_join [uiFolder l, ''index.ts'']) indexSource]"
  using assms
  by (auto simp: fetchPrimitive_def andThen_def uncaught_def httpGet_def writeFileSync_def
      laravelTransform_def split: sum.splits option.splits if_splits)

lemma fetchClasses_Inr:
  assumes "fetchClasses e l w = Inr ((), w')"
  shows "\<exists>url r. getUtilsFolder (isTailwind3 e) ''classes.ts'' = Inr url \<and> fetch e url = Inr r
           \<and> trace w' = trace w @
                 [Fetch url, WriteFile (path_join [utilsFolder l, ''classes.ts'']) (resp_body r)]"
  using assms
  by (auto simp: fetchClasses_def andThen_def uncaught_def httpGet_def writeFileSync_def
      split: sum.splits option.splits)

lemma createConfigStep_Inr:
  "createConfigStep e c w = Inr (u, w') \<Longrightarrow> trace w' = trace w @ [CreateConfig c]"
  by (auto simp: createConfigStep_def split: option.splits)

text \<open>
  The events of a run of \<^verbatim>\<open>init\<close> that completes: after the install come the fetch of
  the primitive component, its two files, the fetch of \<^verbatim>\<open>classes.ts\<close> and its file, and
  later the configuration.
\<close>

lemma init_completed_events:
  assumes run: "init e w = (Completed, w')"
  shows "\<exists>l selectedGray currentAlias fileUrl r url rc before between after.
           getRepoUrlForComponent (isTailwind3 e) ''primitive'' = Inr fileUrl
         \<and> fetch e fileUrl = Inr r \<and> resp_ok r
         \<and> getUtilsFolder (isTailwind3 e) ''classes.ts'' = Inr url \<and> fetch e url = Inr rc
         \<and> trace w' = trace w @ before @
               [Spawn (installCommand e),
                Fetch fileUrl,
                WriteFile (path_join [uiFolder l, ''primitive.tsx''])
                  (if isLaravel e then replaceUseClient (resp_body r) else resp_body r),
                WriteFile (path_join [uiFolder l, ''index.ts'']) indexSource,
                Fetch url,
                WriteFile (path_join [utilsFolder l, ''classes.ts'']) (resp_body rc)]
               @ between @ [CreateConfig (makeConfig l selectedGray currentAlias)] @ after"
proof -
  from init_Completed [OF run] obtain w1 w2 where
    git: "checkGit e w = Inr ((), w1)" and tw: "checkTailwindInstalled e w1 = Inr ((), w2)"
    and steps: "initSteps e w2 = Inr ((), w')" by blast
  from steps obtain l wa wb wc wd currentAlias we selectedGray wf wg wh wi wj wk where
    paths: "resolvePaths e w2 = Inr (l, wa)"
    and config3: "writeTailwindConfig e (twConfigStub (selectStubs e)) wa = Inr ((), wb)"
    and utils: "ensureDir e (utilsFolder l) wb = Inr ((), wc)"
    and ui: "ensureDir e (uiFolder l) wc = Inr ((), wd)"
    and ualias: "getUserAlias e wd = Inr (currentAlias, we)"
    and theme: "selectTheme e (cssLocation l) we = Inr (selectedGray, wf)"
    and install: "installDependencies e wf = Inr ((), wg)"
    and primitive: "fetchPrimitive e l wg = Inr ((), wh)"
    and classes: "fetchClasses e l wh = Inr ((), wi)"
    and provs: "writeProviders e (selectStubs e) (componentFolder l) wi = Inr ((), wj)"
    and config: "createConfigStep e (makeConfig l selectedGray currentAlias) wj = Inr ((), wk)"
    and last: "ensureDir e (uiFolder l) wk = Inr ((), w')"
    unfolding initSteps_def andThen_Inr_iff by auto
  from extends [OF before_init_steps(1) git] obtain e1 where "trace w1 = trace w @ e1" by blast
  moreover from extends [OF before_init_steps(2) tw]
  obtain e2 where "trace w2 = trace w1 @ e2" by blast
  moreover from extends [OF before_init_steps(3) paths]
  obtain e3 where "trace wa = trace w2 @ e3" by blast
  moreover from extends [OF before_init_steps(4) config3]
  obtain e4 where "trace wb = trace wa @ e4" by blast
  moreover from extends [OF before_init_steps(5) utils]
  obtain e5 where "trace wc = trace wb @ e5" by blast
  moreover from extends [OF before_init_steps(5) ui]
  obtain e6 where "trace wd = trace wc @ e6" by blast
  moreover from extends [OF before_init_steps(6) ualias]
  obtain e7 where "trace we = trace wd @ e7" by blast
  moreover from extends [OF before_init_steps(7) theme]
  obtain e8 where "trace wf = trace we @ e8" by blast
  ultimately have "trace wf = trace w @ (e1 @ e2 @ e3 @ e4 @ e5 @ e6 @ e7 @ e8)" by simp
  then obtain before where b: "trace wf = trace w @ before" ..
  from install have g: "trace wg = trace wf @ [Spawn (installCommand e)]"
    by (simp add: installDependencies_eq) auto
  from fetchPrimitive_Inr [OF primitive] obtain fileUrl r where
    p: "getRepoUrlForComponent (isTailwind3 e) ''primitive'' = Inr fileUrl"
      "fetch e fileUrl = Inr r" "resp_ok r"
      "trace wh = trace wg @
         [Fetch fileUrl,
          WriteFile (path_join [uiFolder l, ''primitive.tsx''])
            (if isLaravel e then replaceUseClient (resp_body r) else resp_body r),
          WriteFile (path_join [uiFolder l, ''index.ts'']) indexSource]"
    by blast
  from fetchClasses_Inr [OF classes] obtain url rc where
    c: "getUtilsFolder (isTailwind3 e) ''classes.ts'' = Inr url" "fetch e url = Inr rc"
      "trace wi = trace wh @
         [Fetch url, WriteFile (path_join [utilsFolder l, ''classes.ts'']) (resp_body rc)]"
    by blast
  from extends [OF yields_writeProviders provs] obtain between where
    j: "trace wj = trace wi @ between" by blast
  from createConfigStep_Inr [OF config]
  have k: "trace wk = trace wj @ [CreateConfig (makeConfig l selectedGray currentAlias)]" .
  from extends [OF yields_ensureDir last] obtain after where
    a: "trace w' = trace wk @ after" by blast
  have "trace w' = trace w @ before @
               [Spawn (installCommand e),
                Fetch fileUrl,
                WriteFile (path_join [uiFolder l, ''primitive.tsx''])
                  (if isLaravel e then replaceUseClient (resp_body r) else resp_body r),
                WriteFile (path_join [uiFolder l, ''index.ts'']) indexSource,
                Fetch url,
                WriteFile (path_join [utilsFolder l, ''classes.ts'']) (resp_body rc)]
               @ between @ [CreateConfig (makeConfig l selectedGray currentAlias)] @ after"
    unfolding a k j c(3) p(4) g b by simp
  with p(1-3) c(1,2) show ?thesis by blast
qed

text \<open>The same for the older command, whose configuration is the file \<^verbatim>\<open>justd.json\<close>.\<close>

lemma stopsShort_legacy:
  "stopsShort requireTailwindConfig"
  "stopsShort (legacyLayout e)"
  "stopsShort (placeCss e css)"
  "stopsShort (legacyTailwindConfig e source)"
  "stopsShort (legacyInstall e)"
  "stopsShort (legacyFetchPrimitive e ui)"
  "stopsShort (legacyProviders e l)"
  "stopsShort (legacySaveConfig e ui)"
  "stopsShort (legacyEpilogue e)"
proof -
  show "stopsShort requireTailwindConfig"
    by (auto simp: stopsShort_def requireTailwindConfig_def Let_def split: if_splits)
  have menu: "stopsShort (select message choice)" for message and choice :: 'a
    by (simp add: stopsShort_def select_def)
  show "stopsShort (legacyLayout e)"
    unfolding legacyLayout_def Let_def
    by (intro stopsShort_andThen menu stopsShort_if stopsShort_input stopsShort_unit)
  have copy: "stopsShort
      (\<lambda>w. if existsSync w source' then
            (case readFileSync source' w of
               Inl (msg, w1) \<Rightarrow> Inr ((), emit [SpinnerFail (failed msg)] w1)
             | Inr (cssContent, w1) \<Rightarrow>
                 (case writeFileSync e css cssContent w1 of
                    Inl (msg, w2) \<Rightarrow> Inr ((), emit [SpinnerFail (failed msg)] w2)
                  | Inr (u, w2) \<Rightarrow> Inr ((), w2)))
          else Inr ((), emit [SpinnerWarn missing] w))" for source' failed missing
    by (auto simp: stopsShort_def split: sum.splits if_splits)
  show "stopsShort (placeCss e css)"
    unfolding placeCss_def Let_def by (intro stopsShort_andThen stopsShort_ensureDir copy)
  show "stopsShort (legacyTailwindConfig e source)"
    by (auto simp: stopsShort_def legacyTailwindConfig_def copyTailwindConfig_def Let_def
        split: if_splits sum.splits)
  show "stopsShort (legacyInstall e)"
    by (simp add: stopsShort_def legacyInstall_eq)
  show "stopsShort (legacyFetchPrimitive e ui)"
    unfolding legacyFetchPrimitive_def
    by (auto split: sum.splits intro!: stopsShort_aborted stopsShort_andThen stopsShort_uncaught)
  show "stopsShort (legacyProviders e l)"
    unfolding legacyProviders_def
    by (auto split: option.splits
        intro!: stopsShort_if stopsShort_andThen stopsShort_copyStub stopsShort_unit)
  show "stopsShort (legacySaveConfig e ui)"
    unfolding legacySaveConfig_def
    by (intro stopsShort_andThen stopsShort_uncaught)
       (auto simp: stopsShort_def uncaught_def split: if_splits sum.splits)
  show "stopsShort (legacyEpilogue e)"
    by (auto simp: stopsShort_def legacyEpilogue_def andThen_def select_def)
qed

lemma legacyFetchPrimitive_Inr:
  assumes "legacyFetchPrimitive e ui w = Inr ((), w')"
  shows "\<exists>fileUrl r. getRepoUrlForComponent (isTailwind3 e) ''primitive'' = Inr fileUrl
           \<and> fetch e fileUrl = Inr r
           \<and> trace w' = trace w @
                 [Fetch fileUrl, WriteFile (path_join [ui, ''primitive.tsx'']) (resp_body r)]"
  using assms
  by (auto simp: legacyFetchPrimitive_def andThen_def uncaught_def httpGet_def
      writeFileSync_def split: sum.splits option.splits)

lemma legacySaveConfig_Inr:
  assumes "legacySaveConfig e ui w = Inr ((), w')"
  shows "files w' ''justd.json'' = Some (legacyConfigJson ui)
         \<and> (\<exists>evs. trace w' = trace w @ evs @ [WriteFile ''justd.json'' (legacyConfigJson ui)])"
  using assms
  by (auto simp: legacySaveConfig_def andThen_def uncaught_def unlinkSync_def writeFileSync_def
      split: sum.splits option.splits if_splits)

lemma legacyEpilogue_Inr:
  assumes "legacyEpilogue e w = Inr ((), w')"
  shows "files w' = files w \<and> (\<exists>evs. trace w' = trace w @ evs)"
  using assms by (auto simp: legacyEpilogue_def andThen_def select_def split: if_splits)

lemma legacyInit_completed_events:
  assumes run: "legacyInit e w = (Completed, w')"
  shows "\<exists>(l :: legacy_layout) fileUrl r before between after.
           getRepoUrlForComponent (isTailwind3 e) ''primitive'' = Inr fileUrl
         \<and> fetch e fileUrl = Inr r
         \<and> trace w' = trace w @ before @
               [Spawn (legacyInstallCommand e),
                Fetch fileUrl,
                WriteFile (path_join [legacy_uiFolder l, ''primitive.tsx'']) (resp_body r)]
               @ between @ [WriteFile ''justd.json'' (legacyConfigJson (legacy_uiFolder l))] @ after
         \<and> files w' ''justd.json'' = Some (legacyConfigJson (legacy_uiFolder l))"
proof -
  let ?m = "andThen requireTailwindConfig (\<lambda>u. legacySteps e)"
  have s: "stopsShort ?m"
    unfolding legacySteps_def
    by (intro stopsShort_andThen stopsShort_legacy stopsShort_ensureDir)
  from run have f: "finish (?m w) = (Completed, w')" by (simp add: legacyInit_def)
  have "?m w = Inr ((), w')"
  proof (cases "?m w")
    case (Inl halted)
    with f have "?m w = Inl (Completed, w')" by (simp add: finish_def)
    with stopsShortD [OF s] show ?thesis by blast
  next
    case (Inr r)
    with f show ?thesis by (cases r) (simp add: finish_def)
  qed
  then obtain w0 l wa wb wc wd we wf wg wh where
    req: "requireTailwindConfig w = Inr ((), w0)"
    and layout: "legacyLayout e w0 = Inr (l, wa)"
    and ui: "ensureDir e (legacy_uiFolder l) wa = Inr ((), wb)"
    and css: "placeCss e (legacy_cssLocation l) wb = Inr ((), wc)"
    and config: "legacyTailwindConfig e (configSourcePath l) wc = Inr ((), wd)"
    and install: "legacyInstall e wd = Inr ((), we)"
    and primitive: "legacyFetchPrimitive e (legacy_uiFolder l) we = Inr ((), wf)"
    and provs: "legacyProviders e l wf = Inr ((), wg)"
    and save: "legacySaveConfig e (legacy_uiFolder l) wg = Inr ((), wh)"
    and epilogue: "legacyEpilogue e wh = Inr ((), w')"
    unfolding legacySteps_def andThen_Inr_iff by auto
  from extends [OF before_legacy_steps(1) req] obtain e1 where "trace w0 = trace w @ e1" by blast
  moreover from extends [OF before_legacy_steps(2) layout]
  obtain e2 where "trace wa = trace w0 @ e2" by blast
  moreover from extends [OF before_init_steps(5) ui]
  obtain e3 where "trace wb = trace wa @ e3" by blast
  moreover from extends [OF before_legacy_steps(3) css]
  obtain e4 where "trace wc = trace wb @ e4" by blast
  moreover from extends [OF before_legacy_steps(4) config]
  obtain e5 where "trace wd = trace wc @ e5" by blast
  ultimately have "trace wd = trace w @ (e1 @ e2 @ e3 @ e4 @ e5)" by simp
  then obtain before where b: "trace wd = trace w @ before" ..
  from install have i: "trace we = trace wd @ [Spawn (legacyInstallCommand e)]"
    by (simp add: legacyInstall_eq) auto
  from legacyFetchPrimitive_Inr [OF primitive] obtain fileUrl r where
    p: "getRepoUrlForComponent (isTailwind3 e) ''primitive'' = Inr fileUrl"
      "fetch e fileUrl = Inr r"
      "trace wf = trace we @
         [Fetch fileUrl, WriteFile (path_join [legacy_uiFolder l, ''primitive.tsx'']) (resp_body r)]"
    by blast
  from extends [OF yields_legacy_after(1) provs] obtain evs1 where
    g: "trace wg = trace wf @ evs1" by blast
  from legacySaveConfig_Inr [OF save] obtain evs2 where
    h: "files wh ''justd.json'' = Some (legacyConfigJson (legacy_uiFolder l))"
      "trace wh = trace wg @ evs2 @ [WriteFile ''justd.json'' (legacyConfigJson (legacy_uiFolder l))]"
    by blast
  define between where "between = evs1 @ evs2"
  from legacyEpilogue_Inr [OF epilogue] obtain after where
    a: "files w' = files wh" "trace w' = trace wh @ after" by blast
  have "trace w' = trace w @ before @
               [Spawn (legacyInstallCommand e),
                Fetch fileUrl,
                WriteFile (path_join [legacy_uiFolder l, ''primitive.tsx'']) (resp_body r)]
               @ between @ [WriteFile ''justd.json'' (legacyConfigJson (legacy_uiFolder l))]
               @ after"
    unfolding a(2) h(2) g p(3) i b between_def by simp
  moreover from h(1) a(1)
  have "files w' ''justd.json'' = Some (legacyConfigJson (legacy_uiFolder l))" by simp
  ultimately show ?thesis using p(1,2) by blast
qed

section \<open>C1: a remote asset that is not found\<close>

text \<open>
  C1 fails on the code for the second fetch. A \<^verbatim>\<open>404 Not Found\<close> for the primitive
  component aborts the run with the status text, before anything is written for it and
  before the configuration is created. The same answer for \<^verbatim>\<open>classes.ts\<close> is not checked:
  its body is written as \<^verbatim>\<open>classes.ts\<close>, the configuration is created and the run
  completes.
\<close>

theorem C1_classes_not_found_is_written:
  "fst (init classesMissingEnv sampleWorld) = Completed
   \<and> files (snd (init classesMissingEnv sampleWorld)) ''src/utils/classes.ts''
     = Some ''404: Not Found''
   \<and> CreateConfig
        \<lparr>cfg_schema = ''https://getjustd.com/schema.json'', cfg_ui = ''src/components/ui'',
         cfg_utils = ''src/utils'', cfg_gray = Some ''slate'', cfg_css = ''src/app/globals.css'',
         cfg_alias = Some ''@''\<rparr>
       \<in> set (trace (snd (init classesMissingEnv sampleWorld)))
   \<and> fst (init primitiveMissingEnv sampleWorld) = Threw ''Failed to fetch component: Not Found''
   \<and> files (snd (init primitiveMissingEnv sampleWorld)) ''src/components/ui/primitive.tsx'' = None
   \<and> list_all (\<lambda>ev. case ev of CreateConfig c \<Rightarrow> False | _ \<Rightarrow> True)
        (trace (snd (init primitiveMissingEnv sampleWorld)))"
  by code_simp

section \<open>C2: the default paths by framework\<close>

text \<open>
  C2. In the older command, whose code holds the table, choosing each project type and
  overriding nothing gives exactly these components folders and CSS locations: Next.js with
  \<^verbatim>\<open>src\<close>: \<^verbatim>\<open>src/components\<close>, \<^verbatim>\<open>src/app/globals.css\<close>; Next.js without:
  \<^verbatim>\<open>components\<close>, \<^verbatim>\<open>app/globals.css\<close>; Laravel: \<^verbatim>\<open>resources/js/components\<close>,
  \<^verbatim>\<open>resources/css/app.css\<close>; Vite: \<^verbatim>\<open>src/components\<close>, \<^verbatim>\<open>src/index.css\<close>; Other, both
  prompts answered with their defaults: \<^verbatim>\<open>components\<close>, \<^verbatim>\<open>styles/app.css\<close>.
\<close>

theorem C2_default_paths:
  "(\<exists>l w'. legacyLayout (e\<lparr>selectProjectType := NextJs, selectHasSrc := True\<rparr>) w = Inr (l, w')
       \<and> componentsFolder l = ''src/components''
       \<and> legacy_cssLocation l = ''src/app/globals.css'')
   \<and> (\<exists>l w'. legacyLayout (e\<lparr>selectProjectType := NextJs, selectHasSrc := False\<rparr>) w = Inr (l, w')
       \<and> componentsFolder l = ''components''
       \<and> legacy_cssLocation l = ''app/globals.css'')
   \<and> (\<exists>l w'. legacyLayout (e\<lparr>selectProjectType := Laravel\<rparr>) w = Inr (l, w')
       \<and> componentsFolder l = ''resources/js/components''
       \<and> legacy_cssLocation l = ''resources/css/app.css'')
   \<and> (\<exists>l w'. legacyLayout (e\<lparr>selectProjectType := Vite\<rparr>) w = Inr (l, w')
       \<and> componentsFolder l = ''src/components''
       \<and> legacy_cssLocation l = ''src/index.css'')
   \<and> (\<exists>l w'. legacyLayout (e\<lparr>selectProjectType := Other\<rparr>)
                 (w\<lparr>stdin := AcceptDefault # AcceptDefault # rest\<rparr>) = Inr (l, w')
       \<and> componentsFolder l = ''components''
       \<and> legacy_cssLocation l = ''styles/app.css'')"
  by (simp add: legacyLayout_def andThen_def select_def input_def acceptAny_def Let_def
      join_src_components join_empty_components cssPath_laravel_def cssPath_vite_def cssPath_nextHasSrc_def cssPath_nextNoSrc_def
      cssPath_other_def)


section \<open>C3: the URLs of the remote assets\<close>

text \<open>A pattern that lacks a character cannot straddle an occurrence of that character.\<close>

lemma sublist_split_at:
  assumes "x \<notin> set p" and "sublist p (a @ x # b)"
  shows "sublist p a \<or> sublist p b"
proof -
  from assms(2) obtain ps ss where eq: "a @ x # b = ps @ p @ ss"
    by (auto simp: sublist_def)
  then consider us where "a = ps @ us" "us @ x # b = p @ ss"
    | us where "a @ us = ps" "x # b = us @ p @ ss"
    by (auto simp: append_eq_append_conv2)
  then show ?thesis
  proof cases
    case 1
    from 1(2) consider vs where "us = p @ vs"
      | vs where "us @ vs = p" "x # b = vs @ ss"
      by (auto simp: append_eq_append_conv2)
    then show ?thesis
    proof cases
      case 1
      with \<open>a = ps @ us\<close> show ?thesis by auto
    next
      case 2
      with assms(1) have "vs = []" by (cases vs) auto
      with 2 \<open>a = ps @ us\<close> show ?thesis by auto
    qed
  next
    case 2
    show ?thesis
    proof (cases us)
      case Nil
      with 2 assms(1) have "p = []" by (cases p) auto
      then show ?thesis by simp
    next
      case (Cons u us')
      with 2 have "b = us' @ p @ ss" by simp
      then show ?thesis by auto
    qed
  qed
qed

lemma component_prefix_clean:
  "\<not> sublist ''refs/heads/'' (REPO @ ''/'' @ BRANCH tw3 @ ''/components/u'')"
  by (cases tw3) (simp_all add: REPO_def BRANCH_def branchWorkingOn_def sublist_code)

lemma component_url_clean:
  assumes "\<not> sublist ''refs/heads/'' name"
  shows "\<not> sublist ''refs/heads/''
           (REPO @ ''/'' @ BRANCH tw3 @ ''/components/ui/'' @ name @ ''.tsx'')"
proof
  let ?p = "''refs/heads/''"
  let ?u = "REPO @ ''/'' @ BRANCH tw3 @ ''/components/u''"
  assume "sublist ?p (REPO @ ''/'' @ BRANCH tw3 @ ''/components/ui/'' @ name @ ''.tsx'')"
  then have "sublist ?p (?u @ CHR ''i'' # (CHR ''/'' # name @ ''.tsx''))" by simp
  then have "sublist ?p ?u \<or> sublist ?p (CHR ''/'' # name @ ''.tsx'')"
    by (rule sublist_split_at[rotated]) simp
  with component_prefix_clean have "sublist ?p (CHR ''/'' # name @ ''.tsx'')" by blast
  then have "sublist ?p (name @ CHR ''.'' # ''tsx'')"
    by (simp add: sublist_Cons_right)
  then have "sublist ?p name \<or> sublist ?p ''tsx''"
    by (rule sublist_split_at[rotated]) simp
  moreover have "\<not> sublist ?p ''tsx''" by (simp add: sublist_code)
  ultimately show False using assms by blast
qed

lemma refs_segment_in_url:
  "sublist (''refs/heads/'' @ BRANCH tw3 @ ''/'')
     (REPO @ ''/refs/heads/'' @ BRANCH tw3 @ ''/'' @ rest)"
proof -
  have "REPO @ ''/refs/heads/'' @ BRANCH tw3 @ ''/'' @ rest
      = (REPO @ ''/'') @ (''refs/heads/'' @ BRANCH tw3 @ ''/'') @ rest" by simp
  then show ?thesis by (metis sublist_appendI)
qed

text \<open>
  C3, as the code has it. A component URL is \<^verbatim>\<open>REPO/{branch}/components/ui/{name}.tsx\<close>
  and holds \<^verbatim>\<open>refs/heads/\<close> exactly when the component name itself does; the URL of a theme
  palette (returned for a gray of \<^verbatim>\<open>availablesGrays\<close>) and the URL of a utils file always
  hold the segment \<^verbatim>\<open>refs/heads/{branch}/\<close>.
\<close>

theorem C3_url_asymmetry:
  "(\<exists>url. getRepoUrlForComponent tw3 name = Inr url
       \<and> url = REPO @ ''/'' @ BRANCH tw3 @ ''/components/ui/'' @ name @ ''.tsx''
       \<and> (sublist ''refs/heads/'' url \<longleftrightarrow> sublist ''refs/heads/'' name))
   \<and> (gray \<in> set availablesGrays \<longrightarrow>
        (\<exists>url. getThemesRepoUrl availablesGrays tw3 gray = Inr url
           \<and> sublist (''refs/heads/'' @ BRANCH tw3 @ ''/'') url))
   \<and> (\<exists>url. getUtilsFolder tw3 file = Inr url
        \<and> sublist (''refs/heads/'' @ BRANCH tw3 @ ''/'') url)"
proof (intro conjI impI)
  let ?url = "REPO @ ''/'' @ BRANCH tw3 @ ''/components/ui/'' @ name @ ''.tsx''"
  have "sublist ''refs/heads/'' name \<Longrightarrow> sublist ''refs/heads/'' ?url"
  proof -
    assume "sublist ''refs/heads/'' name"
    moreover have "sublist name ?url"
      by (metis append.assoc sublist_appendI)
    ultimately show ?thesis by (rule sublist_order.order_trans)
  qed
  with component_url_clean[of name tw3]
  have "sublist ''refs/heads/'' ?url \<longleftrightarrow> sublist ''refs/heads/'' name" by blast
  then show "\<exists>url. getRepoUrlForComponent tw3 name = Inr url
       \<and> url = ?url \<and> (sublist ''refs/heads/'' url \<longleftrightarrow> sublist ''refs/heads/'' name)"
    by (simp add: getRepoUrlForComponent_def REPO_def)
next
  assume "gray \<in> set availablesGrays"
  then have "getThemesRepoUrl availablesGrays tw3 gray
      = Inr (REPO @ ''/refs/heads/'' @ BRANCH tw3 @ ''/'' @ (''resources/styles/themes/'' @ gray @ ''.css''))"
    by (simp add: getThemesRepoUrl_def THEMES_URL_def REPO_def)
  then show "\<exists>url. getThemesRepoUrl availablesGrays tw3 gray = Inr url
           \<and> sublist (''refs/heads/'' @ BRANCH tw3 @ ''/'') url"
    using refs_segment_in_url by (metis (no_types))
next
  have "getUtilsFolder tw3 file
      = Inr (REPO @ ''/refs/heads/'' @ BRANCH tw3 @ ''/'' @ (''utils/'' @ file))"
    by (simp add: getUtilsFolder_def REPO_def)
  then show "\<exists>url. getUtilsFolder tw3 file = Inr url
        \<and> sublist (''refs/heads/'' @ BRANCH tw3 @ ''/'') url"
    using refs_segment_in_url by (metis (no_types))
qed

theorem C3_url_asymmetry_witness:
  "getRepoUrlForComponent False ''primitive''
     = Inr ''https://raw.githubusercontent.com/irsyadadl/justd/2.x/components/ui/primitive.tsx''
   \<and> \<not> sublist ''refs/heads/''
         ''https://raw.githubusercontent.com/irsyadadl/justd/2.x/components/ui/primitive.tsx''
   \<and> ''zinc'' \<in> set [''zinc'', ''slate'']
   \<and> getThemesRepoUrl [''zinc'', ''slate''] False ''zinc''
     = Inr ''https://raw.githubusercontent.com/irsyadadl/justd/refs/heads/2.x/resources/styles/themes/zinc.css''
   \<and> sublist ''refs/heads/2.x/''
         ''https://raw.githubusercontent.com/irsyadadl/justd/refs/heads/2.x/resources/styles/themes/zinc.css''
   \<and> getUtilsFolder False ''classes.ts''
     = Inr ''https://raw.githubusercontent.com/irsyadadl/justd/refs/heads/2.x/utils/classes.ts''
   \<and> sublist ''refs/heads/2.x/''
         ''https://raw.githubusercontent.com/irsyadadl/justd/refs/heads/2.x/utils/classes.ts''"
  using C3_url_asymmetry [of False "''primitive''" "''zinc''" "[''zinc'', ''slate'']" "''classes.ts''"]
  by (simp add: getRepoUrlForComponent_def getThemesRepoUrl_def getUtilsFolder_def
      THEMES_URL_def REPO_def BRANCH_def branchWorkingOn_def sublist_code)

text \<open>
  The claim's "for every component name" fails at a name that holds the segment itself.
\<close>

theorem C3_component_name_counterexample:
  "getRepoUrlForComponent False ''refs/heads/x''
     = Inr ''https://raw.githubusercontent.com/irsyadadl/justd/2.x/components/ui/refs/heads/x.tsx''
   \<and> sublist ''refs/heads/''
         ''https://raw.githubusercontent.com/irsyadadl/justd/2.x/components/ui/refs/heads/x.tsx''"
  by (simp add: getRepoUrlForComponent_def REPO_def BRANCH_def branchWorkingOn_def sublist_code)

section \<open>C4: the client directive on a Laravel host\<close>

lemma matchUseClient_iff:
  "matchUseClient s \<noteq> None \<longleftrightarrow>
     (\<exists>q q' r. isQuote q \<and> isQuote q' \<and> s = q # ''use client'' @ q' # r)"
proof
  assume m: "matchUseClient s \<noteq> None"
  then obtain q r where s: "s = q # r" by (cases s) (auto simp: matchUseClient_def)
  with m have q: "isQuote q" and t: "take 10 r = ''use client''"
    by (auto simp: matchUseClient_def split: if_splits)
  from m s q t obtain q' r' where d: "drop 10 r = q' # r'" and q': "isQuote q'"
    by (cases "drop 10 r") (auto simp: matchUseClient_def split: if_splits)
  have "r = take 10 r @ drop 10 r" by simp
  with t d have "r = ''use client'' @ q' # r'" by metis
  with s q q' show "\<exists>q q' r. isQuote q \<and> isQuote q' \<and> s = q # ''use client'' @ q' # r"
    by blast
next
  assume "\<exists>q q' r. isQuote q \<and> isQuote q' \<and> s = q # ''use client'' @ q' # r"
  then show "matchUseClient s \<noteq> None"
    by (auto simp: matchUseClient_def Let_def)
qed

text \<open>The twelve characters every match starts with hold no line feed.\<close>

lemma no_match_across_newline:
  assumes "matchUseClient l = None" and "CHR 0x0A \<notin> set l"
  shows "matchUseClient (l @ CHR 0x0A # s) = None"
proof (rule ccontr)
  assume "matchUseClient (l @ CHR 0x0A # s) \<noteq> None"
  then obtain q q' r where q: "isQuote q" "isQuote q'"
    and eq: "l @ CHR 0x0A # s = q # ''use client'' @ q' # r"
    unfolding matchUseClient_iff by blast
  let ?P = "q # ''use client'' @ [q']"
  from eq have "l @ (CHR 0x0A # s) = ?P @ r" by simp
  then consider us where "l = ?P @ us" | us where "l @ us = ?P" "CHR 0x0A # s = us @ r"
    unfolding append_eq_append_conv2 by blast
  then show False
  proof cases
    case 1
    then have "l = q # ''use client'' @ q' # us" by simp
    with q have "matchUseClient l \<noteq> None" unfolding matchUseClient_iff by blast
    with assms(1) show False by simp
  next
    case 2
    show False
    proof (cases us)
      case Nil
      with 2 have "l = q # ''use client'' @ q' # []" by simp
      with q have "matchUseClient l \<noteq> None" unfolding matchUseClient_iff by blast
      with assms(1) show False by simp
    next
      case (Cons u us')
      with 2 have "u = CHR 0x0A" by simp
      with Cons 2(1) have "CHR 0x0A \<in> set ?P" by (metis in_set_conv_decomp)
      moreover have "CHR 0x0A \<notin> set ?P" using q by (auto simp: isQuote_def)
      ultimately show False by simp
    qed
  qed
qed

lemma replaceUseClient_line:
  "\<not> hasUseClient l \<Longrightarrow> CHR 0x0A \<notin> set l \<Longrightarrow>
     replaceUseClient (l @ CHR 0x0A # s) = l @ CHR 0x0A # replaceUseClient s"
proof (induction l)
  case Nil
  have "matchUseClient (CHR 0x0A # s) = None"
    by (simp add: matchUseClient_def isQuote_def)
  then show ?case by simp
next
  case (Cons c cs)
  then have "matchUseClient (c # cs) = None" and "CHR 0x0A \<notin> set (c # cs)" by auto
  then have "matchUseClient ((c # cs) @ CHR 0x0A # s) = None"
    by (rule no_match_across_newline)
  with Cons show ?case by simp
qed

lemma replaceUseClient_unlines:
  "list_all (\<lambda>l. \<not> hasUseClient l \<and> CHR 0x0A \<notin> set l) ls \<Longrightarrow>
     replaceUseClient (unlines ls @ s) = unlines ls @ replaceUseClient s"
  by (induction ls) (simp_all add: unlines_def replaceUseClient_line)

text \<open>Of a quoted directive that a semicolon follows, the pattern takes the directive alone.\<close>

lemma replaceUseClient_semicolon:
  assumes "isQuote q" "isQuote q'"
  shows "replaceUseClient (q # ''use client'' @ q' # CHR '';'' # rest)
           = CHR '';'' # replaceUseClient rest"
proof -
  have "\<not> isWhiteSpace (CHR '';'')" by (simp add: isWhiteSpace_def)
  with assms
  have "matchUseClient (q # ''use client'' @ q' # CHR '';'' # rest) = Some (CHR '';'' # rest)"
    by (simp add: matchUseClient_def)
  moreover have "matchUseClient (CHR '';'' # rest) = None"
    by (simp add: matchUseClient_def isQuote_def)
  ultimately show ?thesis by simp
qed

text \<open>
  C4 fails on the code. The step that fetches the primitive component writes the fetched
  text as it is on a host that is not Laravel, and with every match of the pattern removed
  on a Laravel host; so does every run that completes. The pattern has no semicolon: of a
  line that is exactly \<^verbatim>\<open>"use client";\<close> or \<^verbatim>\<open>'use client';\<close>, whatever lines without
  a directive come before it and whatever follows, the quoted directive is removed and the
  semicolon stays, as a line of its own. On a Laravel host that is served the first lines
  of the repository's own client component, \<^verbatim>\<open>primitive.tsx\<close> is written with the line
  \<^verbatim>\<open>;\<close> in place of the directive; a host that is not Laravel writes the text as served;
  and of the directive without a semicolon the Laravel host removes the line, and the blank
  line after it.
\<close>

theorem C4_semicolon_is_left:
  \<open>(getRepoUrlForComponent (isTailwind3 e) ''primitive'' = Inr fileUrl
      \<and> fetch e fileUrl = Inr r \<and> resp_ok r
      \<and> writeError e (path_join [uiFolder l, ''primitive.tsx'']) = None
      \<and> writeError e (path_join [uiFolder l, ''index.ts'']) = None \<longrightarrow>
    fetchPrimitive e l w =
      Inr ((),
        w\<lparr>files := (files w)
             (path_join [uiFolder l, ''primitive.tsx''] \<mapsto>
                (if isLaravel e then replaceUseClient (resp_body r) else resp_body r),
              path_join [uiFolder l, ''index.ts''] \<mapsto> indexSource),
          trace := trace w @
             [Fetch fileUrl,
              WriteFile (path_join [uiFolder l, ''primitive.tsx''])
                (if isLaravel e then replaceUseClient (resp_body r) else resp_body r),
              WriteFile (path_join [uiFolder l, ''index.ts'']) indexSource]\<rparr>))
   \<and> (init e w = (Completed, w') \<longrightarrow>
      (\<exists>(l' :: layout) fileUrl' r'.
          getRepoUrlForComponent (isTailwind3 e) ''primitive'' = Inr fileUrl'
        \<and> fetch e fileUrl' = Inr r'
        \<and> WriteFile (path_join [uiFolder l', ''primitive.tsx''])
             (if isLaravel e then replaceUseClient (resp_body r') else resp_body r')
            \<in> set (trace w')))
   \<and> (isQuote q \<and> isQuote q'
        \<and> list_all (\<lambda>ln. \<not> hasUseClient ln \<and> CHR 0x0A \<notin> set ln) before \<longrightarrow>
      replaceUseClient (unlines before @ q # ''use client'' @ q' # CHR '';'' # rest)
        = unlines before @ CHR '';'' # replaceUseClient rest)
   \<and> fst (init (servingPrimitive clientComponent laravelEnv) sampleWorld) = Completed
   \<and> files (snd (init (servingPrimitive clientComponent laravelEnv) sampleWorld))
        ''resources/js/components/ui/primitive.tsx''
      = Some '';\<newline>import * as React from "react";\<newline>''
   \<and> files (snd (init (servingPrimitive clientComponent sampleEnv) sampleWorld))
        ''src/components/ui/primitive.tsx''
      = Some ''"use client";\<newline>import * as React from "react";\<newline>''
   \<and> files (snd (init (servingPrimitive bareClientComponent laravelEnv) sampleWorld))
        ''resources/js/components/ui/primitive.tsx''
      = Some ''import * as React from "react"\<newline>''\<close>
  (is "?step \<and> ?run \<and> ?pattern \<and> ?completes \<and> ?laravel \<and> ?other \<and> ?bare")
proof -
  have ?step
    by (simp add: fetchPrimitive_def andThen_def uncaught_def httpGet_def writeFileSync_def
        laravelTransform_def emit_def)
  moreover have ?run
  proof
    assume "init e w = (Completed, w')"
    from init_completed_events [OF this]
    obtain l' selectedGray currentAlias fileUrl' r' url and rc :: response
      and before between after where
      found: "getRepoUrlForComponent (isTailwind3 e) ''primitive'' = Inr fileUrl'"
        "fetch e fileUrl' = Inr r'"
      and events: "trace w' = trace w @ before @
               [Spawn (installCommand e),
                Fetch fileUrl',
                WriteFile (path_join [uiFolder l', ''primitive.tsx''])
                  (if isLaravel e then replaceUseClient (resp_body r') else resp_body r'),
                WriteFile (path_join [uiFolder l', ''index.ts'']) indexSource,
                Fetch url,
                WriteFile (path_join [utilsFolder l', ''classes.ts'']) (resp_body rc)]
               @ between @ [CreateConfig (makeConfig l' selectedGray currentAlias)] @ after"
      by blast
    from events have "WriteFile (path_join [uiFolder l', ''primitive.tsx''])
             (if isLaravel e then replaceUseClient (resp_body r') else resp_body r')
            \<in> set (trace w')"
      by simp
    with found show "\<exists>(l' :: layout) fileUrl' r'.
          getRepoUrlForComponent (isTailwind3 e) ''primitive'' = Inr fileUrl'
        \<and> fetch e fileUrl' = Inr r'
        \<and> WriteFile (path_join [uiFolder l', ''primitive.tsx''])
             (if isLaravel e then replaceUseClient (resp_body r') else resp_body r')
            \<in> set (trace w')"
      by blast
  qed
  moreover have ?pattern
  proof
    let ?line = "q # ''use client'' @ q' # CHR '';'' # rest"
    assume a: "isQuote q \<and> isQuote q'
        \<and> list_all (\<lambda>ln. \<not> hasUseClient ln \<and> CHR 0x0A \<notin> set ln) before"
    then have "replaceUseClient (unlines before @ ?line) = unlines before @ replaceUseClient ?line"
      by (intro replaceUseClient_unlines) simp
    moreover from a have "replaceUseClient ?line = CHR '';'' # replaceUseClient rest"
      by (intro replaceUseClient_semicolon) simp_all
    ultimately show "replaceUseClient (unlines before @ ?line)
        = unlines before @ CHR '';'' # replaceUseClient rest"
      by (simp only:)
  qed
  moreover have ?completes by code_simp
  moreover have ?laravel by code_simp
  moreover have ?other by code_simp
  moreover have ?bare by code_simp
  ultimately show ?thesis by blast
qed

text \<open>The step and the pattern on the Laravel host that is served the client component.\<close>

theorem C4_semicolon_is_left_witness:
  \<open>fetchPrimitive (servingPrimitive clientComponent laravelEnv)
       \<lparr>componentFolder = ''resources/js/components'', uiFolder = ''resources/js/components/ui'',
        utilsFolder = ''resources/js/utils'', cssLocation = ''resources/css/app.css''\<rparr> sampleWorld
     = Inr ((),
        sampleWorld\<lparr>files := (files sampleWorld)
             (''resources/js/components/ui/primitive.tsx'' \<mapsto>
                '';\<newline>import * as React from "react";\<newline>'',
              ''resources/js/components/ui/index.ts'' \<mapsto> indexSource),
          trace :=
             [Fetch ''https://raw.githubusercontent.com/irsyadadl/justd/2.x/components/ui/primitive.tsx'',
              WriteFile ''resources/js/components/ui/primitive.tsx''
                '';\<newline>import * as React from "react";\<newline>'',
              WriteFile ''resources/js/components/ui/index.ts'' indexSource]\<rparr>)
   \<and> (\<exists>(l' :: layout) fileUrl' r'.
          fetch (servingPrimitive clientComponent laravelEnv) fileUrl' = Inr r'
        \<and> WriteFile (path_join [uiFolder l', ''primitive.tsx'']) (replaceUseClient (resp_body r'))
            \<in> set (trace (snd (init (servingPrimitive clientComponent laravelEnv) sampleWorld))))
   \<and> replaceUseClient ''// primitive\<newline>"use client";\<newline>import x\<newline>''
     = ''// primitive\<newline>;\<newline>import x\<newline>''\<close>
proof -
  let ?e = "servingPrimitive clientComponent laravelEnv"
  let ?l = "\<lparr>componentFolder = ''resources/js/components'', uiFolder = ''resources/js/components/ui'',
        utilsFolder = ''resources/js/utils'', cssLocation = ''resources/css/app.css''\<rparr>"
  let ?url = "''https://raw.githubusercontent.com/irsyadadl/justd/2.x/components/ui/primitive.tsx''"
  let ?r = "\<lparr>resp_ok = True, resp_statusText = ''OK'', resp_body = clientComponent\<rparr>"
  have h: "getRepoUrlForComponent (isTailwind3 ?e) ''primitive'' = Inr ?url"
    "fetch ?e ?url = Inr ?r" "resp_ok ?r" "isLaravel ?e"
    "writeError ?e p = None" "trace sampleWorld = []"
    "path_join [uiFolder ?l, ''primitive.tsx''] = ''resources/js/components/ui/primitive.tsx''"
    "path_join [uiFolder ?l, ''index.ts''] = ''resources/js/components/ui/index.ts''" for p
    by (simp_all add: servingPrimitive_def laravelEnv_def sampleEnv_def sampleWorld_def
        servedAt_def getRepoUrlForComponent_def REPO_def BRANCH_def branchWorkingOn_def
        path_simps)
  have changed: \<open>replaceUseClient clientComponent = '';\<newline>import * as React from "react";\<newline>''\<close>
    by (simp add: clientComponent_def matchUseClient_def isQuote_def isWhiteSpace_def)
  have quotes: "isQuote (CHR 0x22)"
    "list_all (\<lambda>ln. \<not> hasUseClient ln \<and> CHR 0x0A \<notin> set ln) [''// primitive'']"
    by (simp_all add: isQuote_def matchUseClient_def)
  have "fst (init ?e sampleWorld) = Completed" by code_simp
  then have run: "init ?e sampleWorld = (Completed, snd (init ?e sampleWorld))"
    by (simp add: prod_eq_iff)
  note C4 = C4_semicolon_is_left
    [where e = ?e and l = ?l and w = sampleWorld and fileUrl = ?url and r = ?r
       and w' = "snd (init ?e sampleWorld)" and q = "CHR 0x22" and q' = "CHR 0x22"
       and before = "[''// primitive'']" and rest = "''\<newline>import x\<newline>''"]
  from C4 [THEN conjunct1] h changed
  have "fetchPrimitive ?e ?l sampleWorld
     = Inr ((),
        sampleWorld\<lparr>files := (files sampleWorld)
             (''resources/js/components/ui/primitive.tsx'' \<mapsto>
                replaceUseClient clientComponent,
              ''resources/js/components/ui/index.ts'' \<mapsto> indexSource),
          trace :=
             [Fetch ?url,
              WriteFile ''resources/js/components/ui/primitive.tsx''
                (replaceUseClient clientComponent),
              WriteFile ''resources/js/components/ui/index.ts'' indexSource]\<rparr>)"
    by simp
  moreover from C4 [THEN conjunct2, THEN conjunct1, THEN mp, OF run]
  obtain l' :: layout and fileUrl' r' where served: "fetch ?e fileUrl' = Inr r'"
    and "WriteFile (path_join [uiFolder l', ''primitive.tsx''])
       (if isLaravel ?e then replaceUseClient (resp_body r') else resp_body r')
      \<in> set (trace (snd (init ?e sampleWorld)))"
    by blast
  with h(4) have "WriteFile (path_join [uiFolder l', ''primitive.tsx''])
       (replaceUseClient (resp_body r')) \<in> set (trace (snd (init ?e sampleWorld)))"
    by simp
  with served have "\<exists>(l' :: layout) fileUrl' r'.
          fetch ?e fileUrl' = Inr r'
        \<and> WriteFile (path_join [uiFolder l', ''primitive.tsx'']) (replaceUseClient (resp_body r'))
            \<in> set (trace (snd (init ?e sampleWorld)))"
    by blast
  moreover from C4 [THEN conjunct2, THEN conjunct2, THEN conjunct1] quotes
  have "replaceUseClient (unlines [''// primitive''] @ CHR 0x22 # ''use client'' @ CHR 0x22
            # CHR '';'' # ''\<newline>import x\<newline>'')
        = unlines [''// primitive''] @ CHR '';'' # replaceUseClient ''\<newline>import x\<newline>''"
    by blast
  then have \<open>replaceUseClient ''// primitive\<newline>"use client";\<newline>import x\<newline>''
     = ''// primitive\<newline>;\<newline>import x\<newline>''\<close>
    by (simp add: unlines_def matchUseClient_def isQuote_def)
  ultimately show ?thesis unfolding changed by blast
qed

section \<open>C5: no Tailwind configuration file\<close>

text \<open>
  C5, as the code has it. The older command requires one of the two configuration files:
  with neither it reports that none was found and returns, having written nothing. The
  flag-aware command has no such requirement: under Tailwind 3, when
  \<^verbatim>\<open>tailwind.config.js\<close> does not exist, the stub is written to \<^verbatim>\<open>tailwind.config.ts\<close>,
  and when that write fails the failure is reported through the spinner and the run goes
  on.
\<close>

theorem C5_missing_tailwind_config:
  "(\<not> existsSync w ''tailwind.config.js'' \<and> \<not> existsSync w ''tailwind.config.ts'' \<longrightarrow>
      legacyInit e w =
        (Returned,
         emit [ConsoleError ''No Tailwind configuration file found. Please ensure tailwind.config.ts or tailwind.config.js exists in the root directory.''] w))
   \<and> (isTailwind3 e \<and> \<not> existsSync w ''tailwind.config.js'' \<and> files w stub = Some content
        \<and> writeError e ''tailwind.config.ts'' = None \<longrightarrow>
      writeTailwindConfig e stub w =
        Inr ((), w\<lparr>files := (files w)(''tailwind.config.ts'' \<mapsto> content),
                   trace := trace w @ [ReadFile stub, WriteFile ''tailwind.config.ts'' content]\<rparr>))
   \<and> (isTailwind3 e \<and> \<not> existsSync w ''tailwind.config.js'' \<and> files w stub = Some content
        \<and> writeError e ''tailwind.config.ts'' = Some msg \<longrightarrow>
      writeTailwindConfig e stub w =
        Inr ((), w\<lparr>trace := trace w @
                   [ReadFile stub,
                    SpinnerFail (''Failed to write Tailwind config to tailwind.config.ts: '' @ msg)]\<rparr>))"
  by (simp add: legacyInit_def requireTailwindConfig_def andThen_def finish_def
      writeTailwindConfig_def copyTailwindConfig_def tailwindConfigTarget_def
      readFileSync_def writeFileSync_def emit_def Let_def)

theorem C5_missing_tailwind_config_witness:
  "\<not> existsSync bareWorld ''tailwind.config.js'' \<and> \<not> existsSync bareWorld ''tailwind.config.ts''
   \<and> legacyInit legacyModeEnv bareWorld =
        (Returned,
         emit [ConsoleError ''No Tailwind configuration file found. Please ensure tailwind.config.ts or tailwind.config.js exists in the root directory.''] bareWorld)
   \<and> isTailwind3 legacyModeEnv
   \<and> files bareWorld ''/cli/src/resources/stubs/1.x/tailwind.config.src.next.stub''
     = Some ''tailwind 3 config''
   \<and> writeError legacyModeEnv ''tailwind.config.ts'' = None
   \<and> writeTailwindConfig legacyModeEnv ''/cli/src/resources/stubs/1.x/tailwind.config.src.next.stub''
        bareWorld =
        Inr ((), bareWorld\<lparr>files := (files bareWorld)(''tailwind.config.ts'' \<mapsto> ''tailwind 3 config''),
                   trace := trace bareWorld @
                     [ReadFile ''/cli/src/resources/stubs/1.x/tailwind.config.src.next.stub'',
                      WriteFile ''tailwind.config.ts'' ''tailwind 3 config'']\<rparr>)
   \<and> writeError (legacyModeEnv\<lparr>writeError := (\<lambda>p. Some ''EACCES: permission denied'')\<rparr>)
        ''tailwind.config.ts'' = Some ''EACCES: permission denied''
   \<and> writeTailwindConfig (legacyModeEnv\<lparr>writeError := (\<lambda>p. Some ''EACCES: permission denied'')\<rparr>)
        ''/cli/src/resources/stubs/1.x/tailwind.config.src.next.stub'' bareWorld =
        Inr ((), bareWorld\<lparr>trace := trace bareWorld @
                   [ReadFile ''/cli/src/resources/stubs/1.x/tailwind.config.src.next.stub'',
                    SpinnerFail (''Failed to write Tailwind config to tailwind.config.ts: ''
                                   @ ''EACCES: permission denied'')]\<rparr>)"
proof -
  have h: "\<not> existsSync bareWorld ''tailwind.config.js''"
    "\<not> existsSync bareWorld ''tailwind.config.ts''"
    "isTailwind3 legacyModeEnv"
    "files bareWorld ''/cli/src/resources/stubs/1.x/tailwind.config.src.next.stub''
       = Some ''tailwind 3 config''"
    "writeError legacyModeEnv ''tailwind.config.ts'' = None"
    "isTailwind3 (legacyModeEnv\<lparr>writeError := (\<lambda>p. Some ''EACCES: permission denied'')\<rparr>)"
    "writeError (legacyModeEnv\<lparr>writeError := (\<lambda>p. Some ''EACCES: permission denied'')\<rparr>)
        ''tailwind.config.ts'' = Some ''EACCES: permission denied''"
    by (simp_all add: existsSync_def bareWorld_def sampleWorld_def sampleFiles_def
        legacyModeEnv_def sampleEnv_def)
  note C5 = C5_missing_tailwind_config
    [where w = bareWorld and stub = "''/cli/src/resources/stubs/1.x/tailwind.config.src.next.stub''"
       and content = "''tailwind 3 config''"]
  from C5 [where e = legacyModeEnv and msg = "[]"] h
  have "legacyInit legacyModeEnv bareWorld =
        (Returned,
         emit [ConsoleError ''No Tailwind configuration file found. Please ensure tailwind.config.ts or tailwind.config.js exists in the root directory.''] bareWorld)"
    and "writeTailwindConfig legacyModeEnv ''/cli/src/resources/stubs/1.x/tailwind.config.src.next.stub''
        bareWorld =
        Inr ((), bareWorld\<lparr>files := (files bareWorld)(''tailwind.config.ts'' \<mapsto> ''tailwind 3 config''),
                   trace := trace bareWorld @
                     [ReadFile ''/cli/src/resources/stubs/1.x/tailwind.config.src.next.stub'',
                      WriteFile ''tailwind.config.ts'' ''tailwind 3 config'']\<rparr>)"
    by blast+
  moreover
  from C5 [where e = "legacyModeEnv\<lparr>writeError := (\<lambda>p. Some ''EACCES: permission denied'')\<rparr>"
             and msg = "''EACCES: permission denied''"] h
  have "writeTailwindConfig (legacyModeEnv\<lparr>writeError := (\<lambda>p. Some ''EACCES: permission denied'')\<rparr>)
        ''/cli/src/resources/stubs/1.x/tailwind.config.src.next.stub'' bareWorld =
        Inr ((), bareWorld\<lparr>trace := trace bareWorld @
                   [ReadFile ''/cli/src/resources/stubs/1.x/tailwind.config.src.next.stub'',
                    SpinnerFail (''Failed to write Tailwind config to tailwind.config.ts: ''
                                   @ ''EACCES: permission denied'')]\<rparr>)"
    by blast
  ultimately show ?thesis using h by blast
qed

text \<open>
  The claim fails on the flag-aware command: under Tailwind 3, in a project with neither
  file, the run completes and has written the stub to \<^verbatim>\<open>tailwind.config.ts\<close>.
\<close>

theorem C5_fallback_counterexample:
  "isTailwind3 legacyModeEnv
   \<and> \<not> existsSync bareWorld ''tailwind.config.js'' \<and> \<not> existsSync bareWorld ''tailwind.config.ts''
   \<and> fst (init legacyModeEnv bareWorld) = Completed
   \<and> files (snd (init legacyModeEnv bareWorld)) ''tailwind.config.ts'' = Some ''tailwind 3 config''"
  by code_simp

section \<open>C6: blank overrides\<close>

text \<open>
  C6. At each of the three path prompts (components folder, utils folder, CSS location) an
  override that is empty or white space only is refused with the message of the
  \<^verbatim>\<open>validate\<close> callback and the prompt asks again; an override with any other character
  is taken as it is, whatever the default. So no path of an interactively resolved layout is
  blank, and three such overrides in a row are the layout.
\<close>

theorem C6_blank_override_rejected:
  "(list_all isWhiteSpace s \<longrightarrow>
      promptLoop dflt validatePath (Submit s # rest)
        = (Invalid ''Path cannot be empty. Please enter a valid path.''
             # fst (promptLoop dflt validatePath rest),
           snd (promptLoop dflt validatePath rest)))
   \<and> (\<not> list_all isWhiteSpace s \<longrightarrow>
      promptLoop dflt validatePath (Submit s # rest) = ([], Some (s, rest)))
   \<and> (\<not> flag_yes e \<and> resolvePaths e w = Inr (l, w') \<longrightarrow>
      \<not> list_all isWhiteSpace (componentFolder l)
      \<and> \<not> list_all isWhiteSpace (utilsFolder l)
      \<and> \<not> list_all isWhiteSpace (cssLocation l))
   \<and> (\<not> flag_yes e \<and> \<not> list_all isWhiteSpace a \<and> \<not> list_all isWhiteSpace b
        \<and> \<not> list_all isWhiteSpace c \<and> stdin w = Submit a # Submit b # Submit c # later \<longrightarrow>
      resolvePaths e w
        = Inr (\<lparr>componentFolder = a, uiFolder = path_join [a, ''ui''],
                utilsFolder = b, cssLocation = c\<rparr>,
               emit [Prompt ''Components folder:'', Prompt ''Utils folder:'',
                     Prompt ''Where would you like to place the CSS file?''] (w\<lparr>stdin := later\<rparr>)))"
  (is "?rejected \<and> ?accepted \<and> ?never_blank \<and> ?precedence")
proof -
  have ?rejected
  proof
    assume "list_all isWhiteSpace s"
    then have "validatePath s = Some ''Path cannot be empty. Please enter a valid path.''"
      by (simp add: validatePath_def trim_empty_iff)
    then show "promptLoop dflt validatePath (Submit s # rest)
          = (Invalid ''Path cannot be empty. Please enter a valid path.''
               # fst (promptLoop dflt validatePath rest),
             snd (promptLoop dflt validatePath rest))"
      by (simp add: split_def)
  qed
  moreover have ?accepted
  proof
    assume "\<not> list_all isWhiteSpace s"
    then have "validatePath s = None" by (simp add: validatePath_None_iff)
    then show "promptLoop dflt validatePath (Submit s # rest) = ([], Some (s, rest))"
      by simp
  qed
  moreover have ?never_blank
  proof
    assume "\<not> flag_yes e \<and> resolvePaths e w = Inr (l, w')"
    then obtain w1 w2 w3 where
      "input ''Components folder:'' (possibilityComponentsPath e) validatePath w
         = Inr (componentFolder l, w1)"
      "input ''Utils folder:'' (possibilityUtilsPath e) validatePath w1 = Inr (utilsFolder l, w2)"
      "input ''Where would you like to place the CSS file?'' (possibilityCssPath e) validatePath w2
         = Inr (cssLocation l, w3)"
      by (auto simp: resolvePaths_def andThen_Inr_iff)
    then show "\<not> list_all isWhiteSpace (componentFolder l)
        \<and> \<not> list_all isWhiteSpace (utilsFolder l)
        \<and> \<not> list_all isWhiteSpace (cssLocation l)"
      unfolding input_Inr_iff by (blast dest: promptLoop_validatePath_accepts)
  qed
  moreover have ?precedence
    by (auto simp: resolvePaths_def andThen_def input_def validatePath_nonblank emit_def)
  ultimately show ?thesis by blast
qed


theorem C6_blank_override_rejected_witness:
  "list_all isWhiteSpace ''  ''
   \<and> promptLoop ''src/components'' validatePath [Submit ''  '', Submit ''app/ui'']
     = ([Invalid ''Path cannot be empty. Please enter a valid path.''], Some (''app/ui'', []))
   \<and> \<not> list_all isWhiteSpace ''app/ui''
   \<and> promptLoop ''src/components'' validatePath [Submit ''app/ui''] = ([], Some (''app/ui'', []))
   \<and> \<not> flag_yes sampleEnv
   \<and> stdin (sampleWorld\<lparr>stdin := [Submit ''app/ui'', Submit ''lib'', Submit ''app/main.css'']\<rparr>)
     = [Submit ''app/ui'', Submit ''lib'', Submit ''app/main.css'']
   \<and> \<not> list_all isWhiteSpace ''lib'' \<and> \<not> list_all isWhiteSpace ''app/main.css''
   \<and> resolvePaths sampleEnv
        (sampleWorld\<lparr>stdin := [Submit ''app/ui'', Submit ''lib'', Submit ''app/main.css'']\<rparr>)
     = Inr (\<lparr>componentFolder = ''app/ui'', uiFolder = path_join [''app/ui'', ''ui''],
             utilsFolder = ''lib'', cssLocation = ''app/main.css''\<rparr>,
            emit [Prompt ''Components folder:'', Prompt ''Utils folder:'',
                  Prompt ''Where would you like to place the CSS file?'']
              (sampleWorld\<lparr>stdin := []\<rparr>))"
proof -
  have blank: "list_all isWhiteSpace ''  ''" by (simp add: isWhiteSpace_def)
  have full: "\<not> list_all isWhiteSpace ''app/ui''" "\<not> list_all isWhiteSpace ''lib''"
    "\<not> list_all isWhiteSpace ''app/main.css''" by (simp_all add: isWhiteSpace_def)
  have interactive: "\<not> flag_yes sampleEnv" by (simp add: sampleEnv_def)
  note C6 = C6_blank_override_rejected
    [where s = "''  ''" and dflt = "''src/components''" and rest = "[Submit ''app/ui'']"
       and e = sampleEnv
       and w = "sampleWorld\<lparr>stdin := [Submit ''app/ui'', Submit ''lib'', Submit ''app/main.css'']\<rparr>"
       and a = "''app/ui''" and b = "''lib''" and c = "''app/main.css''" and later = "[]"]
  from C6 blank have "promptLoop ''src/components'' validatePath [Submit ''  '', Submit ''app/ui'']
     = (Invalid ''Path cannot be empty. Please enter a valid path.''
          # fst (promptLoop ''src/components'' validatePath [Submit ''app/ui'']),
        snd (promptLoop ''src/components'' validatePath [Submit ''app/ui'']))"
    by blast
  moreover from C6_blank_override_rejected
    [where s = "''app/ui''" and dflt = "''src/components''" and rest = "[]"] full(1)
  have "promptLoop ''src/components'' validatePath [Submit ''app/ui''] = ([], Some (''app/ui'', []))"
    by blast
  moreover from C6 interactive full
  have "resolvePaths sampleEnv
        (sampleWorld\<lparr>stdin := [Submit ''app/ui'', Submit ''lib'', Submit ''app/main.css'']\<rparr>)
     = Inr (\<lparr>componentFolder = ''app/ui'', uiFolder = path_join [''app/ui'', ''ui''],
             utilsFolder = ''lib'', cssLocation = ''app/main.css''\<rparr>,
            emit [Prompt ''Components folder:'', Prompt ''Utils folder:'',
                  Prompt ''Where would you like to place the CSS file?'']
              (sampleWorld\<lparr>stdin := []\<rparr>))"
    by simp
  ultimately show ?thesis using blank full interactive by simp
qed

section \<open>C7: the theme under Tailwind 3\<close>

lemma selectTheme_zinc_Inr:
  assumes "isTailwind3 e" and "selectTheme e css w = Inr (g, w')"
  shows "g = Some ''zinc.css'' \<and> (\<exists>content.
           trace w' = trace w @ [ReadFile (path_join [stubs e, ''1.x/zinc.css'']), WriteFile css content])"
  using assms
  by (auto simp: selectTheme_def andThen_def uncaught_def readFileSync_def writeFileSync_def
      split: sum.splits option.splits)

lemma completed_zinc_run:
  assumes tw3: "isTailwind3 e" and run: "init e w = (Completed, w')"
  shows "\<exists>cfg content.
           sublist [ReadFile (path_join [stubs e, ''1.x/zinc.css'']), WriteFile (cfg_css cfg) content]
             (trace w')
           \<and> CreateConfig cfg \<in> set (trace w') \<and> cfg_gray cfg = Some ''zinc''"
proof -
  from init_Completed [OF run] obtain w2 where "initSteps e w2 = Inr ((), w')" by blast
  then obtain l wa wb wc wd currentAlias we selectedGray wf wg wh wi wj wk where
    theme: "selectTheme e (cssLocation l) we = Inr (selectedGray, wf)"
    and install: "installDependencies e wf = Inr ((), wg)"
    and primitive: "fetchPrimitive e l wg = Inr ((), wh)"
    and classes: "fetchClasses e l wh = Inr ((), wi)"
    and provs: "writeProviders e (selectStubs e) (componentFolder l) wi = Inr ((), wj)"
    and config: "createConfigStep e (makeConfig l selectedGray currentAlias) wj = Inr ((), wk)"
    and last: "ensureDir e (uiFolder l) wk = Inr ((), w')"
    unfolding initSteps_def andThen_Inr_iff by auto
  let ?cfg = "makeConfig l selectedGray currentAlias"
  from selectTheme_zinc_Inr [OF tw3 theme] obtain content where
    g: "selectedGray = Some ''zinc.css''"
    and t: "trace wf = trace we @ [ReadFile (path_join [stubs e, ''1.x/zinc.css'']),
                                  WriteFile (cssLocation l) content]"
    by blast
  let ?copy = "[ReadFile (path_join [stubs e, ''1.x/zinc.css'']), WriteFile (cssLocation l) content]"
  have "sublist ?copy (trace wf)" unfolding t by (metis sublist_appendI append_Nil2)
  moreover have "prefix (trace wf) (trace wj)"
    using yields_prefix [OF yields_installDependencies install]
      yields_prefix [OF yields_fetchPrimitive primitive]
      yields_prefix [OF yields_fetchClasses classes]
      yields_prefix [OF yields_writeProviders provs]
    by (meson prefix_order.order_trans)
  moreover have k: "trace wk = trace wj @ [CreateConfig ?cfg]"
    by (rule createConfigStep_Inr [OF config])
  then have "prefix (trace wj) (trace wk)" by simp
  moreover have e: "prefix (trace wk) (trace w')"
    by (rule yields_prefix [OF yields_ensureDir last])
  ultimately have "sublist ?copy (trace w')"
    by (meson sublist_prefix_trans)
  moreover from k e have "CreateConfig ?cfg \<in> set (trace w')"
    by (auto dest: set_mono_prefix)
  moreover from g have "cfg_gray ?cfg = Some ''zinc''" "cfg_css ?cfg = cssLocation l"
    by (simp_all add: makeConfig_def)
  ultimately show ?thesis by metis
qed

lemma selectTheme_other_Inr:
  assumes "\<not> isTailwind3 e" and "selectTheme e css w = Inr (g, w')"
  shows "changeGray e = Inr g \<and> trace w' = trace w @ [ChangeGray css]"
  using assms by (auto simp: selectTheme_def split: sum.splits)

lemma completed_modern_run:
  assumes tw: "\<not> isTailwind3 e" and run: "init e w = (Completed, w')"
  shows "\<exists>cfg selectedGray. changeGray e = Inr selectedGray
           \<and> ChangeGray (cfg_css cfg) \<in> set (trace w')
           \<and> CreateConfig cfg \<in> set (trace w')
           \<and> cfg_gray cfg = map_option (replaceFirst ''.css'' []) selectedGray"
proof -
  from init_Completed [OF run] obtain w2 where "initSteps e w2 = Inr ((), w')" by blast
  then obtain l currentAlias we selectedGray wf wg wh wi wj wk where
    theme: "selectTheme e (cssLocation l) we = Inr (selectedGray, wf)"
    and install: "installDependencies e wf = Inr ((), wg)"
    and primitive: "fetchPrimitive e l wg = Inr ((), wh)"
    and classes: "fetchClasses e l wh = Inr ((), wi)"
    and provs: "writeProviders e (selectStubs e) (componentFolder l) wi = Inr ((), wj)"
    and config: "createConfigStep e (makeConfig l selectedGray currentAlias) wj = Inr ((), wk)"
    and last: "ensureDir e (uiFolder l) wk = Inr ((), w')"
    unfolding initSteps_def andThen_Inr_iff by auto
  let ?cfg = "makeConfig l selectedGray currentAlias"
  from selectTheme_other_Inr [OF tw theme]
  have g: "changeGray e = Inr selectedGray"
    and t: "trace wf = trace we @ [ChangeGray (cssLocation l)]"
    by blast+
  have "prefix (trace wf) (trace wj)"
    using yields_prefix [OF yields_installDependencies install]
      yields_prefix [OF yields_fetchPrimitive primitive]
      yields_prefix [OF yields_fetchClasses classes]
      yields_prefix [OF yields_writeProviders provs]
    by (meson prefix_order.order_trans)
  moreover have k: "trace wk = trace wj @ [CreateConfig ?cfg]"
    by (rule createConfigStep_Inr [OF config])
  moreover have e: "prefix (trace wk) (trace w')"
    by (rule yields_prefix [OF yields_ensureDir last])
  ultimately have "prefix (trace wf) (trace w')"
    by (metis prefix_order.order_trans prefixI)
  with t have "ChangeGray (cssLocation l) \<in> set (trace w')"
    by (auto dest: set_mono_prefix)
  moreover from k e have "CreateConfig ?cfg \<in> set (trace w')"
    by (auto dest: set_mono_prefix)
  moreover have "cfg_css ?cfg = cssLocation l"
    "cfg_gray ?cfg = map_option (replaceFirst ''.css'' []) selectedGray"
    by (simp_all add: makeConfig_def)
  ultimately show ?thesis using g by metis
qed

text \<open>
  C7. Under Tailwind 3 the theme step reads the local \<^verbatim>\<open>1.x/zinc.css\<close> and writes its
  content, as read, to the resolved CSS location; its result is \<^verbatim>\<open>zinc.css\<close>. In the whole
  run \<^verbatim>\<open>changeGray\<close> (the theme selection, with its fetch) is never asked and every
  configuration created has the gray \<^verbatim>\<open>zinc\<close>; a run that completes has copied the stub
  to the CSS location of the configuration it created. Otherwise the step only
  asks \<^verbatim>\<open>changeGray\<close>: it reads no stub and writes no file itself; in the whole run
  the local \<^verbatim>\<open>1.x/zinc.css\<close> is never read, and a run that completes has asked
  \<^verbatim>\<open>changeGray\<close> and persisted the gray it returned, without \<^verbatim>\<open>.css\<close>.
\<close>

theorem C7_zinc_under_tailwind3:
  "(isTailwind3 e \<and> files w (path_join [stubs e, ''1.x/zinc.css'']) = Some content
      \<and> writeError e css = None \<longrightarrow>
      selectTheme e css w =
        Inr (Some ''zinc.css'',
             w\<lparr>files := (files w)(css \<mapsto> content),
               trace := trace w @ [ReadFile (path_join [stubs e, ''1.x/zinc.css'']),
                                   WriteFile css content]\<rparr>))
   \<and> (isTailwind3 e \<longrightarrow>
      (\<exists>evs. trace (snd (init e w)) = trace w @ evs \<and> list_all zincOnly evs))
   \<and> (isTailwind3 e \<and> init e w = (Completed, w') \<longrightarrow>
      (\<exists>cfg copied.
         sublist [ReadFile (path_join [stubs e, ''1.x/zinc.css'']), WriteFile (cfg_css cfg) copied]
           (trace w')
         \<and> CreateConfig cfg \<in> set (trace w') \<and> cfg_gray cfg = Some ''zinc''))
   \<and> (\<not> isTailwind3 e \<longrightarrow>
      selectTheme e css w =
        (case changeGray e of
           Inl a \<Rightarrow> Inl (aborted a (w\<lparr>trace := trace w @ [ChangeGray css]\<rparr>))
         | Inr selectedGray \<Rightarrow> Inr (selectedGray, w\<lparr>trace := trace w @ [ChangeGray css]\<rparr>)))
   \<and> (\<not> isTailwind3 e \<longrightarrow>
      (\<exists>evs. trace (snd (init e w)) = trace w @ evs
         \<and> ReadFile (path_join [stubs e, ''1.x/zinc.css'']) \<notin> set evs))
   \<and> (\<not> isTailwind3 e \<and> init e w = (Completed, w') \<longrightarrow>
      (\<exists>cfg selectedGray. changeGray e = Inr selectedGray
         \<and> ChangeGray (cfg_css cfg) \<in> set (trace w')
         \<and> CreateConfig cfg \<in> set (trace w')
         \<and> cfg_gray cfg = map_option (replaceFirst ''.css'' []) selectedGray))"
  (is "?copy \<and> ?quiet \<and> ?done3 \<and> ?ask \<and> ?unread \<and> ?done4")
proof -
  have ?copy
    by (simp add: selectTheme_def andThen_def uncaught_def readFileSync_def writeFileSync_def
        emit_def)
  moreover have ?quiet
  proof
    assume "isTailwind3 e"
    then show "\<exists>evs. trace (snd (init e w)) = trace w @ evs \<and> list_all zincOnly evs"
      by (intro init_trace) (auto simp: zincOnly_def quiet_def split: event.splits)
  qed
  moreover have ?done3
    using completed_zinc_run [of e w w'] by blast
  moreover have ?ask
    by (simp add: selectTheme_def emit_def split: sum.splits)
  moreover have ?unread
  proof
    assume tw: "\<not> isTailwind3 e"
    have "\<exists>evs. trace (snd (init e w)) = trace w @ evs
        \<and> list_all (\<lambda>ev. ev \<noteq> ReadFile (path_join [stubs e, ''1.x/zinc.css''])) evs"
      by (rule init_trace) (auto simp: tw provider_stubs_not_zinc tsconfig_not_zinc)
    then show "\<exists>evs. trace (snd (init e w)) = trace w @ evs
         \<and> ReadFile (path_join [stubs e, ''1.x/zinc.css'']) \<notin> set evs"
      by (auto simp: list_all_iff)
  qed
  moreover have ?done4
    using completed_modern_run [of e w w'] by blast
  ultimately show ?thesis by blast
qed

theorem C7_zinc_under_tailwind3_witness:
  "isTailwind3 legacyModeEnv
   \<and> files sampleWorld (path_join [stubs legacyModeEnv, ''1.x/zinc.css'']) = Some ''zinc palette''
   \<and> writeError legacyModeEnv ''src/app/globals.css'' = None
   \<and> selectTheme legacyModeEnv ''src/app/globals.css'' sampleWorld =
        Inr (Some ''zinc.css'',
             sampleWorld\<lparr>files := (files sampleWorld)(''src/app/globals.css'' \<mapsto> ''zinc palette''),
               trace := [ReadFile ''/cli/src/resources/stubs/1.x/zinc.css'',
                         WriteFile ''src/app/globals.css'' ''zinc palette'']\<rparr>)
   \<and> init legacyModeEnv sampleWorld = (Completed, snd (init legacyModeEnv sampleWorld))
   \<and> list_all zincOnly (trace (snd (init legacyModeEnv sampleWorld)))
   \<and> (\<exists>cfg copied.
         sublist [ReadFile ''/cli/src/resources/stubs/1.x/zinc.css'', WriteFile (cfg_css cfg) copied]
           (trace (snd (init legacyModeEnv sampleWorld)))
         \<and> CreateConfig cfg \<in> set (trace (snd (init legacyModeEnv sampleWorld)))
         \<and> cfg_gray cfg = Some ''zinc'')
   \<and> \<not> isTailwind3 sampleEnv
   \<and> selectTheme sampleEnv ''src/app/globals.css'' sampleWorld =
        Inr (Some ''slate.css'', sampleWorld\<lparr>trace := [ChangeGray ''src/app/globals.css'']\<rparr>)
   \<and> init sampleEnv sampleWorld = (Completed, snd (init sampleEnv sampleWorld))
   \<and> ReadFile ''/cli/src/resources/stubs/1.x/zinc.css''
       \<notin> set (trace (snd (init sampleEnv sampleWorld)))
   \<and> (\<exists>cfg selectedGray. changeGray sampleEnv = Inr selectedGray
         \<and> ChangeGray (cfg_css cfg) \<in> set (trace (snd (init sampleEnv sampleWorld)))
         \<and> CreateConfig cfg \<in> set (trace (snd (init sampleEnv sampleWorld)))
         \<and> cfg_gray cfg = map_option (replaceFirst ''.css'' []) selectedGray)"
proof -
  have zinc: "path_join [stubs legacyModeEnv, ''1.x/zinc.css''] = ''/cli/src/resources/stubs/1.x/zinc.css''"
    "path_join [stubs sampleEnv, ''1.x/zinc.css''] = ''/cli/src/resources/stubs/1.x/zinc.css''"
    by (simp_all add: legacyModeEnv_def sampleEnv_def path_simps)
  have h: "isTailwind3 legacyModeEnv"
    "files sampleWorld (path_join [stubs legacyModeEnv, ''1.x/zinc.css'']) = Some ''zinc palette''"
    "writeError legacyModeEnv ''src/app/globals.css'' = None"
    "\<not> isTailwind3 sampleEnv" "changeGray sampleEnv = Inr (Some ''slate.css'')"
    "trace sampleWorld = []"
    unfolding zinc
    by (simp_all add: legacyModeEnv_def sampleEnv_def sampleWorld_def sampleFiles_def)
  have "fst (init legacyModeEnv sampleWorld) = Completed" by code_simp
  then have run3: "init legacyModeEnv sampleWorld = (Completed, snd (init legacyModeEnv sampleWorld))"
    by (simp add: prod_eq_iff)
  have "fst (init sampleEnv sampleWorld) = Completed" by code_simp
  then have run4: "init sampleEnv sampleWorld = (Completed, snd (init sampleEnv sampleWorld))"
    by (simp add: prod_eq_iff)
  note C7three = C7_zinc_under_tailwind3
    [where e = legacyModeEnv and w = sampleWorld and css = "''src/app/globals.css''"
       and content = "''zinc palette''" and w' = "snd (init legacyModeEnv sampleWorld)"]
  note C7four = C7_zinc_under_tailwind3
    [where e = sampleEnv and w = sampleWorld and css = "''src/app/globals.css''"
       and w' = "snd (init sampleEnv sampleWorld)"]
  from C7three h
  have "selectTheme legacyModeEnv ''src/app/globals.css'' sampleWorld =
        Inr (Some ''zinc.css'',
             sampleWorld\<lparr>files := (files sampleWorld)(''src/app/globals.css'' \<mapsto> ''zinc palette''),
               trace := [ReadFile ''/cli/src/resources/stubs/1.x/zinc.css'',
                         WriteFile ''src/app/globals.css'' ''zinc palette'']\<rparr>)"
    unfolding zinc by simp
  moreover from C7three h
  have "list_all zincOnly (trace (snd (init legacyModeEnv sampleWorld)))"
    by auto
  moreover from C7three h run3
  have "\<exists>cfg copied.
         sublist [ReadFile ''/cli/src/resources/stubs/1.x/zinc.css'', WriteFile (cfg_css cfg) copied]
           (trace (snd (init legacyModeEnv sampleWorld)))
         \<and> CreateConfig cfg \<in> set (trace (snd (init legacyModeEnv sampleWorld)))
         \<and> cfg_gray cfg = Some ''zinc''"
    unfolding zinc by blast
  moreover from C7four h
  have "selectTheme sampleEnv ''src/app/globals.css'' sampleWorld =
        Inr (Some ''slate.css'', sampleWorld\<lparr>trace := [ChangeGray ''src/app/globals.css'']\<rparr>)"
    by simp
  moreover from C7four h
  have "ReadFile ''/cli/src/resources/stubs/1.x/zinc.css''
       \<notin> set (trace (snd (init sampleEnv sampleWorld)))"
    unfolding zinc by auto
  moreover from C7four h run4
  have "\<exists>cfg selectedGray. changeGray sampleEnv = Inr selectedGray
         \<and> ChangeGray (cfg_css cfg) \<in> set (trace (snd (init sampleEnv sampleWorld)))
         \<and> CreateConfig cfg \<in> set (trace (snd (init sampleEnv sampleWorld)))
         \<and> cfg_gray cfg = map_option (replaceFirst ''.css'' []) selectedGray"
    by blast
  ultimately show ?thesis using h run3 run4 unfolding zinc by blast
qed

section \<open>C8: the check of the working tree\<close>

text \<open>
  C8. With uncommitted changes and no \<^verbatim>\<open>--force\<close> the run never gets past the check: where
  a project exists it asks git, reports the dirty tree with the hint at \<^verbatim>\<open>--force\<close> and
  exits with code 1, having touched nothing else; where none exists it hands over to
  \<^verbatim>\<open>startNewProject\<close> before the check. With \<^verbatim>\<open>--force\<close> git is never asked and the run
  is the same for a dirty and a clean tree.
\<close>

theorem C8_dirty_tree_blocks:
  "(\<not> flag_force e \<and> isRepoDirty e \<longrightarrow>
      init e w =
        (if isProjectExists e
         then (Exited 1,
               emit [GitStatus,
                     LogError ''Git directory is not clean. Please stash or commit your changes before running the init command.'',
                     LogInfo (''You may use the '' @ highlight e ''--force''
                                @ '' flag to silence this warning and perform the initialization anyway.'')] w)
         else (Returned, emit [StartNewProject] w)))
   \<and> (flag_force e \<longrightarrow>
        init (e\<lparr>isRepoDirty := True\<rparr>) w = init (e\<lparr>isRepoDirty := False\<rparr>) w
        \<and> (\<exists>evs. trace (snd (init e w)) = trace w @ evs \<and> GitStatus \<notin> set evs))"
proof (intro conjI impI)
  assume "\<not> flag_force e \<and> isRepoDirty e"
  then show "init e w =
        (if isProjectExists e
         then (Exited 1,
               emit [GitStatus,
                     LogError ''Git directory is not clean. Please stash or commit your changes before running the init command.'',
                     LogInfo (''You may use the '' @ highlight e ''--force''
                                @ '' flag to silence this warning and perform the initialization anyway.'')] w)
         else (Returned, emit [StartNewProject] w))"
    by (simp add: init_def checkGit_def andThen_def finish_def emit_def)
next
  assume f: "flag_force e"
  have "init (e\<lparr>isRepoDirty := b\<rparr>) w = init e w" for b
    using init_retold [where e = e and b = b and c = "installExitCode e" and w = w] f by simp
  then show "init (e\<lparr>isRepoDirty := True\<rparr>) w = init (e\<lparr>isRepoDirty := False\<rparr>) w"
    by simp
next
  assume f: "flag_force e"
  have "\<exists>evs. trace (snd (init e w)) = trace w @ evs \<and> list_all (\<lambda>ev. ev \<noteq> GitStatus) evs"
    by (rule init_trace) (auto simp: f)
  then show "\<exists>evs. trace (snd (init e w)) = trace w @ evs \<and> GitStatus \<notin> set evs"
    by (auto simp: list_all_iff)
qed

text \<open>A dirty tree on the sample host: blocked without the flag, not looked at with it.\<close>

lemma sample_forced_run:
  "fst (init (sampleEnv\<lparr>isRepoDirty := True, flag_force := True\<rparr>) sampleWorld) = Completed"
  by code_simp

theorem C8_dirty_tree_blocks_witness:
  "\<not> flag_force (sampleEnv\<lparr>isRepoDirty := True\<rparr>) \<and> isRepoDirty (sampleEnv\<lparr>isRepoDirty := True\<rparr>)
   \<and> init (sampleEnv\<lparr>isRepoDirty := True\<rparr>) sampleWorld
     = (Exited 1,
        sampleWorld\<lparr>trace :=
          [GitStatus,
           LogError ''Git directory is not clean. Please stash or commit your changes before running the init command.'',
           LogInfo ''You may use the --force flag to silence this warning and perform the initialization anyway.'']\<rparr>)
   \<and> flag_force (sampleEnv\<lparr>isRepoDirty := True, flag_force := True\<rparr>)
   \<and> fst (init (sampleEnv\<lparr>isRepoDirty := True, flag_force := True\<rparr>) sampleWorld) = Completed
   \<and> GitStatus \<notin> set (trace (snd (init (sampleEnv\<lparr>isRepoDirty := True, flag_force := True\<rparr>) sampleWorld)))"
proof -
  have h: "\<not> flag_force (sampleEnv\<lparr>isRepoDirty := True\<rparr>)"
    "isRepoDirty (sampleEnv\<lparr>isRepoDirty := True\<rparr>)"
    "isProjectExists (sampleEnv\<lparr>isRepoDirty := True\<rparr>)"
    "highlight (sampleEnv\<lparr>isRepoDirty := True\<rparr>) = (\<lambda>s. s)"
    "flag_force (sampleEnv\<lparr>isRepoDirty := True, flag_force := True\<rparr>)"
    "trace sampleWorld = []"
    by (simp_all add: sampleEnv_def sampleWorld_def)
  from C8_dirty_tree_blocks [of "sampleEnv\<lparr>isRepoDirty := True\<rparr>" sampleWorld] h
  have "init (sampleEnv\<lparr>isRepoDirty := True\<rparr>) sampleWorld
     = (Exited 1,
        sampleWorld\<lparr>trace :=
          [GitStatus,
           LogError ''Git directory is not clean. Please stash or commit your changes before running the init command.'',
           LogInfo ''You may use the --force flag to silence this warning and perform the initialization anyway.'']\<rparr>)"
    by (simp add: emit_def)
  moreover
  from C8_dirty_tree_blocks [of "sampleEnv\<lparr>isRepoDirty := True, flag_force := True\<rparr>" sampleWorld] h
  have "GitStatus \<notin> set (trace (snd (init (sampleEnv\<lparr>isRepoDirty := True, flag_force := True\<rparr>) sampleWorld)))"
    by auto
  ultimately show ?thesis using h sample_forced_run by simp
qed

section \<open>C9: the UI folder\<close>

text \<open>
  C9. Whatever the framework and whatever components folder the user's answers give, a
  resolved layout has \<^verbatim>\<open>uiFolder = path.join(componentFolder, "ui")\<close>, in both commands,
  and that is the \<^verbatim>\<open>ui\<close> of the persisted configuration; no prompt asks for it.
\<close>

theorem C9_ui_under_components:
  "(resolvePaths e w = Inr (l, w') \<longrightarrow>
      uiFolder l = path_join [componentFolder l, ''ui'']
      \<and> cfg_ui (makeConfig l selectedGray currentAlias) = path_join [componentFolder l, ''ui''])
   \<and> (legacyLayout e w = Inr (ll, w'') \<longrightarrow>
      legacy_uiFolder ll = path_join [componentsFolder ll, ''ui''])"
  by (auto simp: resolvePaths_def legacyLayout_def andThen_Inr_iff makeConfig_def select_def
      Let_def split: if_splits)

theorem C9_ui_under_components_witness:
  "resolvePaths sampleEnv sampleWorld
     = Inr (\<lparr>componentFolder = ''src/components'', uiFolder = ''src/components/ui'',
             utilsFolder = ''src/utils'', cssLocation = ''src/app/globals.css''\<rparr>,
            emit [Prompt ''Components folder:'', Prompt ''Utils folder:'',
                  Prompt ''Where would you like to place the CSS file?'']
              (sampleWorld\<lparr>stdin := []\<rparr>))
   \<and> path_join [''src/components'', ''ui''] = ''src/components/ui''
   \<and> legacyLayout sampleEnv sampleWorld
     = Inr (\<lparr>componentsFolder = ''src/components'', legacy_uiFolder = ''src/components/ui'',
             legacy_cssLocation = ''src/app/globals.css'',
             configSourcePath = ''/cli/src/resources/stubs/next/tailwind.config.next.stub'',
             legacy_themeProvider = ''/cli/src/resources/stubs/next/theme-provider.stub'',
             legacy_providers = Some ''/cli/src/resources/stubs/next/providers.stub''\<rparr>,
            emit [Prompt ''Select the project type:'',
                  Prompt ''Does this project have a src directory?''] sampleWorld)"
proof -
  have modern: "resolvePaths sampleEnv sampleWorld
     = Inr (\<lparr>componentFolder = ''src/components'', uiFolder = ''src/components/ui'',
             utilsFolder = ''src/utils'', cssLocation = ''src/app/globals.css''\<rparr>,
            emit [Prompt ''Components folder:'', Prompt ''Utils folder:'',
                  Prompt ''Where would you like to place the CSS file?'']
              (sampleWorld\<lparr>stdin := []\<rparr>))"
    by (simp add: resolvePaths_def andThen_def input_def validatePath_def trim_def
        isWhiteSpace_def sampleEnv_def sampleWorld_def emit_def join_src_components_ui)
  have older: "legacyLayout sampleEnv sampleWorld
     = Inr (\<lparr>componentsFolder = ''src/components'', legacy_uiFolder = ''src/components/ui'',
             legacy_cssLocation = ''src/app/globals.css'',
             configSourcePath = ''/cli/src/resources/stubs/next/tailwind.config.next.stub'',
             legacy_themeProvider = ''/cli/src/resources/stubs/next/theme-provider.stub'',
             legacy_providers = Some ''/cli/src/resources/stubs/next/providers.stub''\<rparr>,
            emit [Prompt ''Select the project type:'',
                  Prompt ''Does this project have a src directory?''] sampleWorld)"
    by (simp add: legacyLayout_def andThen_def select_def sampleEnv_def emit_def Let_def
        cssPath_nextHasSrc_def path_simps)
  from C9_ui_under_components [THEN conjunct1, THEN mp, OF modern]
  have "path_join [''src/components'', ''ui''] = ''src/components/ui''" by simp
  with modern older show ?thesis by simp
qed

section \<open>C10: the exit code of the install subprocess\<close>

text \<open>
  C10. Whatever exit code the install subprocess closes with, the wait for its close event
  ends and the run goes on: the install step of either command always hands on, with the
  spawn as its only event, and the whole run (outcome, files, events) is the one of exit
  code 0. In either command, a run whose events hold the spawning of the install has the
  fetch of the primitive component right after it; and a run that completes has, after the
  install, fetched the primitive component and written it, and later written the
  configuration (\<^verbatim>\<open>createConfig\<close>, and \<^verbatim>\<open>justd.json\<close> in the older command). On the
  sample host an install that fails with code 1 is followed by the fetches, the file writes
  and the configuration, in both commands.
\<close>

theorem C10_install_exit_code_ignored:
  "init (e\<lparr>installExitCode := code\<rparr>) w = init (e\<lparr>installExitCode := 0\<rparr>) w
   \<and> legacyInit (e\<lparr>installExitCode := code\<rparr>) w = legacyInit (e\<lparr>installExitCode := 0\<rparr>) w
   \<and> installDependencies (e\<lparr>installExitCode := code\<rparr>) w
     = Inr ((), emit [Spawn (installCommand e)] w)
   \<and> legacyInstall (e\<lparr>installExitCode := code\<rparr>) w
     = Inr ((), emit [Spawn (legacyInstallCommand e)] w)
   \<and> (trace (snd (init (e\<lparr>installExitCode := code\<rparr>) w)) = trace w @ evs
        \<and> Spawn (installCommand e) \<in> set evs \<longrightarrow>
      (\<exists>fileUrl. getRepoUrlForComponent (isTailwind3 e) ''primitive'' = Inr fileUrl
         \<and> sublist [Spawn (installCommand e), Fetch fileUrl] evs))
   \<and> (trace (snd (legacyInit (e\<lparr>installExitCode := code\<rparr>) w)) = trace w @ evs'
        \<and> Spawn (legacyInstallCommand e) \<in> set evs' \<longrightarrow>
      (\<exists>fileUrl. getRepoUrlForComponent (isTailwind3 e) ''primitive'' = Inr fileUrl
         \<and> sublist [Spawn (legacyInstallCommand e), Fetch fileUrl] evs'))
   \<and> (init (e\<lparr>installExitCode := code\<rparr>) w = (Completed, w') \<longrightarrow>
      (\<exists>l selectedGray currentAlias fileUrl r url rc before between after.
           getRepoUrlForComponent (isTailwind3 e) ''primitive'' = Inr fileUrl
         \<and> fetch e fileUrl = Inr r \<and> resp_ok r
         \<and> getUtilsFolder (isTailwind3 e) ''classes.ts'' = Inr url \<and> fetch e url = Inr rc
         \<and> trace w' = trace w @ before @
               [Spawn (installCommand e),
                Fetch fileUrl,
                WriteFile (path_join [uiFolder l, ''primitive.tsx''])
                  (if isLaravel e then replaceUseClient (resp_body r) else resp_body r),
                WriteFile (path_join [uiFolder l, ''index.ts'']) indexSource,
                Fetch url,
                WriteFile (path_join [utilsFolder l, ''classes.ts'']) (resp_body rc)]
               @ between @ [CreateConfig (makeConfig l selectedGray currentAlias)] @ after))
   \<and> (legacyInit (e\<lparr>installExitCode := code\<rparr>) w = (Completed, w'') \<longrightarrow>
      (\<exists>(l :: legacy_layout) fileUrl r before between after.
           getRepoUrlForComponent (isTailwind3 e) ''primitive'' = Inr fileUrl
         \<and> fetch e fileUrl = Inr r
         \<and> trace w'' = trace w @ before @
               [Spawn (legacyInstallCommand e),
                Fetch fileUrl,
                WriteFile (path_join [legacy_uiFolder l, ''primitive.tsx'']) (resp_body r)]
               @ between @ [WriteFile ''justd.json'' (legacyConfigJson (legacy_uiFolder l))] @ after
         \<and> files w'' ''justd.json'' = Some (legacyConfigJson (legacy_uiFolder l))))
   \<and> fst (init (sampleEnv\<lparr>installExitCode := 1\<rparr>) sampleWorld) = Completed
   \<and> trace (snd (init (sampleEnv\<lparr>installExitCode := 1\<rparr>) sampleWorld))
     = [GitStatus, Prompt ''Components folder:'', Prompt ''Utils folder:'',
        Prompt ''Where would you like to place the CSS file?'',
        Mkdir ''src/utils'', Mkdir ''src/components/ui'',
        ReadFile ''/project/tsconfig.json'', AddUiPathToTsConfig,
        ChangeGray ''src/app/globals.css'',
        Spawn ''npm i react-aria-components justd-icons && npm i -D tailwind-variants tailwind-merge tailwindcss-animate next-themes  --silent'',
        Fetch ''https://raw.githubusercontent.com/irsyadadl/justd/2.x/components/ui/primitive.tsx'',
        WriteFile ''src/components/ui/primitive.tsx''
          ''// https://raw.githubusercontent.com/irsyadadl/justd/2.x/components/ui/primitive.tsx'',
        WriteFile ''src/components/ui/index.ts'' indexSource,
        Fetch ''https://raw.githubusercontent.com/irsyadadl/justd/refs/heads/2.x/utils/classes.ts'',
        WriteFile ''src/utils/classes.ts''
          ''// https://raw.githubusercontent.com/irsyadadl/justd/refs/heads/2.x/utils/classes.ts'',
        ReadFile ''/cli/src/resources/stubs/next/theme-provider.stub'',
        WriteFile ''src/components/theme-provider.tsx'' ''theme provider'',
        ReadFile ''/cli/src/resources/stubs/next/providers.stub'',
        WriteFile ''src/components/providers.tsx'' ''providers'',
        CreateConfig
          \<lparr>cfg_schema = ''https://getjustd.com/schema.json'', cfg_ui = ''src/components/ui'',
           cfg_utils = ''src/utils'', cfg_gray = Some ''slate'', cfg_css = ''src/app/globals.css'',
           cfg_alias = Some ''@''\<rparr>]
   \<and> fst (legacyInit (sampleEnv\<lparr>installExitCode := 1\<rparr>) sampleWorld) = Completed
   \<and> trace (snd (legacyInit (sampleEnv\<lparr>installExitCode := 1\<rparr>) sampleWorld))
     = [Prompt ''Select the project type:'', Prompt ''Does this project have a src directory?'',
        Mkdir ''src/components/ui'',
        ReadFile ''/cli/src/resources/tailwind-css/app.css'',
        WriteFile ''src/app/globals.css'' ''app css'',
        ReadFile ''/cli/src/resources/stubs/next/tailwind.config.next.stub'',
        WriteFile ''tailwind.config.ts'' ''tailwind config'',
        Spawn ''npm i  react-aria-components tailwindcss-react-aria-components tailwind-variants tailwind-merge clsx justd-icons tailwindcss-animate'',
        Fetch ''https://raw.githubusercontent.com/irsyadadl/justd/2.x/components/ui/primitive.tsx'',
        WriteFile ''src/components/ui/primitive.tsx''
          ''// https://raw.githubusercontent.com/irsyadadl/justd/2.x/components/ui/primitive.tsx'',
        ReadFile ''/cli/src/resources/stubs/next/theme-provider.stub'',
        WriteFile ''src/components/theme-provider.tsx'' ''theme provider'',
        ReadFile ''/cli/src/resources/stubs/next/providers.stub'',
        WriteFile ''src/components/providers.tsx'' ''providers'',
        WriteFile ''justd.json'' (legacyConfigJson ''src/components/ui''),
        Spawn ''npx justd-cli@latest add'',
        Prompt ''Hey look! You made it this far! How about a quick star on our GitHub repo?'']
   \<and> files (snd (legacyInit (sampleEnv\<lparr>installExitCode := 1\<rparr>) sampleWorld)) ''justd.json''
     = Some (legacyConfigJson ''src/components/ui'')"
  (is "?same \<and> ?sameOlder \<and> ?step \<and> ?stepOlder \<and> ?next \<and> ?nextOlder \<and> ?done \<and> ?doneOlder
       \<and> ?sample \<and> ?sampleTrace \<and> ?sampleOlder \<and> ?sampleOlderTrace \<and> ?sampleOlderFile")
proof -
  have modern: "init (e\<lparr>installExitCode := c\<rparr>) w = init e w" for c
    using init_retold [where e = e and b = "isRepoDirty e" and c = c and w = w] by simp
  have older: "legacyInit (e\<lparr>installExitCode := c\<rparr>) w = legacyInit e w" for c
    using legacyInit_retold [where e = e and b = "isRepoDirty e" and c = c] by simp
  have ?same using modern by simp
  moreover have ?sameOlder using older by simp
  moreover have ?step
    using calls_retold(6) [where e = e and b = "isRepoDirty e" and c = code]
    by (simp add: installDependencies_def andThen_def awaitClose_def)
  moreover have ?stepOlder
    using calls_retold(7) [where e = e and b = "isRepoDirty e" and c = code]
    by (simp add: legacyInstall_def andThen_def awaitClose_def)
  moreover have ?next
  proof
    assume a: "trace (snd (init (e\<lparr>installExitCode := code\<rparr>) w)) = trace w @ evs
        \<and> Spawn (installCommand e) \<in> set evs"
    obtain fileUrl where url: "getRepoUrlForComponent (isTailwind3 e) ''primitive'' = Inr fileUrl"
      using getRepoUrlForComponent_Inr by blast
    let ?m = "andThen (checkGit e) (\<lambda>u. andThen (checkTailwindInstalled e) (\<lambda>u. initSteps e))"
    from a have run: "trace (snd (init e w)) = trace w @ evs" by (simp add: modern)
    with a have "isProjectExists e"
      by (auto simp: init_def split: if_splits)
    with run have "trace (worldAfter (?m w)) = trace w @ evs"
      by (simp add: init_def snd_finish)
    with passesInstall_init [OF url] a
    have "sublist [Spawn (installCommand e), Fetch fileUrl] evs"
      by (intro passesInstall_sublist [where m = ?m and w = w]) simp_all
    with url show "\<exists>fileUrl. getRepoUrlForComponent (isTailwind3 e) ''primitive'' = Inr fileUrl
         \<and> sublist [Spawn (installCommand e), Fetch fileUrl] evs" by blast
  qed
  moreover have ?nextOlder
  proof
    assume a: "trace (snd (legacyInit (e\<lparr>installExitCode := code\<rparr>) w)) = trace w @ evs'
        \<and> Spawn (legacyInstallCommand e) \<in> set evs'"
    obtain fileUrl where url: "getRepoUrlForComponent (isTailwind3 e) ''primitive'' = Inr fileUrl"
      using getRepoUrlForComponent_Inr by blast
    let ?m = "andThen requireTailwindConfig (\<lambda>u. legacySteps e)"
    from a have "trace (snd (legacyInit e w)) = trace w @ evs'" by (simp add: older)
    then have "trace (worldAfter (?m w)) = trace w @ evs'"
      by (simp add: legacyInit_def snd_finish)
    with passesInstall_legacy [OF url] a
    have "sublist [Spawn (legacyInstallCommand e), Fetch fileUrl] evs'"
      by (intro passesInstall_sublist [where m = ?m and w = w]) simp_all
    with url show "\<exists>fileUrl. getRepoUrlForComponent (isTailwind3 e) ''primitive'' = Inr fileUrl
         \<and> sublist [Spawn (legacyInstallCommand e), Fetch fileUrl] evs'" by blast
  qed
  moreover have ?done
    using init_completed_events [of e w w'] by (simp add: modern)
  moreover have ?doneOlder
    using legacyInit_completed_events [of e w w''] by (simp add: older)
  moreover have ?sample by code_simp
  moreover have ?sampleTrace by code_simp
  moreover have ?sampleOlder by code_simp
  moreover have ?sampleOlderTrace by code_simp
  moreover have ?sampleOlderFile by code_simp
  ultimately show ?thesis by blast
qed

text \<open>The sample host with an install that fails: both commands go on to the end.\<close>

theorem C10_install_exit_code_ignored_witness:
  "Spawn (installCommand sampleEnv)
     \<in> set (trace (snd (init (sampleEnv\<lparr>installExitCode := 1\<rparr>) sampleWorld)))
   \<and> (\<exists>fileUrl. getRepoUrlForComponent (isTailwind3 sampleEnv) ''primitive'' = Inr fileUrl
        \<and> sublist [Spawn (installCommand sampleEnv), Fetch fileUrl]
             (trace (snd (init (sampleEnv\<lparr>installExitCode := 1\<rparr>) sampleWorld))))
   \<and> Spawn (legacyInstallCommand sampleEnv)
     \<in> set (trace (snd (legacyInit (sampleEnv\<lparr>installExitCode := 1\<rparr>) sampleWorld)))
   \<and> (\<exists>fileUrl. getRepoUrlForComponent (isTailwind3 sampleEnv) ''primitive'' = Inr fileUrl
        \<and> sublist [Spawn (legacyInstallCommand sampleEnv), Fetch fileUrl]
             (trace (snd (legacyInit (sampleEnv\<lparr>installExitCode := 1\<rparr>) sampleWorld))))
   \<and> fst (init (sampleEnv\<lparr>installExitCode := 1\<rparr>) sampleWorld) = Completed
   \<and> (\<exists>l selectedGray currentAlias fileUrl r url rc before between after.
         fetch sampleEnv fileUrl = Inr r \<and> fetch sampleEnv url = Inr rc
         \<and> trace (snd (init (sampleEnv\<lparr>installExitCode := 1\<rparr>) sampleWorld)) = before @
               [Spawn (installCommand sampleEnv),
                Fetch fileUrl,
                WriteFile (path_join [uiFolder l, ''primitive.tsx'']) (resp_body r),
                WriteFile (path_join [uiFolder l, ''index.ts'']) indexSource,
                Fetch url,
                WriteFile (path_join [utilsFolder l, ''classes.ts'']) (resp_body rc)]
               @ between @ [CreateConfig (makeConfig l selectedGray currentAlias)] @ after)
   \<and> fst (legacyInit (sampleEnv\<lparr>installExitCode := 1\<rparr>) sampleWorld) = Completed
   \<and> (\<exists>(l :: legacy_layout) fileUrl r before between after.
         fetch sampleEnv fileUrl = Inr r
         \<and> trace (snd (legacyInit (sampleEnv\<lparr>installExitCode := 1\<rparr>) sampleWorld)) = before @
               [Spawn (legacyInstallCommand sampleEnv),
                Fetch fileUrl,
                WriteFile (path_join [legacy_uiFolder l, ''primitive.tsx'']) (resp_body r)]
               @ between @ [WriteFile ''justd.json'' (legacyConfigJson (legacy_uiFolder l))] @ after
         \<and> files (snd (legacyInit (sampleEnv\<lparr>installExitCode := 1\<rparr>) sampleWorld)) ''justd.json''
           = Some (legacyConfigJson (legacy_uiFolder l)))"
proof -
  let ?e = "sampleEnv\<lparr>installExitCode := 1\<rparr>"
  have h: "trace sampleWorld = []" "\<not> isLaravel sampleEnv"
    by (simp_all add: sampleWorld_def sampleEnv_def)
  have spawned: "Spawn (installCommand sampleEnv) \<in> set (trace (snd (init ?e sampleWorld)))"
    "Spawn (legacyInstallCommand sampleEnv) \<in> set (trace (snd (legacyInit ?e sampleWorld)))"
    by code_simp+
  have completed: "fst (init ?e sampleWorld) = Completed" by code_simp
  then have run: "init ?e sampleWorld = (Completed, snd (init ?e sampleWorld))"
    by (simp add: prod_eq_iff)
  have completedOlder: "fst (legacyInit ?e sampleWorld) = Completed" by code_simp
  then have runOlder: "legacyInit ?e sampleWorld = (Completed, snd (legacyInit ?e sampleWorld))"
    by (simp add: prod_eq_iff)
  note C10 = C10_install_exit_code_ignored
    [where e = sampleEnv and code = 1 and w = sampleWorld
       and evs = "trace (snd (init ?e sampleWorld))"
       and evs' = "trace (snd (legacyInit ?e sampleWorld))"
       and w' = "snd (init ?e sampleWorld)" and w'' = "snd (legacyInit ?e sampleWorld)"]
  note later = C10 [THEN conjunct2, THEN conjunct2, THEN conjunct2, THEN conjunct2]
  have reached: "trace (snd (init ?e sampleWorld)) = trace sampleWorld @ trace (snd (init ?e sampleWorld))
      \<and> Spawn (installCommand sampleEnv) \<in> set (trace (snd (init ?e sampleWorld)))"
    "trace (snd (legacyInit ?e sampleWorld))
        = trace sampleWorld @ trace (snd (legacyInit ?e sampleWorld))
      \<and> Spawn (legacyInstallCommand sampleEnv) \<in> set (trace (snd (legacyInit ?e sampleWorld)))"
    using h spawned by simp_all
  from later [THEN conjunct1, THEN mp, OF reached(1)]
  have "\<exists>fileUrl. getRepoUrlForComponent (isTailwind3 sampleEnv) ''primitive'' = Inr fileUrl
        \<and> sublist [Spawn (installCommand sampleEnv), Fetch fileUrl]
             (trace (snd (init ?e sampleWorld)))" .
  moreover from later [THEN conjunct2, THEN conjunct1, THEN mp, OF reached(2)]
  have "\<exists>fileUrl. getRepoUrlForComponent (isTailwind3 sampleEnv) ''primitive'' = Inr fileUrl
        \<and> sublist [Spawn (legacyInstallCommand sampleEnv), Fetch fileUrl]
             (trace (snd (legacyInit ?e sampleWorld)))" .
  moreover from later [THEN conjunct2, THEN conjunct2, THEN conjunct1, THEN mp, OF run]
  obtain l selectedGray currentAlias fileUrl r url rc before between after where
    "fetch sampleEnv fileUrl = Inr r" "fetch sampleEnv url = Inr rc"
    "trace (snd (init ?e sampleWorld)) = trace sampleWorld @ before @
               [Spawn (installCommand sampleEnv),
                Fetch fileUrl,
                WriteFile (path_join [uiFolder l, ''primitive.tsx''])
                  (if isLaravel sampleEnv then replaceUseClient (resp_body r) else resp_body r),
                WriteFile (path_join [uiFolder l, ''index.ts'']) indexSource,
                Fetch url,
                WriteFile (path_join [utilsFolder l, ''classes.ts'']) (resp_body rc)]
               @ between @ [CreateConfig (makeConfig l selectedGray currentAlias)] @ after"
    by blast
  with h have "\<exists>l selectedGray currentAlias fileUrl r url rc before between after.
         fetch sampleEnv fileUrl = Inr r \<and> fetch sampleEnv url = Inr rc
         \<and> trace (snd (init ?e sampleWorld)) = before @
               [Spawn (installCommand sampleEnv),
                Fetch fileUrl,
                WriteFile (path_join [uiFolder l, ''primitive.tsx'']) (resp_body r),
                WriteFile (path_join [uiFolder l, ''index.ts'']) indexSource,
                Fetch url,
                WriteFile (path_join [utilsFolder l, ''classes.ts'']) (resp_body rc)]
               @ between @ [CreateConfig (makeConfig l selectedGray currentAlias)] @ after"
    by (simp del: append_assoc) blast
  moreover from later [THEN conjunct2, THEN conjunct2, THEN conjunct2, THEN conjunct1, THEN mp,
      OF runOlder]
  obtain ll :: legacy_layout and fileUrl r before between after where
    "fetch sampleEnv fileUrl = Inr r"
    "trace (snd (legacyInit ?e sampleWorld)) = trace sampleWorld @ before @
               [Spawn (legacyInstallCommand sampleEnv),
                Fetch fileUrl,
                WriteFile (path_join [legacy_uiFolder ll, ''primitive.tsx'']) (resp_body r)]
               @ between @ [WriteFile ''justd.json'' (legacyConfigJson (legacy_uiFolder ll))] @ after"
    "files (snd (legacyInit ?e sampleWorld)) ''justd.json''
           = Some (legacyConfigJson (legacy_uiFolder ll))"
    by blast
  with h have "\<exists>(l :: legacy_layout) fileUrl r before between after.
         fetch sampleEnv fileUrl = Inr r
         \<and> trace (snd (legacyInit ?e sampleWorld)) = before @
               [Spawn (legacyInstallCommand sampleEnv),
                Fetch fileUrl,
                WriteFile (path_join [legacy_uiFolder l, ''primitive.tsx'']) (resp_body r)]
               @ between @ [WriteFile ''justd.json'' (legacyConfigJson (legacy_uiFolder l))] @ after
         \<and> files (snd (legacyInit ?e sampleWorld)) ''justd.json''
           = Some (legacyConfigJson (legacy_uiFolder l))"
    by (simp del: append_assoc) blast
  ultimately show ?thesis using spawned completed completedOlder by blast
qed

end
